theory Spec2Isabelle
  imports Complex_Main "HOL-Library.Sublist" "HOL-Library.AList" "HOL-Library.Multiset"
    "HOL-Library.Product_Lexorder"
begin

section \<open>JavaScript values\<close>

text \<open>
  Tool arguments arrive as the JSON object of an MCP request (\<open>Record<string, any>\<close>), so
  an argument is a JSON value, or \<open>undefined\<close> when the property is absent. A JSON number
  is finite, hence a rational; it is carried as a real. A \<open>char\<close> of an argument string
  stands for one UTF-16 code unit, so that \<open>length\<close> is JavaScript's \<open>.length\<close>.
\<close>

datatype jsval =
    JUndefined
  | JNull
  | JBool bool
  | JNum real
  | JStr string
  | JArr "jsval list"
  | JObj "(string \<times> jsval) list"

type_synonym args = "string \<Rightarrow> jsval"

text \<open>JavaScript's ToBoolean, as used by \<open>if (x)\<close>, \<open>x ? a : b\<close> and \<open>x || y\<close>.\<close>

fun truthy :: "jsval \<Rightarrow> bool" where
  "truthy JUndefined = False"
| "truthy JNull = False"
| "truthy (JBool b) = b"
| "truthy (JNum n) = (n \<noteq> 0)"
| "truthy (JStr s) = (s \<noteq> [])"
| "truthy (JArr xs) = True"
| "truthy (JObj kvs) = True"

text \<open>
  A thrown value, as \<open>ErrorHandler.handle\<close> tells them apart: an \<open>Error\<close> instance with
  its message (a text, as the \<open>Error\<close> constructor makes it), a thrown string, or anything
  else. Of a value of the last kind \<open>handle\<close> reads the \<open>message\<close> property and puts it
  into a template literal: the property is absent or falsy, or it is a truthy value that
  the literal renders as a text, or a truthy value that cannot be converted to a string (a
  symbol, an object without a callable \<open>toString\<close> and \<open>valueOf\<close>), in which case the
  literal throws a \<open>TypeError\<close> with the given message.
\<close>

datatype message_property =
    NoMessage
  | MessageText string
  | MessageThrows string

datatype jserror =
    Error string
  | ThrownString string
  | ThrownOther message_property

text \<open>
  A value inside a template literal (ToString) throws a \<open>TypeError\<close> when it is an object
  that cannot be converted to a primitive. An object parsed from JSON inherits
  \<open>Object.prototype.toString\<close>, unless it has an own property \<open>toString\<close>, whose value
  cannot be a function; an array is joined, which converts its elements.
\<close>

fun unconvertible :: "jsval \<Rightarrow> bool" where
  "unconvertible (JObj kvs) = (map_of kvs ''toString'' \<noteq> None)"
| "unconvertible (JArr xs) = (\<exists>x \<in> set xs. unconvertible x)"
| "unconvertible v = False"

definition cannot_convert :: jserror where
  "cannot_convert = Error ''Cannot convert object to primitive value''"

text \<open>Decimal rendering of a non-negative integer, as a template literal prints it.\<close>

definition digit :: "nat \<Rightarrow> char" where
  "digit d = char_of (48 + d)"

fun show_nat :: "nat \<Rightarrow> string" where
  "show_nat n = (if n < 10 then [digit n] else show_nat (n div 10) @ [digit (n mod 10)])"

declare show_nat.simps [simp del]

text \<open>\<open>Array.prototype.join\<close> on strings.\<close>

fun join :: "string \<Rightarrow> string list \<Rightarrow> string" where
  "join sep [] = []"
| "join sep [x] = x"
| "join sep (x # y # ys) = x @ sep @ join sep (y # ys)"

section \<open>src/types/mcp.ts and utils/error-handler.ts\<close>

text \<open>
  An \<open>MCPResponse\<close> is \<open>{ content: [{type: 'text', text}], isError?: boolean }\<close>: the
  content is the list of its text items, and \<open>isError\<close> is \<open>None\<close> when the property is
  absent.
\<close>

record MCPResponse =
  content :: "string list"
  isError :: "bool option"

record ValidationError =
  field :: string
  message :: string

text \<open>
  \<open>ErrorHandler.handle\<close>. The call to \<open>logger.error\<close> writes to the console only and is
  not part of the response. \<open>errorMessage\<close> is the text that the template literal
  \<open>`Error: ${errorMessage}`\<close> makes of the local variable of that name; when the literal
  throws, so does \<open>handle\<close>.
\<close>

fun errorMessage :: "jserror \<Rightarrow> jserror + string" where
  "errorMessage (Error m) = Inr m"
| "errorMessage (ThrownString s) = Inr s"
| "errorMessage (ThrownOther (MessageText m)) = Inr m"
| "errorMessage (ThrownOther NoMessage) = Inr ''An unexpected error occurred''"
| "errorMessage (ThrownOther (MessageThrows t)) = Inl (Error t)"

definition handle :: "jserror \<Rightarrow> string \<Rightarrow> jserror + MCPResponse" where
  "handle error context =
     (case errorMessage error of
        Inl e \<Rightarrow> Inl e
      | Inr msg \<Rightarrow> Inr \<lparr>content = [''Error: '' @ msg], isError = Some True\<rparr>)"

definition handleValidationErrors :: "ValidationError list \<Rightarrow> MCPResponse" where
  "handleValidationErrors errors =
     (let errorMessages = join [CHR 0x0A] (map (\<lambda>e. ''- '' @ field e @ '': '' @ message e) errors)
      in \<lparr>content = [''Validation errors:'' @ [CHR 0x0A] @ errorMessages], isError = Some True\<rparr>)"

text \<open>\<open>ErrorHandler.success\<close>; every caller in the tools omits the \<open>data\<close> argument.\<close>

definition success :: "string \<Rightarrow> MCPResponse" where
  "success msg = \<lparr>content = [msg], isError = None\<rparr>"

section \<open>src/utils/validator.ts\<close>

text \<open>
  \<open>null\<close> is \<open>None\<close>. \<open>validateNumber\<close> and \<open>validateEnum\<close> are called by no tool
  handler and are not modelled.
\<close>

definition validateRequired :: "jsval \<Rightarrow> string \<Rightarrow> ValidationError option" where
  "validateRequired v fieldName =
     (if v = JUndefined \<or> v = JNull \<or> v = JStr []
      then Some \<lparr>field = fieldName, message = fieldName @ '' is required''\<rparr>
      else None)"

text \<open>
  \<open>minLength && value.length < minLength\<close>: an absent bound and the bound 0 are both
  falsy, so neither is checked.
\<close>

definition validateString :: "jsval \<Rightarrow> string \<Rightarrow> nat option \<Rightarrow> nat option \<Rightarrow> ValidationError option" where
  "validateString v fieldName minLength maxLength =
     (case v of
        JStr s \<Rightarrow>
          (case minLength of
             Some mn \<Rightarrow>
               if mn \<noteq> 0 \<and> length s < mn
               then Some \<lparr>field = fieldName,
                          message = fieldName @ '' must be at least '' @ show_nat mn @ '' characters''\<rparr>
               else (case maxLength of
                       Some mx \<Rightarrow>
                         if mx \<noteq> 0 \<and> length s > mx
                         then Some \<lparr>field = fieldName,
                                    message = fieldName @ '' must be at most '' @ show_nat mx @ '' characters''\<rparr>
                         else None
                     | None \<Rightarrow> None)
           | None \<Rightarrow>
               (case maxLength of
                  Some mx \<Rightarrow>
                    if mx \<noteq> 0 \<and> length s > mx
                    then Some \<lparr>field = fieldName,
                               message = fieldName @ '' must be at most '' @ show_nat mx @ '' characters''\<rparr>
                    else None
                | None \<Rightarrow> None))
      | _ \<Rightarrow> Some \<lparr>field = fieldName, message = fieldName @ '' must be a string''\<rparr>)"

definition collectErrors :: "ValidationError option list \<Rightarrow> ValidationError list" where
  "collectErrors validations = List.map_filter (\<lambda>v. v) validations"

section \<open>src/types/linear.ts\<close>

text \<open>
  The small objects nested in issues and projects. The same shapes serve for the entities
  the SDK hands back (workflow state, user, team, project, label) and for their copies in
  \<open>LinearIssue\<close> and \<open>LinearProject\<close>.
\<close>

record StateRef =
  state_id :: string
  state_name :: string
  state_type :: string

record UserRef =
  user_id :: string
  user_name :: string
  user_email :: string

record NamedRef =
  ref_id :: string
  ref_name :: string

record LinearTeam =
  team_id :: string
  team_name :: string
  team_key :: string
  team_description :: "string option"

record TeamRef =
  tref_id :: string
  tref_name :: string
  tref_key :: string

record LabelRef =
  label_id :: string
  label_name :: string
  label_color :: string

record LinearIssue =
  li_id :: string
  li_identifier :: string
  li_title :: string
  li_description :: "string option"
  li_priority :: real
  li_priorityLabel :: string
  li_state :: StateRef
  li_assignee :: "UserRef option"
  li_creator :: NamedRef
  li_project :: "NamedRef option"
  li_team :: TeamRef
  li_labels :: "LabelRef list"
  li_createdAt :: string
  li_updatedAt :: string
  li_url :: string

record LinearProject =
  lp_id :: string
  lp_name :: string
  lp_description :: "string option"
  lp_state :: string
  lp_progress :: real
  lp_startDate :: "string option"
  lp_targetDate :: "string option"
  lp_team :: NamedRef
  lp_lead :: "NamedRef option"
  lp_url :: string

text \<open>
  \<open>IssueFilter\<close>, \<open>IssueCreateInput\<close> and \<open>IssueUpdateInput\<close>. The handlers fill them
  from unchecked arguments (\<open>any\<close>), so a field holds whatever value the caller sent;
  a field left out of the object literal is \<open>JUndefined\<close>.
\<close>

record IssueFilter =
  f_assigneeId :: jsval
  f_creatorId :: jsval
  f_priority :: jsval
  f_stateType :: jsval
  f_labelIds :: jsval
  f_projectId :: jsval

record IssueCreateInput =
  c_title :: jsval
  c_description :: jsval
  c_priority :: jsval
  c_assigneeId :: jsval
  c_projectId :: jsval
  c_labelIds :: jsval
  c_stateId :: jsval

record IssueUpdateInput =
  u_title :: jsval
  u_description :: jsval
  u_priority :: jsval
  u_assigneeId :: jsval
  u_projectId :: jsval
  u_stateId :: jsval
  u_labelIds :: jsval

definition no_update :: IssueUpdateInput where
  "no_update = \<lparr>u_title = JUndefined, u_description = JUndefined, u_priority = JUndefined,
     u_assigneeId = JUndefined, u_projectId = JUndefined, u_stateId = JUndefined,
     u_labelIds = JUndefined\<rparr>"

section \<open>The Linear SDK, as the client wrapper uses it\<close>

text \<open>
  \<open>@linear/sdk\<close> is not part of the repository; the wrapper is parametric in it. An
  \<open>Issue\<close> or \<open>Project\<close> of the SDK is taken with its lazily fetched relations already
  resolved (\<open>None\<close> where the relation is \<open>undefined\<close>) and its dates already in ISO
  form. Every SDK call runs against the tracker, whose state has the abstract type \<open>'s\<close>:
  a call takes the state and returns the new one with either the thrown value (\<open>Inl\<close>)
  or the result. A relation fetch that rejects after the call itself succeeded is the
  \<open>Inl\<close> result with the state the call left behind.
\<close>

record Issue =
  issue_id :: string
  issue_identifier :: string
  issue_title :: string
  issue_description :: "string option"
  issue_priority :: real
  issue_priorityLabel :: string
  issue_state :: "StateRef option"
  issue_assignee :: "UserRef option"
  issue_creator :: "NamedRef option"
  issue_project :: "NamedRef option"
  issue_team :: "TeamRef option"
  issue_labels :: "LabelRef list"
  issue_createdAt :: string
  issue_updatedAt :: string
  issue_url :: string

record Project =
  project_id :: string
  project_name :: string
  project_description :: "string option"
  project_state :: string
  project_progress :: real
  project_startDate :: "string option"
  project_targetDate :: "string option"
  project_team :: "NamedRef option"
  project_lead :: "NamedRef option"
  project_url :: string

record Comment =
  comment_id :: string
  comment_body :: string

text \<open>The argument of \<open>client.issues\<close>: the filter object built by \<open>listIssues\<close>.\<close>

record IssuesQuery =
  q_team :: string
  q_assignee :: "jsval option"
  q_priority :: "jsval option"
  q_stateType :: "jsval option"
  q_project :: "jsval option"
  q_first :: jsval
  q_orderBy :: string

record SDKIssueCreate =
  sc_teamId :: string
  sc_input :: IssueCreateInput

type_synonym ('a, 's) call = "'s \<Rightarrow> (jserror + 'a) \<times> 's"

text \<open>
  The SDK offers more than the wrapper uses; \<open>deleteIssue\<close> and \<open>archiveIssue\<close> stand
  for the destructive part of its interface.
\<close>

record 's LinearSDK =
  sdk_issues :: "IssuesQuery \<Rightarrow> (Issue list, 's) call"
  sdk_issue :: "jsval \<Rightarrow> (Issue, 's) call"
  sdk_createIssue :: "SDKIssueCreate \<Rightarrow> (Issue option, 's) call"
  sdk_updateIssue :: "jsval \<Rightarrow> IssueUpdateInput \<Rightarrow> (Issue option, 's) call"
  sdk_createComment :: "jsval \<Rightarrow> jsval \<Rightarrow> (Comment option, 's) call"
  sdk_issueSearch :: "jsval \<Rightarrow> jsval \<Rightarrow> string \<Rightarrow> (Issue list, 's) call"
  sdk_projects :: "string \<Rightarrow> jsval \<Rightarrow> (Project list, 's) call"
  sdk_project :: "jsval \<Rightarrow> (Project, 's) call"
  sdk_createProject :: "string list \<Rightarrow> jsval \<Rightarrow> jsval \<Rightarrow> (Project option, 's) call"
  sdk_teams :: "(LinearTeam list, 's) call"
  sdk_deleteIssue :: "jsval \<Rightarrow> (bool, 's) call"
  sdk_archiveIssue :: "jsval \<Rightarrow> (bool, 's) call"

text \<open>
  A request to the SDK as a value: which of its calls, with which arguments. The last two
  are the destructive calls, which the wrapper never makes.
\<close>

datatype sdk_request =
    ReqIssues IssuesQuery
  | ReqIssue jsval
  | ReqCreateIssue SDKIssueCreate
  | ReqUpdateIssue jsval IssueUpdateInput
  | ReqCreateComment jsval jsval
  | ReqIssueSearch jsval jsval string
  | ReqProjects string jsval
  | ReqProject jsval
  | ReqCreateProject "string list" jsval jsval
  | ReqTeams
  | ReqDeleteIssue jsval
  | ReqArchiveIssue jsval

text \<open>Sequencing of calls: the first thrown value ends the sequence, as \<open>await\<close> does.\<close>

definition bind :: "('a, 's) call \<Rightarrow> ('a \<Rightarrow> ('b, 's) call) \<Rightarrow> ('b, 's) call" where
  "bind m f s = (case m s of (Inl e, s') \<Rightarrow> (Inl e, s') | (Inr x, s') \<Rightarrow> f x s')"

definition ret :: "'a \<Rightarrow> ('a, 's) call" where
  "ret x s = (Inr x, s)"

definition throw :: "jserror \<Rightarrow> ('a, 's) call" where
  "throw e s = (Inl e, s)"

definition lift :: "jserror + 'a \<Rightarrow> ('a, 's) call" where
  "lift r s = (r, s)"

section \<open>src/linear-client.ts\<close>

text \<open>
  The wrapper class: the SDK instance and the team id. Its \<open>logger\<close> calls write to the
  console only, and what they write is left out; what is kept of them is the template
  literal that makes the text of a line, which throws when it holds a caller's value that
  cannot be converted. Each method's \<open>catch\<close> logs and rethrows: a thrown value passes
  through unchanged, unless the text of the log line cannot be made, and then the
  \<open>TypeError\<close> of the literal is thrown in its place.
\<close>

record 's LinearClient =
  client :: "'s LinearSDK"
  teamId :: string

definition template :: "jsval \<Rightarrow> (unit, 's) call" where
  \<comment> \<open>\<open>logger.info(`... ${v} ...`)\<close>: the literal is evaluated, the text only logged.\<close>
  "template v = (if unconvertible v then throw cannot_convert else ret ())"

definition catch_log :: "jsval \<Rightarrow> ('a, 's) call \<Rightarrow> ('a, 's) call" where
  \<comment> \<open>\<open>try { ... } catch (error) { logger.error(`... ${v}:`, error); throw error; }\<close>\<close>
  "catch_log v body s =
     (case body s of
        (Inl error, s') \<Rightarrow> (Inl (if unconvertible v then cannot_convert else error), s')
      | (Inr x, s') \<Rightarrow> (Inr x, s'))"

definition or_undefined :: "string option \<Rightarrow> string option" where
  \<comment> \<open>\<open>x || undefined\<close> on an optional string: the empty string is falsy.\<close>
  "or_undefined x = (case x of Some s \<Rightarrow> (if s = [] then None else Some s) | None \<Rightarrow> None)"

definition or_default :: "string \<Rightarrow> string \<Rightarrow> string" where
  \<comment> \<open>\<open>x || d\<close> on a string.\<close>
  "or_default x d = (if x = [] then d else x)"

definition undefined_read :: "string \<Rightarrow> jserror" where
  \<comment> \<open>The TypeError of reading a property of \<open>undefined\<close>.\<close>
  "undefined_read prop =
     Error (''Cannot read properties of undefined (reading '' @ [CHR 0x27] @ prop @ [CHR 0x27] @ '')'')"

definition formatIssue :: "Issue \<Rightarrow> jserror + LinearIssue" where
  "formatIssue issue =
     (case issue_team issue of
        None \<Rightarrow> Inl (undefined_read ''id'')
      | Some team \<Rightarrow>
          Inr \<lparr>li_id = issue_id issue,
               li_identifier = issue_identifier issue,
               li_title = issue_title issue,
               li_description = or_undefined (issue_description issue),
               li_priority = issue_priority issue,
               li_priorityLabel = issue_priorityLabel issue,
               li_state = (case issue_state issue of
                             Some st \<Rightarrow> st
                           | None \<Rightarrow> \<lparr>state_id = [], state_name = ''Unknown'', state_type = ''unknown''\<rparr>),
               li_assignee = issue_assignee issue,
               li_creator = (case issue_creator issue of
                               Some cr \<Rightarrow> \<lparr>ref_id = ref_id cr, ref_name = or_default (ref_name cr) ''Unknown''\<rparr>
                             | None \<Rightarrow> \<lparr>ref_id = [], ref_name = ''Unknown''\<rparr>),
               li_project = issue_project issue,
               li_team = team,
               li_labels = issue_labels issue,
               li_createdAt = issue_createdAt issue,
               li_updatedAt = issue_updatedAt issue,
               li_url = issue_url issue\<rparr>)"

definition formatProject :: "Project \<Rightarrow> jserror + LinearProject" where
  "formatProject project =
     (case project_team project of
        None \<Rightarrow> Inl (undefined_read ''id'')
      | Some team \<Rightarrow>
          Inr \<lparr>lp_id = project_id project,
               lp_name = project_name project,
               lp_description = or_undefined (project_description project),
               lp_state = project_state project,
               lp_progress = project_progress project,
               lp_startDate = project_startDate project,
               lp_targetDate = project_targetDate project,
               lp_team = team,
               lp_lead = project_lead project,
               lp_url = project_url project\<rparr>)"

text \<open>
  \<open>for (const x of nodes) result.push(await this.format(x))\<close>: the nodes in order, ended
  by the first one that throws.
\<close>

fun formatEach :: "('a \<Rightarrow> jserror + 'b) \<Rightarrow> 'a list \<Rightarrow> jserror + 'b list" where
  "formatEach f [] = Inr []"
| "formatEach f (x # xs) =
     (case f x of
        Inl e \<Rightarrow> Inl e
      | Inr y \<Rightarrow> (case formatEach f xs of Inl e \<Rightarrow> Inl e | Inr ys \<Rightarrow> Inr (y # ys)))"

definition default_limit :: "jsval \<Rightarrow> nat \<Rightarrow> jsval" where
  \<comment> \<open>A default parameter value: used when the argument is \<open>undefined\<close>.\<close>
  "default_limit limit d = (if limit = JUndefined then JNum (of_nat d) else limit)"

definition filterObj :: "string \<Rightarrow> IssueFilter option \<Rightarrow> jsval \<Rightarrow> IssuesQuery" where
  "filterObj team flt limit =
     \<lparr>q_team = team,
      q_assignee = (case flt of
                      Some f \<Rightarrow> if truthy (f_assigneeId f) then Some (f_assigneeId f) else None
                    | None \<Rightarrow> None),
      q_priority = (case flt of
                      Some f \<Rightarrow> if f_priority f \<noteq> JUndefined then Some (f_priority f) else None
                    | None \<Rightarrow> None),
      q_stateType = (case flt of
                       Some f \<Rightarrow> if truthy (f_stateType f) then Some (f_stateType f) else None
                     | None \<Rightarrow> None),
      q_project = (case flt of
                     Some f \<Rightarrow> if truthy (f_projectId f) then Some (f_projectId f) else None
                   | None \<Rightarrow> None),
      q_first = limit,
      q_orderBy = ''updatedAt''\<rparr>"

definition listIssues :: "'s LinearClient \<Rightarrow> IssueFilter option \<Rightarrow> jsval \<Rightarrow> (LinearIssue list, 's) call" where
  "listIssues c flt limit =
     bind (sdk_issues (client c) (filterObj (teamId c) flt (default_limit limit 50)))
       (\<lambda>nodes. lift (formatEach formatIssue nodes))"

definition getIssue :: "'s LinearClient \<Rightarrow> jsval \<Rightarrow> (LinearIssue, 's) call" where
  "getIssue c issueId =
     catch_log issueId
       (bind (sdk_issue (client c) issueId) (\<lambda>issue. lift (formatIssue issue)))"

definition createIssue :: "'s LinearClient \<Rightarrow> IssueCreateInput \<Rightarrow> (LinearIssue, 's) call" where
  "createIssue c input =
     bind (sdk_createIssue (client c) \<lparr>sc_teamId = teamId c, sc_input = input\<rparr>)
       (\<lambda>createdIssue. case createdIssue of
           None \<Rightarrow> throw (Error ''Failed to create issue'')
         | Some issue \<Rightarrow> lift (formatIssue issue))"

definition updateIssue :: "'s LinearClient \<Rightarrow> jsval \<Rightarrow> IssueUpdateInput \<Rightarrow> (LinearIssue, 's) call" where
  "updateIssue c issueId input =
     catch_log issueId
       (bind (sdk_updateIssue (client c) issueId input)
          (\<lambda>updatedIssue. case updatedIssue of
              None \<Rightarrow> throw (Error ''Failed to update issue'')
            | Some issue \<Rightarrow> lift (formatIssue issue)))"

definition addComment :: "'s LinearClient \<Rightarrow> jsval \<Rightarrow> jsval \<Rightarrow> (Comment, 's) call" where
  "addComment c issueId body =
     catch_log issueId
       (bind (sdk_createComment (client c) issueId body)
          (\<lambda>comment. case comment of
              None \<Rightarrow> throw (Error ''Failed to create comment'')
            | Some cm \<Rightarrow>
                bind (template issueId)
                  (\<lambda>_. ret \<lparr>comment_id = comment_id cm, comment_body = comment_body cm\<rparr>)))"

definition searchIssues :: "'s LinearClient \<Rightarrow> jsval \<Rightarrow> jsval \<Rightarrow> (LinearIssue list, 's) call" where
  "searchIssues c query limit =
     bind (sdk_issueSearch (client c) query (default_limit limit 20) (teamId c))
       (\<lambda>nodes. bind (lift (formatEach formatIssue nodes))
          (\<lambda>result. bind (template query) (\<lambda>_. ret result)))"

definition listProjects :: "'s LinearClient \<Rightarrow> jsval \<Rightarrow> (LinearProject list, 's) call" where
  "listProjects c limit =
     bind (sdk_projects (client c) (teamId c) (default_limit limit 50))
       (\<lambda>nodes. lift (formatEach formatProject nodes))"

definition getProject :: "'s LinearClient \<Rightarrow> jsval \<Rightarrow> (LinearProject, 's) call" where
  "getProject c projectId =
     catch_log projectId
       (bind (sdk_project (client c) projectId) (\<lambda>project. lift (formatProject project)))"

definition createProject :: "'s LinearClient \<Rightarrow> jsval \<Rightarrow> jsval \<Rightarrow> (LinearProject, 's) call" where
  "createProject c name description =
     bind (sdk_createProject (client c) [teamId c] name description)
       (\<lambda>project. case project of
           None \<Rightarrow> throw (Error ''Failed to create project'')
         | Some p \<Rightarrow> lift (formatProject p))"

definition listTeams :: "'s LinearClient \<Rightarrow> (LinearTeam list, 's) call" where
  "listTeams c =
     bind (sdk_teams (client c))
       (\<lambda>nodes. ret (map (\<lambda>team. \<lparr>team_id = team_id team, team_name = team_name team,
                                  team_key = team_key team,
                                  team_description = or_undefined (team_description team)\<rparr>) nodes))"

section \<open>Text rendering\<close>

text \<open>
  What the template literals of the tools need from the JavaScript runtime. Number
  formatting and the locale's date format are taken as given (a record of the two
  library functions); everything else is computed.
\<close>

record JSRuntime =
  numberToString :: "real \<Rightarrow> string"
  toLocaleDateString :: "string \<Rightarrow> string"

definition nl :: string where
  "nl = [CHR 0x0A]"

definition check_mark :: string where
  \<comment> \<open>U+2705, the check mark that opens the success messages, in its UTF-8 bytes.\<close>
  "check_mark = [CHR 0xE2, CHR 0x9C, CHR 0x85]"

text \<open>
  A value inside a template literal (ToString): the \<open>TypeError\<close> when the value cannot
  be converted, its text otherwise.
\<close>

fun text_of :: "JSRuntime \<Rightarrow> jsval \<Rightarrow> string" where
  "text_of rt JUndefined = ''undefined''"
| "text_of rt JNull = ''null''"
| "text_of rt (JBool b) = (if b then ''true'' else ''false'')"
| "text_of rt (JNum n) = numberToString rt n"
| "text_of rt (JStr s) = s"
| "text_of rt (JArr xs) =
     join '','' (map (\<lambda>x. if x = JUndefined \<or> x = JNull then [] else text_of rt x) xs)"
| "text_of rt (JObj kvs) = ''[object Object]''"

definition toString :: "JSRuntime \<Rightarrow> jsval \<Rightarrow> jserror + string" where
  "toString rt v = (if unconvertible v then Inl cannot_convert else Inr (text_of rt v))"

definition Math_round :: "real \<Rightarrow> real" where
  "Math_round x = of_int \<lfloor>x + 1 / 2\<rfloor>"

definition white_space :: "char \<Rightarrow> bool" where
  "white_space ch = (ch \<in> set [CHR 0x09, CHR 0x0A, CHR 0x0B, CHR 0x0C, CHR 0x0D, CHR 0x20, CHR 0xA0])"

definition trim :: "string \<Rightarrow> string" where
  "trim s = rev (dropWhile white_space (rev (dropWhile white_space s)))"

section \<open>src/tools\<close>

text \<open>
  A \<open>ToolHandler\<close> takes the arguments and returns a promise of a response; here it also
  takes the tracker state its client calls run against and returns the state they leave.
  The body of each handler is one \<open>try\<close> block, which may throw, under one \<open>catch\<close>
  that returns what \<open>ErrorHandler.handle\<close> makes of the thrown value; when \<open>handle\<close> itself
  throws, the promise of the handler rejects.
\<close>

type_synonym 's ToolHandler = "args \<Rightarrow> (MCPResponse, 's) call"

definition try_catch :: "(MCPResponse, 's) call \<Rightarrow> string \<Rightarrow> (MCPResponse, 's) call" where
  "try_catch body context s =
     (case body s of
        (Inl e, s') \<Rightarrow> (handle e context, s')
      | (Inr r, s') \<Rightarrow> (Inr r, s'))"

subsection \<open>list-issues.ts, get-issue.ts, search-issues.ts\<close>

definition issueLine :: "LinearIssue \<Rightarrow> string" where
  "issueLine issue =
     (let assignee = (case li_assignee issue of
                        Some u \<Rightarrow> '' | Assigned to: '' @ user_name u
                      | None \<Rightarrow> []);
          project = (case li_project issue of
                       Some p \<Rightarrow> '' | Project: '' @ ref_name p
                     | None \<Rightarrow> [])
      in ''- '' @ li_identifier issue @ '': '' @ li_title issue @ nl
         @ ''  Status: '' @ state_name (li_state issue) @ '' | Priority: '' @ li_priorityLabel issue
         @ assignee @ project @ nl
         @ ''  '' @ li_url issue)"

definition createListIssuesHandler :: "'s LinearClient \<Rightarrow> 's ToolHandler" where
  "createListIssuesHandler c a =
     try_catch
       (bind (listIssues c
                (Some \<lparr>f_assigneeId = a ''assigneeId'', f_creatorId = JUndefined,
                        f_priority = a ''priority'', f_stateType = a ''stateType'',
                        f_labelIds = JUndefined, f_projectId = a ''projectId''\<rparr>)
                (a ''limit''))
          (\<lambda>issues.
             if length issues = 0
             then ret (success ''No issues found matching the criteria.'')
             else ret (success (''Found '' @ show_nat (length issues) @ '' issue(s):'' @ nl @ nl
                                @ join (nl @ nl) (map issueLine issues)))))
       ''list_issues''"

definition get_issue_errors :: "args \<Rightarrow> ValidationError list" where
  "get_issue_errors a = collectErrors [validateRequired (a ''issueId'') ''issueId'']"

definition issueDetails :: "JSRuntime \<Rightarrow> LinearIssue \<Rightarrow> string" where
  "issueDetails rt issue =
     trim (nl @ ''# '' @ li_identifier issue @ '': '' @ li_title issue @ nl
       @ nl
       @ ''**Status:** '' @ state_name (li_state issue) @ nl
       @ ''**Priority:** '' @ li_priorityLabel issue @ nl
       @ ''**Created:** '' @ toLocaleDateString rt (li_createdAt issue) @ nl
       @ ''**Updated:** '' @ toLocaleDateString rt (li_updatedAt issue) @ nl
       @ ''**Creator:** '' @ ref_name (li_creator issue) @ nl
       @ (case li_assignee issue of
            Some u \<Rightarrow> ''**Assignee:** '' @ user_name u @ '' ('' @ user_email u @ '')''
          | None \<Rightarrow> ''**Assignee:** Unassigned'') @ nl
       @ (case li_project issue of
            Some p \<Rightarrow> ''**Project:** '' @ ref_name p
          | None \<Rightarrow> []) @ nl
       @ (if length (li_labels issue) > 0
          then ''**Labels:** '' @ join '', '' (map label_name (li_labels issue))
          else []) @ nl
       @ nl
       @ ''## Description'' @ nl
       @ (case li_description issue of
            Some d \<Rightarrow> or_default d ''No description provided''
          | None \<Rightarrow> ''No description provided'') @ nl
       @ nl
       @ ''**URL:** '' @ li_url issue @ nl
       @ ''      '')"

definition createGetIssueHandler :: "JSRuntime \<Rightarrow> 's LinearClient \<Rightarrow> 's ToolHandler" where
  "createGetIssueHandler rt c a =
     try_catch
       (let errors = get_issue_errors a
        in if length errors > 0
           then ret (handleValidationErrors errors)
           else bind (getIssue c (a ''issueId''))
                  (\<lambda>issue. ret (success (issueDetails rt issue))))
       ''get_issue''"

definition search_issues_errors :: "args \<Rightarrow> ValidationError list" where
  "search_issues_errors a =
     collectErrors [validateRequired (a ''query'') ''query'',
                    validateString (a ''query'') ''query'' (Some 1) None]"

definition searchLine :: "LinearIssue \<Rightarrow> string" where
  "searchLine issue =
     ''- '' @ li_identifier issue @ '': '' @ li_title issue @ nl
     @ ''  Status: '' @ state_name (li_state issue) @ '' | Priority: '' @ li_priorityLabel issue @ nl
     @ ''  '' @ li_url issue"

definition createSearchIssuesHandler :: "JSRuntime \<Rightarrow> 's LinearClient \<Rightarrow> 's ToolHandler" where
  "createSearchIssuesHandler rt c a =
     try_catch
       (let errors = search_issues_errors a
        in if length errors > 0
           then ret (handleValidationErrors errors)
           else bind (searchIssues c (a ''query'') (a ''limit''))
                  (\<lambda>issues.
                     if length issues = 0
                     then bind (lift (toString rt (a ''query'')))
                            (\<lambda>query. ret (success (''No issues found matching '' @ [CHR 0x22]
                                                    @ query @ [CHR 0x22])))
                     else bind (lift (toString rt (a ''query'')))
                            (\<lambda>query. ret (success (''Found '' @ show_nat (length issues)
                                                    @ '' issue(s) matching ''
                                                    @ [CHR 0x22] @ query @ [CHR 0x22] @ '':''
                                                    @ nl @ nl @ join (nl @ nl) (map searchLine issues))))))
       ''search_issues''"

subsection \<open>create-issue.ts, update-issue.ts, add-comment.ts\<close>

definition create_issue_errors :: "args \<Rightarrow> ValidationError list" where
  "create_issue_errors a =
     collectErrors [validateRequired (a ''title'') ''title'',
                    validateString (a ''title'') ''title'' (Some 1) (Some 255)]"

definition create_issue_input :: "args \<Rightarrow> IssueCreateInput" where
  "create_issue_input a =
     \<lparr>c_title = a ''title'', c_description = a ''description'', c_priority = a ''priority'',
      c_assigneeId = a ''assigneeId'', c_projectId = a ''projectId'',
      c_labelIds = JUndefined, c_stateId = JUndefined\<rparr>"

definition createCreateIssueHandler :: "'s LinearClient \<Rightarrow> 's ToolHandler" where
  "createCreateIssueHandler c a =
     try_catch
       (let errors = create_issue_errors a
        in if length errors > 0
           then ret (handleValidationErrors errors)
           else bind (createIssue c (create_issue_input a))
                  (\<lambda>issue. ret (success (check_mark @ '' Created issue '' @ li_identifier issue
                                          @ '': '' @ li_title issue @ nl @ nl
                                          @ ''URL: '' @ li_url issue))))
       ''create_issue''"

definition update_issue_errors :: "args \<Rightarrow> ValidationError list" where
  "update_issue_errors a = collectErrors [validateRequired (a ''issueId'') ''issueId'']"

definition update_issue_input :: "args \<Rightarrow> IssueUpdateInput" where
  "update_issue_input a =
     \<lparr>u_title = a ''title'', u_description = a ''description'', u_priority = a ''priority'',
      u_assigneeId = a ''assigneeId'', u_projectId = JUndefined, u_stateId = a ''stateId'',
      u_labelIds = JUndefined\<rparr>"

definition createUpdateIssueHandler :: "'s LinearClient \<Rightarrow> 's ToolHandler" where
  "createUpdateIssueHandler c a =
     try_catch
       (let errors = update_issue_errors a
        in if length errors > 0
           then ret (handleValidationErrors errors)
           else bind (updateIssue c (a ''issueId'') (update_issue_input a))
                  (\<lambda>issue. ret (success (check_mark @ '' Updated issue '' @ li_identifier issue
                                          @ '': '' @ li_title issue @ nl @ nl
                                          @ ''URL: '' @ li_url issue))))
       ''update_issue''"

definition add_comment_errors :: "args \<Rightarrow> ValidationError list" where
  "add_comment_errors a =
     collectErrors [validateRequired (a ''issueId'') ''issueId'',
                    validateRequired (a ''body'') ''body'',
                    validateString (a ''body'') ''body'' (Some 1) None]"

definition createAddCommentHandler :: "JSRuntime \<Rightarrow> 's LinearClient \<Rightarrow> 's ToolHandler" where
  "createAddCommentHandler rt c a =
     try_catch
       (let errors = add_comment_errors a
        in if length errors > 0
           then ret (handleValidationErrors errors)
           else bind (addComment c (a ''issueId'') (a ''body''))
                  (\<lambda>comment. bind (lift (toString rt (a ''issueId'')))
                     (\<lambda>issueId. ret (success (check_mark @ '' Added comment to issue ''
                                              @ issueId @ nl @ nl
                                              @ ''Comment ID: '' @ comment_id comment)))))
       ''add_comment''"

subsection \<open>assign-issue.ts, update-status.ts\<close>

definition assign_issue_errors :: "args \<Rightarrow> ValidationError list" where
  "assign_issue_errors a = collectErrors [validateRequired (a ''issueId'') ''issueId'']"

definition assign_issue_assigneeId :: "args \<Rightarrow> jsval" where
  \<comment> \<open>\<open>args.assigneeId === '' ? null : args.assigneeId\<close>\<close>
  "assign_issue_assigneeId a = (if a ''assigneeId'' = JStr [] then JNull else a ''assigneeId'')"

definition assign_issue_message :: "args \<Rightarrow> LinearIssue \<Rightarrow> string" where
  "assign_issue_message a issue =
     (if truthy (assign_issue_assigneeId a)
      then check_mark @ '' Assigned issue '' @ li_identifier issue @ '' to ''
           @ (case li_assignee issue of Some u \<Rightarrow> user_name u | None \<Rightarrow> ''undefined'')
      else check_mark @ '' Unassigned issue '' @ li_identifier issue)"

definition createAssignIssueHandler :: "'s LinearClient \<Rightarrow> 's ToolHandler" where
  "createAssignIssueHandler c a =
     try_catch
       (let errors = assign_issue_errors a
        in if length errors > 0
           then ret (handleValidationErrors errors)
           else bind (updateIssue c (a ''issueId'') (no_update\<lparr>u_assigneeId := assign_issue_assigneeId a\<rparr>))
                  (\<lambda>issue. ret (success (assign_issue_message a issue @ nl @ nl
                                          @ ''URL: '' @ li_url issue))))
       ''assign_issue''"

definition update_status_errors :: "args \<Rightarrow> ValidationError list" where
  "update_status_errors a =
     collectErrors [validateRequired (a ''issueId'') ''issueId'',
                    validateRequired (a ''stateId'') ''stateId'']"

definition createUpdateStatusHandler :: "'s LinearClient \<Rightarrow> 's ToolHandler" where
  "createUpdateStatusHandler c a =
     try_catch
       (let errors = update_status_errors a
        in if length errors > 0
           then ret (handleValidationErrors errors)
           else bind (updateIssue c (a ''issueId'') (no_update\<lparr>u_stateId := a ''stateId''\<rparr>))
                  (\<lambda>issue. ret (success (check_mark @ '' Updated '' @ li_identifier issue
                                          @ '' status to: '' @ state_name (li_state issue) @ nl @ nl
                                          @ ''URL: '' @ li_url issue))))
       ''update_status''"

subsection \<open>list-projects.ts, get-project.ts, create-project.ts, list-teams.ts\<close>

definition when_date :: "string option \<Rightarrow> (string \<Rightarrow> string) \<Rightarrow> string" where
  \<comment> \<open>\<open>d ? `...${d}...` : ''\<close> on an optional date string.\<close>
  "when_date d f = (case d of Some s \<Rightarrow> (if s \<noteq> [] then f s else []) | None \<Rightarrow> [])"

definition projectLine :: "JSRuntime \<Rightarrow> LinearProject \<Rightarrow> string" where
  "projectLine rt project =
     (let lead = (case lp_lead project of
                    Some l \<Rightarrow> '' | Lead: '' @ ref_name l
                  | None \<Rightarrow> []);
          dates = when_date (lp_targetDate project)
                    (\<lambda>d. '' | Target: '' @ toLocaleDateString rt d)
      in ''- '' @ lp_name project @ '' ('' @ lp_state project @ '')'' @ nl
         @ ''  Progress: '' @ numberToString rt (Math_round (lp_progress project)) @ ''%''
         @ lead @ dates @ nl
         @ ''  '' @ lp_url project)"

definition createListProjectsHandler :: "JSRuntime \<Rightarrow> 's LinearClient \<Rightarrow> 's ToolHandler" where
  "createListProjectsHandler rt c a =
     try_catch
       (bind (listProjects c (a ''limit''))
          (\<lambda>projects.
             if length projects = 0
             then ret (success ''No projects found.'')
             else ret (success (''Found '' @ show_nat (length projects) @ '' project(s):'' @ nl @ nl
                                @ join (nl @ nl) (map (projectLine rt) projects)))))
       ''list_projects''"

definition get_project_errors :: "args \<Rightarrow> ValidationError list" where
  "get_project_errors a = collectErrors [validateRequired (a ''projectId'') ''projectId'']"

definition projectDetails :: "JSRuntime \<Rightarrow> LinearProject \<Rightarrow> string" where
  "projectDetails rt project =
     trim (nl @ ''# '' @ lp_name project @ nl
       @ nl
       @ ''**State:** '' @ lp_state project @ nl
       @ ''**Progress:** '' @ numberToString rt (Math_round (lp_progress project)) @ ''%'' @ nl
       @ ''**Team:** '' @ ref_name (lp_team project) @ nl
       @ (case lp_lead project of
            Some l \<Rightarrow> ''**Lead:** '' @ ref_name l
          | None \<Rightarrow> []) @ nl
       @ when_date (lp_startDate project)
           (\<lambda>d. ''**Start Date:** '' @ toLocaleDateString rt d) @ nl
       @ when_date (lp_targetDate project)
           (\<lambda>d. ''**Target Date:** '' @ toLocaleDateString rt d) @ nl
       @ nl
       @ ''## Description'' @ nl
       @ (case lp_description project of
            Some d \<Rightarrow> or_default d ''No description provided''
          | None \<Rightarrow> ''No description provided'') @ nl
       @ nl
       @ ''**URL:** '' @ lp_url project @ nl
       @ ''      '')"

definition createGetProjectHandler :: "JSRuntime \<Rightarrow> 's LinearClient \<Rightarrow> 's ToolHandler" where
  "createGetProjectHandler rt c a =
     try_catch
       (let errors = get_project_errors a
        in if length errors > 0
           then ret (handleValidationErrors errors)
           else bind (getProject c (a ''projectId''))
                  (\<lambda>project. ret (success (projectDetails rt project))))
       ''get_project''"

definition create_project_errors :: "args \<Rightarrow> ValidationError list" where
  "create_project_errors a =
     collectErrors [validateRequired (a ''name'') ''name'',
                    validateString (a ''name'') ''name'' (Some 1) (Some 255)]"

definition createCreateProjectHandler :: "'s LinearClient \<Rightarrow> 's ToolHandler" where
  "createCreateProjectHandler c a =
     try_catch
       (let errors = create_project_errors a
        in if length errors > 0
           then ret (handleValidationErrors errors)
           else bind (createProject c (a ''name'') (a ''description''))
                  (\<lambda>project. ret (success (check_mark @ '' Created project: '' @ lp_name project
                                            @ nl @ nl @ ''URL: '' @ lp_url project))))
       ''create_project''"

definition teamLine :: "LinearTeam \<Rightarrow> string" where
  "teamLine team =
     (let desc = (case team_description team of
                    Some d \<Rightarrow> if d \<noteq> [] then nl @ ''  '' @ d else []
                  | None \<Rightarrow> [])
      in ''- '' @ team_name team @ '' ('' @ team_key team @ '')'' @ nl
         @ ''  ID: '' @ team_id team @ desc)"

definition createListTeamsHandler :: "'s LinearClient \<Rightarrow> 's ToolHandler" where
  "createListTeamsHandler c a =
     try_catch
       (bind (listTeams c)
          (\<lambda>teams.
             if length teams = 0
             then ret (success ''No teams found.'')
             else ret (success (''Found '' @ show_nat (length teams) @ '' team(s):'' @ nl @ nl
                                @ join (nl @ nl) (map teamLine teams)))))
       ''list_teams''"

section \<open>src/server.ts\<close>

text \<open>
  The two registries are JavaScript \<open>Map\<close>s: association lists in insertion order, where
  \<open>set\<close> on a key already present replaces its value in place.
\<close>

record MCPTool =
  tool_name :: string
  tool_required :: "string list"

record 's MCPServer =
  tools :: "(string \<times> MCPTool) list"
  handlers :: "(string \<times> 's ToolHandler) list"

definition registerTool :: "MCPTool \<Rightarrow> 's ToolHandler \<Rightarrow> 's MCPServer \<Rightarrow> 's MCPServer" where
  "registerTool tool handler srv =
     srv\<lparr>tools := AList.update (tool_name tool) tool (tools srv),
         handlers := AList.update (tool_name tool) handler (handlers srv)\<rparr>"

definition listIssuesTool :: MCPTool where
  "listIssuesTool = \<lparr>tool_name = ''list_issues'', tool_required = []\<rparr>"

definition getIssueTool :: MCPTool where
  "getIssueTool = \<lparr>tool_name = ''get_issue'', tool_required = [''issueId'']\<rparr>"

definition createIssueTool :: MCPTool where
  "createIssueTool = \<lparr>tool_name = ''create_issue'', tool_required = [''title'']\<rparr>"

definition updateIssueTool :: MCPTool where
  "updateIssueTool = \<lparr>tool_name = ''update_issue'', tool_required = [''issueId'']\<rparr>"

definition addCommentTool :: MCPTool where
  "addCommentTool = \<lparr>tool_name = ''add_comment'', tool_required = [''issueId'', ''body'']\<rparr>"

definition searchIssuesTool :: MCPTool where
  "searchIssuesTool = \<lparr>tool_name = ''search_issues'', tool_required = [''query'']\<rparr>"

definition assignIssueTool :: MCPTool where
  "assignIssueTool = \<lparr>tool_name = ''assign_issue'', tool_required = [''issueId'', ''assigneeId'']\<rparr>"

definition updateStatusTool :: MCPTool where
  "updateStatusTool = \<lparr>tool_name = ''update_status'', tool_required = [''issueId'', ''stateId'']\<rparr>"

definition listProjectsTool :: MCPTool where
  "listProjectsTool = \<lparr>tool_name = ''list_projects'', tool_required = []\<rparr>"

definition getProjectTool :: MCPTool where
  "getProjectTool = \<lparr>tool_name = ''get_project'', tool_required = [''projectId'']\<rparr>"

definition createProjectTool :: MCPTool where
  "createProjectTool = \<lparr>tool_name = ''create_project'', tool_required = [''name'']\<rparr>"

definition listTeamsTool :: MCPTool where
  "listTeamsTool = \<lparr>tool_name = ''list_teams'', tool_required = []\<rparr>"

definition setupHandlers :: "JSRuntime \<Rightarrow> 's LinearClient \<Rightarrow> 's MCPServer" where
  "setupHandlers rt linearClient =
     (registerTool listTeamsTool (createListTeamsHandler linearClient)
      (registerTool createProjectTool (createCreateProjectHandler linearClient)
      (registerTool getProjectTool (createGetProjectHandler rt linearClient)
      (registerTool listProjectsTool (createListProjectsHandler rt linearClient)
      (registerTool updateStatusTool (createUpdateStatusHandler linearClient)
      (registerTool assignIssueTool (createAssignIssueHandler linearClient)
      (registerTool searchIssuesTool (createSearchIssuesHandler rt linearClient)
      (registerTool addCommentTool (createAddCommentHandler rt linearClient)
      (registerTool updateIssueTool (createUpdateIssueHandler linearClient)
      (registerTool createIssueTool (createCreateIssueHandler linearClient)
      (registerTool getIssueTool (createGetIssueHandler rt linearClient)
      (registerTool listIssuesTool (createListIssuesHandler linearClient)
        \<lparr>tools = [], handlers = []\<rparr>))))))))))))"

text \<open>
  The \<open>CallToolRequest\<close> handler: \<open>arguments\<close> is \<open>None\<close> when the request has none
  (\<open>request.params.arguments || {}\<close>). An unknown tool name throws; otherwise the outcome
  is that of the handler (\<open>return await handler(...)\<close>).
\<close>

definition or_empty :: "args option \<Rightarrow> args" where
  \<comment> \<open>\<open>request.params.arguments || {}\<close>\<close>
  "or_empty arguments = (case arguments of Some a \<Rightarrow> a | None \<Rightarrow> (\<lambda>k. JUndefined))"

definition callTool :: "'s MCPServer \<Rightarrow> string \<Rightarrow> args option \<Rightarrow> (MCPResponse, 's) call" where
  "callTool srv toolName arguments s =
     (case map_of (handlers srv) toolName of
        None \<Rightarrow> (Inl (Error (''Unknown tool: '' @ toolName)), s)
      | Some handler \<Rightarrow> handler (or_empty arguments) s)"

definition listTools :: "'s MCPServer \<Rightarrow> MCPTool list" where
  "listTools srv = map snd (tools srv)"

section \<open>src/config/agent-config.ts\<close>

definition LINEAR_PRIORITY_MAP :: "real \<Rightarrow> string option" where
  "LINEAR_PRIORITY_MAP =
     map_of [(0, ''No priority''), (1, ''Urgent''), (2, ''High''), (3, ''Medium''), (4, ''Low'')]"

definition STATE_TYPES :: "string list" where
  "STATE_TYPES = [''backlog'', ''unstarted'', ''started'', ''completed'', ''canceled'']"

section \<open>src/utils/logger.ts\<close>

text \<open>
  The console is the list of lines written, oldest first: the method called, the text, and
  the value passed along with it, if any. The time stamp of a line is what the clock shows
  when it is written; the clock is given by the number of lines already on the console.
\<close>

record ConsoleLine =
  line_method :: string
  line_text :: string
  line_value :: "jserror option"

type_synonym console = "ConsoleLine list"

record Logger =
  level :: string

text \<open>\<open>Array.prototype.indexOf\<close>: the first position of the element, -1 when it is absent.\<close>

fun indexOf_from :: "int \<Rightarrow> string list \<Rightarrow> string \<Rightarrow> int" where
  "indexOf_from k [] x = - 1"
| "indexOf_from k (y # ys) x = (if y = x then k else indexOf_from (k + 1) ys x)"

definition indexOf :: "string list \<Rightarrow> string \<Rightarrow> int" where
  "indexOf xs x = indexOf_from 0 xs x"

definition shouldLog :: "Logger \<Rightarrow> string \<Rightarrow> bool" where
  "shouldLog lg lvl =
     (let levels = [''debug'', ''info'', ''warn'', ''error''];
          currentLevelIndex = indexOf levels (level lg);
          messageLevelIndex = indexOf levels lvl
      in messageLevelIndex \<ge> currentLevelIndex)"

definition logger_info :: "Logger \<Rightarrow> (nat \<Rightarrow> string) \<Rightarrow> string \<Rightarrow> console \<Rightarrow> console" where
  "logger_info lg clock msg con =
     (if shouldLog lg ''info''
      then con @ [\<lparr>line_method = ''info'',
                   line_text = ''[INFO] '' @ clock (length con) @ '' - '' @ msg,
                   line_value = None\<rparr>]
      else con)"

definition logger_error :: "Logger \<Rightarrow> (nat \<Rightarrow> string) \<Rightarrow> string \<Rightarrow> jserror \<Rightarrow> console \<Rightarrow> console" where
  "logger_error lg clock msg err con =
     (if shouldLog lg ''error''
      then con @ [\<lparr>line_method = ''error'',
                   line_text = ''[ERROR] '' @ clock (length con) @ '' - '' @ msg,
                   line_value = Some err\<rparr>]
      else con)"

section \<open>src/index.ts\<close>

text \<open>
  The process as \<open>main\<close> leaves it: the console, the exit code once \<open>process.exit\<close> has
  been called, the client and the server if they were constructed, and whether the server
  is connected to its transport. The environment is \<open>process.env\<close> after \<open>dotenv\<close> has
  loaded; \<open>mkSDK\<close> is the Linear SDK's constructor. The server of the MCP SDK is not
  part of the repository: \<open>construction\<close> is the outcome of \<open>new MCPServer(linearClient)\<close>
  as far as that SDK decides it (the value thrown by its \<open>Server\<close> constructor or by
  \<open>setRequestHandler\<close>, if one of them throws), and \<open>connect\<close> the outcome of connecting
  the stdio transport (the thrown value, if it fails).
\<close>

record 's Process =
  console :: console
  exitCode :: "nat option"
  linearClient :: "'s LinearClient option"
  server :: "'s MCPServer option"
  connected :: bool

definition truthy_env :: "string option \<Rightarrow> string option" where
  \<comment> \<open>An environment variable that is set and not empty; \<open>!x\<close> holds of any other.\<close>
  "truthy_env x = (case x of None \<Rightarrow> None | Some v \<Rightarrow> (if v = [] then None else Some v))"

definition the_logger :: "(string \<Rightarrow> string option) \<Rightarrow> Logger" where
  \<comment> \<open>\<open>new Logger(process.env.LOG_LEVEL || 'info')\<close>\<close>
  "the_logger env =
     \<lparr>level = (case truthy_env (env ''LOG_LEVEL'') of None \<Rightarrow> ''info'' | Some l \<Rightarrow> l)\<rparr>"

definition fail_start :: "Logger \<Rightarrow> (nat \<Rightarrow> string) \<Rightarrow> jserror \<Rightarrow> 's Process \<Rightarrow> 's Process" where
  \<comment> \<open>The \<open>catch\<close> of \<open>main\<close>.\<close>
  "fail_start lg clock err p =
     p\<lparr>console := logger_error lg clock ''Failed to start Linear MCP Agent:'' err (console p),
       exitCode := Some 1\<rparr>"

definition main ::
  "(string \<Rightarrow> string option) \<Rightarrow> (nat \<Rightarrow> string) \<Rightarrow> JSRuntime \<Rightarrow> (string \<Rightarrow> 's LinearSDK)
     \<Rightarrow> jserror option \<Rightarrow> jserror option \<Rightarrow> 's Process" where
  "main env clock rt mkSDK construction connect =
     (let lg = the_logger env;
          p0 = \<lparr>console = [], exitCode = None, linearClient = None, server = None, connected = False\<rparr>;
          apiKey = env ''LINEAR_API_KEY'';
          teamId = env ''LINEAR_TEAM_ID''
      in case truthy_env apiKey of
           None \<Rightarrow> fail_start lg clock (Error ''LINEAR_API_KEY environment variable is required'') p0
         | Some key \<Rightarrow>
         (case truthy_env teamId of
           None \<Rightarrow> fail_start lg clock (Error ''LINEAR_TEAM_ID environment variable is required'') p0
         | Some team \<Rightarrow>
           (let p1 = p0\<lparr>console := logger_info lg clock ''Starting Linear MCP Agent...'' (console p0)\<rparr>;
                c = \<lparr>client = mkSDK key, teamId = team\<rparr>;
                p2 = p1\<lparr>console := logger_info lg clock ''Linear client initialized'' (console p1),
                        linearClient := Some c\<rparr>
            in case construction of
                 Some err \<Rightarrow> fail_start lg clock err p2
               | None \<Rightarrow>
                   (let srv = setupHandlers rt c;
                        p3 = p2\<lparr>console := logger_info lg clock
                                              (''Registered '' @ show_nat (length (tools srv)) @ '' tools'')
                                              (console p2),
                                server := Some srv\<rparr>
                    in case connect of
                         Some err \<Rightarrow> fail_start lg clock err p3
                       | None \<Rightarrow>
                           (let p4 = p3\<lparr>console := logger_info lg clock
                                                      ''MCP Server started and connected via stdio''
                                                      (console p3),
                                        connected := True\<rparr>
                            in p4\<lparr>console := logger_info lg clock ''Linear MCP Agent is ready''
                                                  (console p4)\<rparr>)))))"

section \<open>The tools in summary\<close>

subsection \<open>The validation of each tool\<close>

text \<open>
  The errors that the handler registered under a tool name collects from its arguments
  before anything else; the three listing tools validate nothing.
\<close>

definition validation_errors :: "string \<Rightarrow> args \<Rightarrow> ValidationError list" where
  "validation_errors toolName a =
     (if toolName = ''get_issue'' then get_issue_errors a
      else if toolName = ''create_issue'' then create_issue_errors a
      else if toolName = ''update_issue'' then update_issue_errors a
      else if toolName = ''add_comment'' then add_comment_errors a
      else if toolName = ''search_issues'' then search_issues_errors a
      else if toolName = ''assign_issue'' then assign_issue_errors a
      else if toolName = ''update_status'' then update_status_errors a
      else if toolName = ''get_project'' then get_project_errors a
      else if toolName = ''create_project'' then create_project_errors a
      else [])"

definition validating_tools :: "string list" where
  "validating_tools =
     [''create_issue'', ''get_issue'', ''update_issue'', ''add_comment'', ''search_issues'',
      ''assign_issue'', ''update_status'', ''get_project'', ''create_project'']"

subsection \<open>The request behind each tool\<close>

text \<open>
  Each handler makes at most one call to the client, and each client method one call to
  the SDK. \<open>tool_request\<close> names that SDK request as a function of the tool name, the
  client's team id and the arguments alone; \<open>serve\<close> is the SDK serving a request.
  That the handlers do exactly this is proved below (\<open>tool_call_state\<close>).
\<close>

definition list_issues_filter :: "args \<Rightarrow> IssueFilter" where
  "list_issues_filter a =
     \<lparr>f_assigneeId = a ''assigneeId'', f_creatorId = JUndefined, f_priority = a ''priority'',
      f_stateType = a ''stateType'', f_labelIds = JUndefined, f_projectId = a ''projectId''\<rparr>"

definition tool_request :: "string \<Rightarrow> string \<Rightarrow> args \<Rightarrow> sdk_request option" where
  "tool_request toolName team a =
     (if validation_errors toolName a \<noteq> [] then None
      else if toolName = ''list_issues''
        then Some (ReqIssues (filterObj team (Some (list_issues_filter a)) (default_limit (a ''limit'') 50)))
      else if toolName = ''get_issue'' then Some (ReqIssue (a ''issueId''))
      else if toolName = ''create_issue''
        then Some (ReqCreateIssue \<lparr>sc_teamId = team, sc_input = create_issue_input a\<rparr>)
      else if toolName = ''update_issue''
        then Some (ReqUpdateIssue (a ''issueId'') (update_issue_input a))
      else if toolName = ''add_comment'' then Some (ReqCreateComment (a ''issueId'') (a ''body''))
      else if toolName = ''search_issues''
        then Some (ReqIssueSearch (a ''query'') (default_limit (a ''limit'') 20) team)
      else if toolName = ''assign_issue''
        then Some (ReqUpdateIssue (a ''issueId'') (no_update\<lparr>u_assigneeId := assign_issue_assigneeId a\<rparr>))
      else if toolName = ''update_status''
        then Some (ReqUpdateIssue (a ''issueId'') (no_update\<lparr>u_stateId := a ''stateId''\<rparr>))
      else if toolName = ''list_projects'' then Some (ReqProjects team (default_limit (a ''limit'') 50))
      else if toolName = ''get_project'' then Some (ReqProject (a ''projectId''))
      else if toolName = ''create_project''
        then Some (ReqCreateProject [team] (a ''name'') (a ''description''))
      else if toolName = ''list_teams'' then Some ReqTeams
      else None)"

fun serve :: "'s LinearSDK \<Rightarrow> sdk_request \<Rightarrow> 's \<Rightarrow> 's" where
  "serve sdk (ReqIssues q) s = snd (sdk_issues sdk q s)"
| "serve sdk (ReqIssue v) s = snd (sdk_issue sdk v s)"
| "serve sdk (ReqCreateIssue p) s = snd (sdk_createIssue sdk p s)"
| "serve sdk (ReqUpdateIssue v input) s = snd (sdk_updateIssue sdk v input s)"
| "serve sdk (ReqCreateComment v b) s = snd (sdk_createComment sdk v b s)"
| "serve sdk (ReqIssueSearch q n team) s = snd (sdk_issueSearch sdk q n team s)"
| "serve sdk (ReqProjects team n) s = snd (sdk_projects sdk team n s)"
| "serve sdk (ReqProject v) s = snd (sdk_project sdk v s)"
| "serve sdk (ReqCreateProject teams nm d) s = snd (sdk_createProject sdk teams nm d s)"
| "serve sdk ReqTeams s = snd (sdk_teams sdk s)"
| "serve sdk (ReqDeleteIssue v) s = snd (sdk_deleteIssue sdk v s)"
| "serve sdk (ReqArchiveIssue v) s = snd (sdk_archiveIssue sdk v s)"

text \<open>The value the SDK throws when it serves a request, if it throws.\<close>

definition thrown :: "(jserror + 'a) \<times> 's \<Rightarrow> jserror option" where
  "thrown out = (case fst out of Inl e \<Rightarrow> Some e | Inr x \<Rightarrow> None)"

fun thrown_by :: "'s LinearSDK \<Rightarrow> sdk_request \<Rightarrow> 's \<Rightarrow> jserror option" where
  "thrown_by sdk (ReqIssues q) s = thrown (sdk_issues sdk q s)"
| "thrown_by sdk (ReqIssue v) s = thrown (sdk_issue sdk v s)"
| "thrown_by sdk (ReqCreateIssue p) s = thrown (sdk_createIssue sdk p s)"
| "thrown_by sdk (ReqUpdateIssue v input) s = thrown (sdk_updateIssue sdk v input s)"
| "thrown_by sdk (ReqCreateComment v b) s = thrown (sdk_createComment sdk v b s)"
| "thrown_by sdk (ReqIssueSearch q n team) s = thrown (sdk_issueSearch sdk q n team s)"
| "thrown_by sdk (ReqProjects team n) s = thrown (sdk_projects sdk team n s)"
| "thrown_by sdk (ReqProject v) s = thrown (sdk_project sdk v s)"
| "thrown_by sdk (ReqCreateProject teams nm d) s = thrown (sdk_createProject sdk teams nm d s)"
| "thrown_by sdk ReqTeams s = thrown (sdk_teams sdk s)"
| "thrown_by sdk (ReqDeleteIssue v) s = thrown (sdk_deleteIssue sdk v s)"
| "thrown_by sdk (ReqArchiveIssue v) s = thrown (sdk_archiveIssue sdk v s)"

text \<open>
  The thrown values of which \<open>ErrorHandler.handle\<close> can make a response: every one but
  a value, neither an \<open>Error\<close> nor a string, whose \<open>message\<close> cannot be converted to a
  text. The SDK rejects with instances of its \<open>LinearError\<close>, a subclass of \<open>Error\<close>.
\<close>

fun renderable :: "jserror \<Rightarrow> bool" where
  "renderable (ThrownOther (MessageThrows t)) = False"
| "renderable e = True"

text \<open>
  The value that reaches the \<open>catch\<close> of a tool's handler when the SDK has thrown
  \<open>error\<close>: that value, or the \<open>TypeError\<close> of the client's own log line when the line
  holds an id that cannot be converted (the methods \<open>getIssue\<close>, \<open>updateIssue\<close>,
  \<open>addComment\<close> and \<open>getProject\<close> put the id into the text they log before they
  rethrow).
\<close>

definition caught :: "string \<Rightarrow> args \<Rightarrow> jserror \<Rightarrow> jserror" where
  "caught toolName a error =
     (if toolName \<in> set [''get_issue'', ''update_issue'', ''add_comment'', ''assign_issue'',
                           ''update_status'']
      then (if unconvertible (a ''issueId'') then cannot_convert else error)
      else if toolName = ''get_project''
      then (if unconvertible (a ''projectId'') then cannot_convert else error)
      else error)"

text \<open>
  The outcome of a handler whose validation has passed, given what the SDK threw when it
  served the request, if it threw: in that case what \<open>ErrorHandler.handle\<close> makes of the
  value that reaches the \<open>catch\<close>; otherwise a success response, or the response made of
  an \<open>Error\<close> thrown while the SDK's answer was processed.
\<close>

definition tool_outcome :: "string \<Rightarrow> args \<Rightarrow> jserror option \<Rightarrow> jserror + MCPResponse \<Rightarrow> bool" where
  "tool_outcome toolName a sdk_error out \<longleftrightarrow>
     (case sdk_error of
        Some e \<Rightarrow> out = handle (caught toolName a e) toolName
      | None \<Rightarrow>
          (\<exists>msg. out = Inr (success msg))
          \<or> (\<exists>m. out = Inr \<lparr>content = [''Error: '' @ m], isError = Some True\<rparr>))"

fun destructive :: "sdk_request \<Rightarrow> bool" where
  "destructive (ReqDeleteIssue v) = True"
| "destructive (ReqArchiveIssue v) = True"
| "destructive r = False"

text \<open>The workflow state a request asks the tracker to set, \<open>JUndefined\<close> if none.\<close>

fun requested_state :: "sdk_request \<Rightarrow> jsval" where
  "requested_state (ReqUpdateIssue v input) = u_stateId input"
| "requested_state (ReqCreateIssue p) = c_stateId (sc_input p)"
| "requested_state r = JUndefined"

text \<open>The priority a request asks the tracker to write onto a ticket, \<open>JUndefined\<close> if none.\<close>

fun written_priority :: "sdk_request \<Rightarrow> jsval" where
  "written_priority (ReqUpdateIssue v input) = u_priority input"
| "written_priority (ReqCreateIssue p) = c_priority (sc_input p)"
| "written_priority r = JUndefined"

text \<open>A run of the server: tool calls one after the other, each on the state the last left.\<close>

fun callTools :: "'s MCPServer \<Rightarrow> (string \<times> args option) list \<Rightarrow> 's \<Rightarrow> 's" where
  "callTools srv [] s = s"
| "callTools srv ((toolName, arguments) # rest) s =
     callTools srv rest (snd (callTool srv toolName arguments s))"

subsection \<open>The methods of the client wrapper\<close>

text \<open>
  A call of one of the ten public methods of \<open>LinearClient\<close>, and the tracker state it
  leaves behind.
\<close>

datatype client_call =
    ListIssues "IssueFilter option" jsval
  | GetIssue jsval
  | CreateIssue IssueCreateInput
  | UpdateIssue jsval IssueUpdateInput
  | AddComment jsval jsval
  | SearchIssues jsval jsval
  | ListProjects jsval
  | GetProject jsval
  | CreateProject jsval jsval
  | ListTeams

fun after_call :: "'s LinearClient \<Rightarrow> client_call \<Rightarrow> 's \<Rightarrow> 's" where
  "after_call c (ListIssues flt limit) s = snd (listIssues c flt limit s)"
| "after_call c (GetIssue v) s = snd (getIssue c v s)"
| "after_call c (CreateIssue input) s = snd (createIssue c input s)"
| "after_call c (UpdateIssue v input) s = snd (updateIssue c v input s)"
| "after_call c (AddComment v b) s = snd (addComment c v b s)"
| "after_call c (SearchIssues q limit) s = snd (searchIssues c q limit s)"
| "after_call c (ListProjects limit) s = snd (listProjects c limit s)"
| "after_call c (GetProject v) s = snd (getProject c v s)"
| "after_call c (CreateProject nm d) s = snd (createProject c nm d s)"
| "after_call c ListTeams s = snd (listTeams c s)"

text \<open>The SDK request that a method call sends.\<close>

fun method_request :: "string \<Rightarrow> client_call \<Rightarrow> sdk_request" where
  "method_request team (ListIssues flt limit) = ReqIssues (filterObj team flt (default_limit limit 50))"
| "method_request team (GetIssue v) = ReqIssue v"
| "method_request team (CreateIssue input) = ReqCreateIssue \<lparr>sc_teamId = team, sc_input = input\<rparr>"
| "method_request team (UpdateIssue v input) = ReqUpdateIssue v input"
| "method_request team (AddComment v b) = ReqCreateComment v b"
| "method_request team (SearchIssues q limit) = ReqIssueSearch q (default_limit limit 20) team"
| "method_request team (ListProjects limit) = ReqProjects team (default_limit limit 50)"
| "method_request team (GetProject v) = ReqProject v"
| "method_request team (CreateProject nm d) = ReqCreateProject [team] nm d"
| "method_request team ListTeams = ReqTeams"

section \<open>An in-memory tracker\<close>

text \<open>
  A small tracker behind the SDK interface, for running the tools on concrete inputs: the
  issues, workflow states, users, comments, projects and teams it holds, and the list of
  requests it has served, oldest first. It applies an update field by field, does no
  range check of its own on a priority, and lists issues in the order it stores them.
\<close>

record Tracker =
  tr_issues :: "Issue list"
  tr_states :: "StateRef list"
  tr_users :: "UserRef list"
  tr_comments :: "(string \<times> Comment) list"
  tr_projects :: "Project list"
  tr_teams :: "LinearTeam list"
  tr_requests :: "sdk_request list"

definition served :: "sdk_request \<Rightarrow> Tracker \<Rightarrow> Tracker" where
  "served r t = t\<lparr>tr_requests := tr_requests t @ [r]\<rparr>"

definition names_issue :: "jsval \<Rightarrow> Issue \<Rightarrow> bool" where
  "names_issue v i = (v = JStr (issue_id i) \<or> v = JStr (issue_identifier i))"

definition not_found :: "string \<Rightarrow> jserror" where
  "not_found what = Error (''Entity not found: '' @ what)"

definition bad_input :: "string \<Rightarrow> jserror" where
  "bad_input what = Error (''Argument Validation Error: '' @ what)"

definition set_title :: "jsval \<Rightarrow> Issue \<Rightarrow> jserror + Issue" where
  "set_title v i =
     (case v of
        JUndefined \<Rightarrow> Inr i
      | JStr s \<Rightarrow> Inr (i\<lparr>issue_title := s\<rparr>)
      | _ \<Rightarrow> Inl (bad_input ''title''))"

definition set_description :: "jsval \<Rightarrow> Issue \<Rightarrow> jserror + Issue" where
  "set_description v i =
     (case v of
        JUndefined \<Rightarrow> Inr i
      | JNull \<Rightarrow> Inr (i\<lparr>issue_description := None\<rparr>)
      | JStr s \<Rightarrow> Inr (i\<lparr>issue_description := Some s\<rparr>)
      | _ \<Rightarrow> Inl (bad_input ''description''))"

definition set_priority :: "jsval \<Rightarrow> Issue \<Rightarrow> jserror + Issue" where
  "set_priority v i =
     (case v of
        JUndefined \<Rightarrow> Inr i
      | JNum p \<Rightarrow> Inr (i\<lparr>issue_priority := p,
                          issue_priorityLabel := (case LINEAR_PRIORITY_MAP p of Some l \<Rightarrow> l | None \<Rightarrow> [])\<rparr>)
      | _ \<Rightarrow> Inl (bad_input ''priority''))"

definition set_assignee :: "UserRef list \<Rightarrow> jsval \<Rightarrow> Issue \<Rightarrow> jserror + Issue" where
  "set_assignee users v i =
     (case v of
        JUndefined \<Rightarrow> Inr i
      | JNull \<Rightarrow> Inr (i\<lparr>issue_assignee := None\<rparr>)
      | JStr u \<Rightarrow>
          (case find (\<lambda>x. user_id x = u) users of
             Some x \<Rightarrow> Inr (i\<lparr>issue_assignee := Some x\<rparr>)
           | None \<Rightarrow> Inl (not_found ''User''))
      | _ \<Rightarrow> Inl (bad_input ''assigneeId''))"

definition set_state :: "StateRef list \<Rightarrow> jsval \<Rightarrow> Issue \<Rightarrow> jserror + Issue" where
  "set_state states v i =
     (case v of
        JUndefined \<Rightarrow> Inr i
      | JStr sid \<Rightarrow>
          (case find (\<lambda>x. state_id x = sid) states of
             Some x \<Rightarrow> Inr (i\<lparr>issue_state := Some x\<rparr>)
           | None \<Rightarrow> Inl (not_found ''WorkflowState''))
      | _ \<Rightarrow> Inl (bad_input ''stateId''))"

definition set_project :: "Project list \<Rightarrow> jsval \<Rightarrow> Issue \<Rightarrow> jserror + Issue" where
  "set_project projects v i =
     (case v of
        JUndefined \<Rightarrow> Inr i
      | JNull \<Rightarrow> Inr (i\<lparr>issue_project := None\<rparr>)
      | JStr p \<Rightarrow>
          (case find (\<lambda>x. project_id x = p) projects of
             Some x \<Rightarrow> Inr (i\<lparr>issue_project := Some \<lparr>ref_id = project_id x, ref_name = project_name x\<rparr>\<rparr>)
           | None \<Rightarrow> Inl (not_found ''Project''))
      | _ \<Rightarrow> Inl (bad_input ''projectId''))"

definition and_then :: "jserror + 'a \<Rightarrow> ('a \<Rightarrow> jserror + 'b) \<Rightarrow> jserror + 'b" where
  "and_then r f = (case r of Inl e \<Rightarrow> Inl e | Inr x \<Rightarrow> f x)"

definition apply_update :: "Tracker \<Rightarrow> IssueUpdateInput \<Rightarrow> Issue \<Rightarrow> jserror + Issue" where
  "apply_update t input i =
     and_then (set_title (u_title input) i) (\<lambda>i.
     and_then (set_description (u_description input) i) (\<lambda>i.
     and_then (set_priority (u_priority input) i) (\<lambda>i.
     and_then (set_assignee (tr_users t) (u_assigneeId input) i) (\<lambda>i.
     and_then (set_project (tr_projects t) (u_projectId input) i) (\<lambda>i.
     and_then (set_state (tr_states t) (u_stateId input) i) (\<lambda>i.
     if u_labelIds input = JUndefined then Inr i else Inl (bad_input ''labelIds'')))))))"

definition tracker_updateIssue :: "jsval \<Rightarrow> IssueUpdateInput \<Rightarrow> (Issue option, Tracker) call" where
  "tracker_updateIssue v input t =
     (let t' = served (ReqUpdateIssue v input) t
      in case find (names_issue v) (tr_issues t) of
           None \<Rightarrow> (Inl (not_found ''Issue''), t')
         | Some i \<Rightarrow>
             (case apply_update t input i of
                Inl e \<Rightarrow> (Inl e, t')
              | Inr i' \<Rightarrow>
                  (Inr (Some i'),
                   t'\<lparr>tr_issues := map (\<lambda>j. if issue_id j = issue_id i then i' else j) (tr_issues t)\<rparr>)))"

definition first_n :: "jsval \<Rightarrow> 'a list \<Rightarrow> 'a list" where
  "first_n v xs = (case v of JNum n \<Rightarrow> take (nat \<lfloor>n\<rfloor>) xs | _ \<Rightarrow> xs)"

definition opt_match :: "jsval option \<Rightarrow> jsval \<Rightarrow> bool" where
  "opt_match want have = (case want of None \<Rightarrow> True | Some v \<Rightarrow> v = have)"

definition matches :: "IssuesQuery \<Rightarrow> Issue \<Rightarrow> bool" where
  "matches q i =
     ((case issue_team i of Some tm \<Rightarrow> tref_id tm = q_team q | None \<Rightarrow> False)
      \<and> opt_match (q_assignee q) (case issue_assignee i of Some u \<Rightarrow> JStr (user_id u) | None \<Rightarrow> JNull)
      \<and> opt_match (q_priority q) (JNum (issue_priority i))
      \<and> opt_match (q_stateType q) (case issue_state i of Some st \<Rightarrow> JStr (state_type st) | None \<Rightarrow> JNull)
      \<and> opt_match (q_project q) (case issue_project i of Some p \<Rightarrow> JStr (ref_id p) | None \<Rightarrow> JNull))"

definition tracker_issues :: "IssuesQuery \<Rightarrow> (Issue list, Tracker) call" where
  "tracker_issues q t =
     (Inr (first_n (q_first q) (filter (matches q) (tr_issues t))), served (ReqIssues q) t)"

definition tracker_issue :: "jsval \<Rightarrow> (Issue, Tracker) call" where
  "tracker_issue v t =
     (case find (names_issue v) (tr_issues t) of
        None \<Rightarrow> (Inl (not_found ''Issue''), served (ReqIssue v) t)
      | Some i \<Rightarrow> (Inr i, served (ReqIssue v) t))"

definition team_ref :: "LinearTeam \<Rightarrow> TeamRef" where
  "team_ref tm = \<lparr>tref_id = team_id tm, tref_name = team_name tm, tref_key = team_key tm\<rparr>"

definition epoch :: string where
  "epoch = ''1970-01-01T00:00:00.000Z''"

definition new_issue :: "Tracker \<Rightarrow> LinearTeam \<Rightarrow> Issue" where
  "new_issue t tm =
     (let n = show_nat (Suc (length (tr_issues t)))
      in \<lparr>issue_id = ''issue-'' @ n,
          issue_identifier = team_key tm @ ''-'' @ n,
          issue_title = [],
          issue_description = None,
          issue_priority = 0,
          issue_priorityLabel = ''No priority'',
          issue_state = (case tr_states t of [] \<Rightarrow> None | st # _ \<Rightarrow> Some st),
          issue_assignee = None,
          issue_creator = None,
          issue_project = None,
          issue_team = Some (team_ref tm),
          issue_labels = [],
          issue_createdAt = epoch,
          issue_updatedAt = epoch,
          issue_url = ''https://linear.app/issue/'' @ team_key tm @ ''-'' @ n\<rparr>)"

definition create_as_update :: "IssueCreateInput \<Rightarrow> IssueUpdateInput" where
  "create_as_update input =
     \<lparr>u_title = c_title input, u_description = c_description input, u_priority = c_priority input,
      u_assigneeId = c_assigneeId input, u_projectId = c_projectId input,
      u_stateId = c_stateId input, u_labelIds = c_labelIds input\<rparr>"

definition tracker_createIssue :: "SDKIssueCreate \<Rightarrow> (Issue option, Tracker) call" where
  "tracker_createIssue payload t =
     (let t' = served (ReqCreateIssue payload) t
      in case find (\<lambda>tm. team_id tm = sc_teamId payload) (tr_teams t) of
           None \<Rightarrow> (Inl (not_found ''Team''), t')
         | Some tm \<Rightarrow>
             (case c_title (sc_input payload) of
                JStr title \<Rightarrow>
                  (case apply_update t (create_as_update (sc_input payload)) (new_issue t tm) of
                     Inl e \<Rightarrow> (Inl e, t')
                   | Inr i \<Rightarrow> (Inr (Some i), t'\<lparr>tr_issues := tr_issues t @ [i]\<rparr>))
              | _ \<Rightarrow> (Inl (bad_input ''title''), t')))"

definition tracker_createComment :: "jsval \<Rightarrow> jsval \<Rightarrow> (Comment option, Tracker) call" where
  "tracker_createComment v body t =
     (let t' = served (ReqCreateComment v body) t
      in case find (names_issue v) (tr_issues t) of
           None \<Rightarrow> (Inl (not_found ''Issue''), t')
         | Some i \<Rightarrow>
             (case body of
                JStr b \<Rightarrow>
                  (let cm = \<lparr>comment_id = ''comment-'' @ show_nat (Suc (length (tr_comments t))),
                             comment_body = b\<rparr>
                   in (Inr (Some cm), t'\<lparr>tr_comments := tr_comments t @ [(issue_id i, cm)]\<rparr>))
              | _ \<Rightarrow> (Inl (bad_input ''body''), t')))"

definition in_team :: "string \<Rightarrow> Issue \<Rightarrow> bool" where
  "in_team team i = (case issue_team i of Some tm \<Rightarrow> tref_id tm = team | None \<Rightarrow> False)"

definition tracker_issueSearch :: "jsval \<Rightarrow> jsval \<Rightarrow> string \<Rightarrow> (Issue list, Tracker) call" where
  "tracker_issueSearch query first team t =
     (let t' = served (ReqIssueSearch query first team) t
      in case query of
           JStr q \<Rightarrow>
             (Inr (first_n first (filter (\<lambda>i. in_team team i \<and> sublist q (issue_title i)) (tr_issues t))), t')
         | _ \<Rightarrow> (Inl (bad_input ''query''), t'))"

definition tracker_projects :: "string \<Rightarrow> jsval \<Rightarrow> (Project list, Tracker) call" where
  "tracker_projects team first t =
     (Inr (first_n first
            (filter (\<lambda>p. case project_team p of Some tm \<Rightarrow> ref_id tm = team | None \<Rightarrow> False)
               (tr_projects t))),
      served (ReqProjects team first) t)"

definition tracker_project :: "jsval \<Rightarrow> (Project, Tracker) call" where
  "tracker_project v t =
     (case find (\<lambda>p. v = JStr (project_id p)) (tr_projects t) of
        None \<Rightarrow> (Inl (not_found ''Project''), served (ReqProject v) t)
      | Some p \<Rightarrow> (Inr p, served (ReqProject v) t))"

definition tracker_createProject :: "string list \<Rightarrow> jsval \<Rightarrow> jsval \<Rightarrow> (Project option, Tracker) call" where
  "tracker_createProject teamIds name description t =
     (let t' = served (ReqCreateProject teamIds name description) t
      in case name of
           JStr nm \<Rightarrow>
             (let n = show_nat (Suc (length (tr_projects t)));
                  p = \<lparr>project_id = ''project-'' @ n,
                       project_name = nm,
                       project_description = (case description of JStr d \<Rightarrow> Some d | _ \<Rightarrow> None),
                       project_state = ''planned'',
                       project_progress = 0,
                       project_startDate = None,
                       project_targetDate = None,
                       project_team = (case find (\<lambda>tm. team_id tm \<in> set teamIds) (tr_teams t) of
                                         Some tm \<Rightarrow> Some \<lparr>ref_id = team_id tm, ref_name = team_name tm\<rparr>
                                       | None \<Rightarrow> None),
                       project_lead = None,
                       project_url = ''https://linear.app/project/project-'' @ n\<rparr>
              in (Inr (Some p), t'\<lparr>tr_projects := tr_projects t @ [p]\<rparr>))
         | _ \<Rightarrow> (Inl (bad_input ''name''), t'))"

definition tracker_teams :: "(LinearTeam list, Tracker) call" where
  "tracker_teams t = (Inr (tr_teams t), served ReqTeams t)"

definition tracker_deleteIssue :: "jsval \<Rightarrow> (bool, Tracker) call" where
  "tracker_deleteIssue v t =
     (let t' = served (ReqDeleteIssue v) t
      in case find (names_issue v) (tr_issues t) of
           None \<Rightarrow> (Inl (not_found ''Issue''), t')
         | Some i \<Rightarrow> (Inr True, t'\<lparr>tr_issues := filter (\<lambda>j. \<not> names_issue v j) (tr_issues t)\<rparr>))"

definition tracker_archiveIssue :: "jsval \<Rightarrow> (bool, Tracker) call" where
  "tracker_archiveIssue v t =
     (let t' = served (ReqArchiveIssue v) t
      in case find (names_issue v) (tr_issues t) of
           None \<Rightarrow> (Inl (not_found ''Issue''), t')
         | Some i \<Rightarrow> (Inr True, t'\<lparr>tr_issues := filter (\<lambda>j. \<not> names_issue v j) (tr_issues t)\<rparr>))"

definition tracker_sdk :: "Tracker LinearSDK" where
  "tracker_sdk =
     \<lparr>sdk_issues = tracker_issues,
      sdk_issue = tracker_issue,
      sdk_createIssue = tracker_createIssue,
      sdk_updateIssue = tracker_updateIssue,
      sdk_createComment = tracker_createComment,
      sdk_issueSearch = tracker_issueSearch,
      sdk_projects = tracker_projects,
      sdk_project = tracker_project,
      sdk_createProject = tracker_createProject,
      sdk_teams = tracker_teams,
      sdk_deleteIssue = tracker_deleteIssue,
      sdk_archiveIssue = tracker_archiveIssue\<rparr>"

text \<open>An SDK every call of which throws the given value and leaves the state as it is.\<close>

definition rejecting_sdk :: "jserror \<Rightarrow> 's LinearSDK" where
  "rejecting_sdk e =
     \<lparr>sdk_issues = (\<lambda>q. throw e),
      sdk_issue = (\<lambda>v. throw e),
      sdk_createIssue = (\<lambda>p. throw e),
      sdk_updateIssue = (\<lambda>v input. throw e),
      sdk_createComment = (\<lambda>v b. throw e),
      sdk_issueSearch = (\<lambda>q n team. throw e),
      sdk_projects = (\<lambda>team n. throw e),
      sdk_project = (\<lambda>v. throw e),
      sdk_createProject = (\<lambda>teams nm d. throw e),
      sdk_teams = throw e,
      sdk_deleteIssue = (\<lambda>v. throw e),
      sdk_archiveIssue = (\<lambda>v. throw e)\<rparr>"

definition issue_ids :: "Tracker \<Rightarrow> string set" where
  "issue_ids t = issue_id ` set (tr_issues t)"

subsection \<open>A fixture\<close>

text \<open>
  One team whose workflow states carry the lifecycle names of the backlog, one user, and
  two issues: \<open>MAP-1\<close> is parked with low priority, \<open>MAP-2\<close> is ready and urgent.
\<close>

definition lifecycle_state :: "string \<Rightarrow> string \<Rightarrow> StateRef" where
  "lifecycle_state nm ty = \<lparr>state_id = ''st-'' @ nm, state_name = nm, state_type = ty\<rparr>"

definition map_team :: LinearTeam where
  "map_team = \<lparr>team_id = ''team-1'', team_name = ''Mapache'', team_key = ''MAP'',
                team_description = None\<rparr>"

definition kurt :: UserRef where
  "kurt = \<lparr>user_id = ''user-1'', user_name = ''Kurt'', user_email = ''kurt@example.com''\<rparr>"

definition fixture_issue :: "string \<Rightarrow> string \<Rightarrow> real \<Rightarrow> string \<Rightarrow> StateRef \<Rightarrow> Issue" where
  "fixture_issue n title p plabel st =
     \<lparr>issue_id = ''issue-'' @ n,
      issue_identifier = ''MAP-'' @ n,
      issue_title = title,
      issue_description = None,
      issue_priority = p,
      issue_priorityLabel = plabel,
      issue_state = Some st,
      issue_assignee = None,
      issue_creator = None,
      issue_project = None,
      issue_team = Some (team_ref map_team),
      issue_labels = [],
      issue_createdAt = epoch,
      issue_updatedAt = epoch,
      issue_url = ''https://linear.app/issue/MAP-'' @ n\<rparr>"

definition fixture :: Tracker where
  "fixture =
     \<lparr>tr_issues = [fixture_issue ''1'' ''Tidy the footer'' 4 ''Low'' (lifecycle_state ''parked'' ''backlog''),
                   fixture_issue ''2'' ''Fix the login'' 1 ''Urgent'' (lifecycle_state ''ready'' ''unstarted'')],
      tr_states = [lifecycle_state ''candidate'' ''backlog'', lifecycle_state ''shaped'' ''backlog'',
                   lifecycle_state ''ready'' ''unstarted'', lifecycle_state ''parked'' ''backlog'',
                   lifecycle_state ''discarded'' ''canceled''],
      tr_users = [kurt],
      tr_comments = [],
      tr_projects = [],
      tr_teams = [map_team],
      tr_requests = []\<rparr>"

definition fixture_client :: "Tracker LinearClient" where
  "fixture_client = \<lparr>client = tracker_sdk, teamId = ''team-1''\<rparr>"

definition obj :: "(string \<times> jsval) list \<Rightarrow> args" where
  \<comment> \<open>The arguments object with the given properties; any other property is \<open>undefined\<close>.\<close>
  "obj kvs k = (case map_of kvs k of Some v \<Rightarrow> v | None \<Rightarrow> JUndefined)"

definition fixture_rt :: JSRuntime where
  \<comment> \<open>A runtime for concrete runs: whole numbers in decimal, dates as their first ten characters.\<close>
  "fixture_rt = \<lparr>numberToString = (\<lambda>x. show_nat (nat \<lfloor>x\<rfloor>)), toLocaleDateString = take 10\<rparr>"

subsection \<open>Lifecycle statuses on the tracker\<close>

text \<open>
  The lifecycle statuses are workflow states of the tracker, known by name; the status
  of a ticket is the name of its state. \<open>backward_move\<close> is the transition that the
  lifecycle rule of the specification excludes: out of \<open>parked\<close> or \<open>discarded\<close>, back
  to \<open>shaped\<close> or \<open>ready\<close>.
\<close>

definition status_of :: "Tracker \<Rightarrow> string \<Rightarrow> string option" where
  "status_of t ident =
     (case find (\<lambda>i. issue_identifier i = ident) (tr_issues t) of
        None \<Rightarrow> None
      | Some i \<Rightarrow> map_option state_name (issue_state i))"

definition backward_move :: "string \<Rightarrow> string \<Rightarrow> bool" where
  "backward_move before after \<longleftrightarrow>
     before \<in> set [''parked'', ''discarded''] \<and> after \<in> set [''shaped'', ''ready'']"

section \<open>The shaping pipeline and its audit log\<close>

text \<open>
  The classifier, prioritizer, router and self-learning recorder of the specification are
  Python modules of the repository (\<open>agents/linear_agent\<close>, \<open>linear_agent/self_learning.py\<close>,
  \<open>storage.py\<close>) that are named in its documents but are not among the source files. The
  definitions of this section are therefore written from the specification's text.
\<close>

text \<open>
  Modelled from the spec: the closed enumerations of section 3 (source, surface, size,
  route), whose Python declarations (\<open>models.py\<close>) are missing.
\<close>

datatype source = UserAuthored | OpportunityGenerated

datatype surface = Solutions | App | Bridge

datatype size = Small | Medium | Large

datatype route_kind = Agent | Chat | Manual

text \<open>
  Modelled from the spec: the content of a Ticket (title, raw description, tag set, linked
  repositories), on which classification depends; the Python dataclass is missing.
\<close>

record TicketContent =
  tc_title :: string
  tc_description :: string
  tc_tags :: "string list"
  tc_repos :: "string list"

text \<open>
  Modelled from the spec: ClassificationResult, with one confidence per axis and the
  signals that the prioritizer and the router read off a classification (maintenance
  flavour, validated user or revenue signal, multi-repository scope, ambiguous scope);
  the Python dataclass is missing.
\<close>

record ClassificationResult =
  cr_source :: source
  cr_surfaces :: "surface list"
  cr_size :: size
  conf_source :: real
  conf_surface :: real
  conf_size :: real
  sig_maintenance :: bool
  sig_validated :: bool
  sig_multi_repo :: bool
  sig_ambiguous :: bool

text \<open>
  Modelled from the spec: LeanTicket, the five canonical fields; the Python dataclass is
  missing.
\<close>

record LeanTicket =
  lean_problem :: string
  lean_outcome :: string
  lean_surface :: string
  lean_context :: string
  lean_route_hint :: string

text \<open>
  Modelled from the spec: PriorityScore (a bounded integer and a rationale string) and
  RoutingDecision (route, rationale, artifact); the Python dataclasses are missing.
\<close>

record PriorityScore =
  ps_score :: int
  ps_rationale :: string

datatype artifact = Brief LeanTicket "string list" | Prompt string | NoArtifact

record RoutingDecision =
  rd_route :: route_kind
  rd_rationale :: string
  rd_artifact :: artifact

text \<open>
  Modelled from the spec: the configuration of section 6, a mapping supplied from outside
  (confidence threshold, funnel boosts and demotions, priority bounds); \<open>config.py\<close> is
  missing. The baseline is the score before any delta.
\<close>

record FunnelRules =
  threshold :: real
  baseline :: int
  bridge_boost :: int
  opportunity_boost :: int
  maintenance_demotion :: int
  speculative_demotion :: int
  priority_min :: int
  priority_max :: int

text \<open>
  Modelled from the spec: the Classifier and the Leanifier, of which the specification
  fixes the contract (pure functions of the ticket content, and of the content and the
  classification) but neither the keyword lists nor the confidence arithmetic;
  \<open>classification.py\<close> and \<open>shaping.py\<close> are missing. They are components handed to the
  pipeline, with the content hash of the idempotency snapshot.
\<close>

record Components =
  classify :: "TicketContent \<Rightarrow> ClassificationResult"
  leanify :: "TicketContent \<Rightarrow> ClassificationResult \<Rightarrow> LeanTicket"
  content_hash :: "TicketContent \<Rightarrow> nat"

text \<open>
  Modelled from the spec: the Prioritizer of section 4.3 (\<open>prioritization.py\<close> is missing).
  The rules are a table of (label, condition, delta) in fixed order; the score is the
  baseline plus the deltas of the rules that apply, clamped to the configured range; the
  rationale lists the applied deltas in table order.
\<close>

definition show_delta :: "int \<Rightarrow> string" where
  "show_delta d = (if d < 0 then ''-'' @ show_nat (nat (- d)) else ''+'' @ show_nat (nat d))"

definition funnel_table :: "FunnelRules \<Rightarrow> (string \<times> (ClassificationResult \<Rightarrow> bool) \<times> int) list" where
  "funnel_table rules =
     [(''bridge'', (\<lambda>c. Bridge \<in> set (cr_surfaces c)), bridge_boost rules),
      (''opportunity'',
         (\<lambda>c. cr_source c = OpportunityGenerated \<and> conf_source c > threshold rules),
         opportunity_boost rules),
      (''maintenance'',
         (\<lambda>c. set (cr_surfaces c) = {Solutions} \<and> sig_maintenance c),
         - maintenance_demotion rules),
      (''speculative'', (\<lambda>c. \<not> sig_validated c), - speculative_demotion rules)]"

definition clamp :: "int \<Rightarrow> int \<Rightarrow> int \<Rightarrow> int" where
  "clamp lo hi x = max lo (min hi x)"

definition prioritize :: "FunnelRules \<Rightarrow> ClassificationResult \<Rightarrow> PriorityScore" where
  "prioritize rules c =
     (let applied = filter (\<lambda>(label, cond, delta). cond c) (funnel_table rules)
      in \<lparr>ps_score = clamp (priority_min rules) (priority_max rules)
                       (baseline rules + sum_list (map (\<lambda>(label, cond, delta). delta) applied)),
          ps_rationale = join ''; '' (map (\<lambda>(label, cond, delta). label @ '' '' @ show_delta delta) applied)\<rparr>)"

text \<open>
  Modelled from the spec: the Router of section 4.4 (\<open>routing.py\<close> is missing): the
  decision table in its order of precedence, and the artifact of each route.
\<close>

definition route_table :: "FunnelRules \<Rightarrow> ((ClassificationResult \<Rightarrow> bool) \<times> route_kind \<times> string) list" where
  "route_table rules =
     [((\<lambda>c. conf_size c < threshold rules \<or> conf_surface c < threshold rules \<or> sig_ambiguous c),
       Manual, ''low confidence or ambiguous scope''),
      ((\<lambda>c. cr_size c = Large \<or> sig_multi_repo c), Agent, ''large or multi-repository scope''),
      ((\<lambda>c. True), Chat, ''small or medium, single repository'')]"

fun first_match :: "('a \<Rightarrow> bool) list \<Rightarrow> 'a \<Rightarrow> nat option" where
  "first_match [] x = None"
| "first_match (p # ps) x = (if p x then Some 0 else map_option Suc (first_match ps x))"

definition route :: "FunnelRules \<Rightarrow> ClassificationResult \<Rightarrow> PriorityScore \<Rightarrow> route_kind \<times> string" where
  "route rules c priority =
     (case first_match (map fst (route_table rules)) c of
        Some k \<Rightarrow> snd (route_table rules ! k)
      | None \<Rightarrow> (Manual, ''no rule applies''))"

definition build_artifact :: "route_kind \<Rightarrow> LeanTicket \<Rightarrow> string list \<Rightarrow> artifact" where
  "build_artifact r lean repos =
     (case r of
        Agent \<Rightarrow> Brief lean repos
      | Chat \<Rightarrow> Prompt (lean_problem lean @ nl @ lean_outcome lean @ nl @ lean_context lean)
      | Manual \<Rightarrow> NoArtifact)"

text \<open>
  Modelled from the spec: AuditEntry and the persisted state of section 6, the
  append-only audit log and the snapshot kept per ticket id (last content hash, last
  classification); \<open>storage.py\<close> is missing.
\<close>

datatype snapshot =
    OfContent TicketContent
  | OfClassification ClassificationResult
  | OfLean LeanTicket
  | OfPriority PriorityScore
  | OfRouting RoutingDecision
  | OfError string nat
  | Nothing

record AuditEntry =
  ae_timestamp :: nat
  ae_ticket :: string
  ae_stage :: string
  ae_input :: snapshot
  ae_output :: snapshot
  ae_outcome :: string

record EngineState =
  audit :: "AuditEntry list"
  snapshots :: "(string \<times> nat \<times> ClassificationResult) list"

record ImprovementTicket =
  it_stage :: string
  it_entries :: "nat list"

record RecorderConfig =
  failure_rate :: real
  severe :: nat

text \<open>
  Modelled from the spec: the Self-Learning Recorder of section 4.6
  (\<open>self_learning.py\<close> is missing). \<open>record\<close> appends one entry; \<open>record_failure\<close>
  appends a failure entry and, when the failure is severe or the share of failures in the
  log exceeds the configured rate, makes an improvement ticket that points at the entry;
  \<open>analyze\<close> ranks the stages that failed more than once in the last \<open>window\<close> entries
  and changes nothing.
\<close>

definition record_stage :: "nat \<Rightarrow> string \<Rightarrow> string \<Rightarrow> snapshot \<Rightarrow> snapshot \<Rightarrow> EngineState \<Rightarrow> EngineState" where
  "record_stage now ticket stage input output st =
     st\<lparr>audit := audit st @ [\<lparr>ae_timestamp = now, ae_ticket = ticket, ae_stage = stage,
                                ae_input = input, ae_output = output, ae_outcome = ''ok''\<rparr>]\<rparr>"

definition failures :: "AuditEntry list \<Rightarrow> AuditEntry list" where
  "failures entries = filter (\<lambda>e. ae_outcome e = ''failure'') entries"

definition record_failure ::
  "RecorderConfig \<Rightarrow> nat \<Rightarrow> string \<Rightarrow> string \<Rightarrow> snapshot \<Rightarrow> string \<Rightarrow> nat \<Rightarrow> EngineState
     \<Rightarrow> ImprovementTicket option \<times> EngineState" where
  "record_failure rc now ticket stage input error severity st =
     (let entries = audit st @ [\<lparr>ae_timestamp = now, ae_ticket = ticket, ae_stage = stage,
                              ae_input = input, ae_output = OfError error severity,
                              ae_outcome = ''failure''\<rparr>]
      in (if severity \<ge> severe rc
             \<or> real (length (failures entries)) > failure_rate rc * real (length entries)
          then Some \<lparr>it_stage = stage, it_entries = [length (audit st)]\<rparr>
          else None,
          st\<lparr>audit := entries\<rparr>))"

definition count_stage :: "AuditEntry list \<Rightarrow> string \<Rightarrow> nat" where
  "count_stage entries stage = length (filter (\<lambda>e. ae_stage e = stage) entries)"

definition analyze :: "nat \<Rightarrow> EngineState \<Rightarrow> (string \<times> nat) list" where
  "analyze window st =
     (let recent = failures (drop (length (audit st) - window) (audit st));
          stages = remdups (map ae_stage recent);
          repeated = filter (\<lambda>s. count_stage recent s \<ge> 2) stages
      in rev (sort_key snd (map (\<lambda>s. (s, count_stage recent s)) repeated)))"

text \<open>
  Modelled from the spec: one run of classify, prioritize and route for a ticket, as the
  Orchestrator sequences them (\<open>orchestrator.py\<close> is missing). The classification is
  taken from the snapshot when the content hash stored for the ticket id is the hash of
  the content, and computed otherwise; every stage is recorded; the snapshot is updated.
\<close>

definition lookup_snapshot :: "EngineState \<Rightarrow> string \<Rightarrow> nat \<Rightarrow> ClassificationResult option" where
  "lookup_snapshot st ticket h =
     (case map_of (snapshots st) ticket of
        Some (h', c) \<Rightarrow> if h' = h then Some c else None
      | None \<Rightarrow> None)"

definition run_pipeline ::
  "Components \<Rightarrow> FunnelRules \<Rightarrow> nat \<Rightarrow> string \<Rightarrow> TicketContent \<Rightarrow> EngineState
     \<Rightarrow> (ClassificationResult \<times> PriorityScore \<times> RoutingDecision) \<times> EngineState" where
  "run_pipeline comps rules now ticket body st =
     (let h = content_hash comps body;
          c = (case lookup_snapshot st ticket h of Some c \<Rightarrow> c | None \<Rightarrow> classify comps body);
          st1 = record_stage now ticket ''classify'' (OfContent body) (OfClassification c) st;
          lean = leanify comps body c;
          st2 = record_stage now ticket ''leanify'' (OfClassification c) (OfLean lean) st1;
          p = prioritize rules c;
          st3 = record_stage now ticket ''prioritize'' (OfClassification c) (OfPriority p) st2;
          (r, why) = route rules c p;
          d = \<lparr>rd_route = r, rd_rationale = why, rd_artifact = build_artifact r lean (tc_repos body)\<rparr>;
          st4 = record_stage now ticket ''route'' (OfPriority p) (OfRouting d) st3
      in ((c, p, d), st4\<lparr>snapshots := AList.update ticket (h, c) (snapshots st4)\<rparr>))"

text \<open>
  Modelled from the spec: the operations that touch the persisted state, and a run of
  any sequence of them.
\<close>

datatype engine_op =
    Record nat string string snapshot snapshot
  | RecordFailure nat string string snapshot string nat
  | Analyze nat
  | Pipeline nat string TicketContent

fun engine_step :: "Components \<Rightarrow> FunnelRules \<Rightarrow> RecorderConfig \<Rightarrow> engine_op \<Rightarrow> EngineState \<Rightarrow> EngineState" where
  "engine_step comps rules rc (Record now ticket stage input output) st =
     record_stage now ticket stage input output st"
| "engine_step comps rules rc (RecordFailure now ticket stage input error severity) st =
     snd (record_failure rc now ticket stage input error severity st)"
| "engine_step comps rules rc (Analyze window) st = st"
| "engine_step comps rules rc (Pipeline now ticket body) st =
     snd (run_pipeline comps rules now ticket body st)"

fun engine_run :: "Components \<Rightarrow> FunnelRules \<Rightarrow> RecorderConfig \<Rightarrow> engine_op list \<Rightarrow> EngineState \<Rightarrow> EngineState" where
  "engine_run comps rules rc [] st = st"
| "engine_run comps rules rc (x # xs) st =
     engine_run comps rules rc xs (engine_step comps rules rc x st)"

text \<open>
  Modelled from the spec: the lifecycle statuses of section 4.5 and the Ticket of section 3
  as the Orchestrator holds it: identifier, content, lifecycle status, creation timestamp,
  and the priority and the routing decision that the engine writes onto it. The Python
  declarations (\<open>models.py\<close>) are missing.
\<close>

datatype status = Candidate | Shaped | Ready | Parked | Discarded

record Ticket =
  t_id :: string
  t_content :: TicketContent
  t_status :: status
  t_created :: nat
  t_priority :: int
  t_routing :: "RoutingDecision option"

text \<open>
  Modelled from the spec: the write-back of a pipeline run (section 3: the status becomes
  \<open>ready\<close> after a RoutingDecision is attached; the engine mutates status and priority),
  and the run of the pipeline on a ticket followed by that write-back, as the Orchestrator
  of section 6 sequences them (\<open>orchestrator.py\<close> is missing). The relevance check that
  parks or discards a ticket before any score is produced is not part of this step.
\<close>

definition attach :: "Ticket \<Rightarrow> PriorityScore \<Rightarrow> RoutingDecision \<Rightarrow> Ticket" where
  "attach t p d = t\<lparr>t_status := Ready, t_priority := ps_score p, t_routing := Some d\<rparr>"

definition shape_ticket ::
  "Components \<Rightarrow> FunnelRules \<Rightarrow> nat \<Rightarrow> Ticket \<Rightarrow> EngineState \<Rightarrow> Ticket \<times> EngineState" where
  "shape_ticket comps rules now t st =
     (case run_pipeline comps rules now (t_id t) (t_content t) st of
        ((c, p, d), st') \<Rightarrow> (attach t p d, st'))"

text \<open>
  Modelled from the spec: \<open>next(count)\<close> of section 6 (\<open>orchestrator.py\<close> is missing):
  the \<open>ready\<close> tickets of the backlog, ordered by priority score descending and, among
  equal scores, by creation timestamp ascending, cut off after the first \<open>n\<close>. The
  sort is stable, so tickets equal in both keep their backlog order. (\<open>next\<close> is a
  reserved word of the prover, hence the longer name.)
\<close>

definition rank :: "Ticket \<Rightarrow> int \<times> nat" where
  \<comment> \<open>The sort key: pairs are compared lexicographically.\<close>
  "rank t = (- t_priority t, t_created t)"

definition next_tickets :: "nat \<Rightarrow> Ticket list \<Rightarrow> Ticket list" where
  "next_tickets n backlog =
     take n (sort_key rank (filter (\<lambda>t. t_status t = Ready) backlog))"

text \<open>
  Modelled from the spec: a configuration and components for concrete runs, after
  Scenario B of section 8 (a large bridge ticket that references two repositories).
\<close>

definition sample_rules :: FunnelRules where
  "sample_rules =
     \<lparr>threshold = 3 / 5, baseline = 2, bridge_boost = 2, opportunity_boost = 1,
      maintenance_demotion = 1, speculative_demotion = 1, priority_min = 0, priority_max = 4\<rparr>"

definition sample_content :: TicketContent where
  "sample_content =
     \<lparr>tc_title = ''Mirror onboarding flow into conversational OS via shared GUI layer'',
      tc_description = ''Move the onboarding flow.'',
      tc_tags = [],
      tc_repos = [''solutions-app'', ''os'']\<rparr>"

definition sample_classification :: ClassificationResult where
  "sample_classification =
     \<lparr>cr_source = UserAuthored, cr_surfaces = [Bridge, Solutions, App], cr_size = Large,
      conf_source = 9 / 10, conf_surface = 9 / 10, conf_size = 9 / 10,
      sig_maintenance = False, sig_validated = False, sig_multi_repo = True,
      sig_ambiguous = False\<rparr>"

definition sample_lean :: "TicketContent \<Rightarrow> LeanTicket" where
  "sample_lean body =
     \<lparr>lean_problem = tc_title body, lean_outcome = ''Onboarding works in the OS'',
      lean_surface = ''bridge'', lean_context = tc_description body,
      lean_route_hint = ''agent''\<rparr>"

definition sample_components :: Components where
  "sample_components =
     \<lparr>classify = (\<lambda>body. sample_classification),
      leanify = (\<lambda>body c. sample_lean body),
      content_hash = (\<lambda>body. length (tc_title body) + length (tc_description body))\<rparr>"

definition sample_recorder :: RecorderConfig where
  "sample_recorder = \<lparr>failure_rate = 1 / 2, severe = 3\<rparr>"

definition empty_state :: EngineState where
  "empty_state = \<lparr>audit = [], snapshots = []\<rparr>"

text \<open>
  Modelled from the spec: a backlog for concrete runs. Three tickets are ready: two of
  score 3, created at times 20 and 10, and one of score 4; one urgent ticket is parked
  and one is still a candidate.
\<close>

definition sample_decision :: RoutingDecision where
  "sample_decision =
     \<lparr>rd_route = Manual, rd_rationale = ''low confidence or ambiguous scope'',
      rd_artifact = NoArtifact\<rparr>"

definition sample_ticket :: "string \<Rightarrow> status \<Rightarrow> nat \<Rightarrow> int \<Rightarrow> Ticket" where
  "sample_ticket ident st created score =
     \<lparr>t_id = ident, t_content = sample_content, t_status = st, t_created = created,
      t_priority = score, t_routing = (if st = Ready then Some sample_decision else None)\<rparr>"

definition sample_backlog :: "Ticket list" where
  "sample_backlog =
     [sample_ticket ''T-1'' Ready 20 3,
      sample_ticket ''T-2'' Parked 5 4,
      sample_ticket ''T-3'' Ready 10 3,
      sample_ticket ''T-4'' Candidate 1 0,
      sample_ticket ''T-5'' Ready 30 4]"

section \<open>Facts about the tool layer\<close>

lemma collectErrors_nonempty_iff:
  "collectErrors vs \<noteq> [] \<longleftrightarrow> (\<exists>e. Some e \<in> set vs)"
  by (induction vs) (auto simp: collectErrors_def List.map_filter_simps split: option.splits)

lemmas tool_defs = listIssuesTool_def getIssueTool_def createIssueTool_def updateIssueTool_def
  addCommentTool_def searchIssuesTool_def assignIssueTool_def updateStatusTool_def
  listProjectsTool_def getProjectTool_def createProjectTool_def listTeamsTool_def

lemma handlers_setupHandlers:
  "handlers (setupHandlers rt c) =
     [(''list_issues'', createListIssuesHandler c),
      (''get_issue'', createGetIssueHandler rt c),
      (''create_issue'', createCreateIssueHandler c),
      (''update_issue'', createUpdateIssueHandler c),
      (''add_comment'', createAddCommentHandler rt c),
      (''search_issues'', createSearchIssuesHandler rt c),
      (''assign_issue'', createAssignIssueHandler c),
      (''update_status'', createUpdateStatusHandler c),
      (''list_projects'', createListProjectsHandler rt c),
      (''get_project'', createGetProjectHandler rt c),
      (''create_project'', createCreateProjectHandler c),
      (''list_teams'', createListTeamsHandler c)]"
  by (simp add: setupHandlers_def registerTool_def tool_defs)

lemma try_catch_ret: "try_catch (ret r) ctx s = (Inr r, s)"
  by (simp add: try_catch_def ret_def)

lemma invalid_get_issue:
  "get_issue_errors a \<noteq> [] \<Longrightarrow>
   createGetIssueHandler rt c a s = (Inr (handleValidationErrors (get_issue_errors a)), s)"
  by (simp add: createGetIssueHandler_def Let_def try_catch_ret)

lemma invalid_create_issue:
  "create_issue_errors a \<noteq> [] \<Longrightarrow>
   createCreateIssueHandler c a s = (Inr (handleValidationErrors (create_issue_errors a)), s)"
  by (simp add: createCreateIssueHandler_def Let_def try_catch_ret)

lemma invalid_update_issue:
  "update_issue_errors a \<noteq> [] \<Longrightarrow>
   createUpdateIssueHandler c a s = (Inr (handleValidationErrors (update_issue_errors a)), s)"
  by (simp add: createUpdateIssueHandler_def Let_def try_catch_ret)

lemma invalid_add_comment:
  "add_comment_errors a \<noteq> [] \<Longrightarrow>
   createAddCommentHandler rt c a s = (Inr (handleValidationErrors (add_comment_errors a)), s)"
  by (simp add: createAddCommentHandler_def Let_def try_catch_ret)

lemma invalid_search_issues:
  "search_issues_errors a \<noteq> [] \<Longrightarrow>
   createSearchIssuesHandler rt c a s = (Inr (handleValidationErrors (search_issues_errors a)), s)"
  by (simp add: createSearchIssuesHandler_def Let_def try_catch_ret)

lemma invalid_assign_issue:
  "assign_issue_errors a \<noteq> [] \<Longrightarrow>
   createAssignIssueHandler c a s = (Inr (handleValidationErrors (assign_issue_errors a)), s)"
  by (simp add: createAssignIssueHandler_def Let_def try_catch_ret)

lemma invalid_update_status:
  "update_status_errors a \<noteq> [] \<Longrightarrow>
   createUpdateStatusHandler c a s = (Inr (handleValidationErrors (update_status_errors a)), s)"
  by (simp add: createUpdateStatusHandler_def Let_def try_catch_ret)

lemma invalid_get_project:
  "get_project_errors a \<noteq> [] \<Longrightarrow>
   createGetProjectHandler rt c a s = (Inr (handleValidationErrors (get_project_errors a)), s)"
  by (simp add: createGetProjectHandler_def Let_def try_catch_ret)

lemma invalid_create_project:
  "create_project_errors a \<noteq> [] \<Longrightarrow>
   createCreateProjectHandler c a s = (Inr (handleValidationErrors (create_project_errors a)), s)"
  by (simp add: createCreateProjectHandler_def Let_def try_catch_ret)

lemmas invalid_args = invalid_get_issue invalid_create_issue invalid_update_issue
  invalid_add_comment invalid_search_issues invalid_assign_issue invalid_update_status
  invalid_get_project invalid_create_project

lemma create_issue_errors_iff:
  "create_issue_errors a = [] \<longleftrightarrow>
     (\<exists>t. a ''title'' = JStr t \<and> 1 \<le> length t \<and> length t \<le> 255)"
  by (auto simp: create_issue_errors_def collectErrors_def List.map_filter_simps
        validateRequired_def validateString_def Suc_le_eq split: jsval.splits)

lemma invalid_call_state:
  assumes "validation_errors toolName a \<noteq> []"
  shows "snd (callTool (setupHandlers rt c) toolName (Some a) s) = s"
  using assms
  by (auto simp: validation_errors_def callTool_def or_empty_def handlers_setupHandlers invalid_args
        split: if_splits)

lemma validating_tools_reject_missing_arguments:
  assumes "toolName \<in> set validating_tools"
  shows "validation_errors toolName (or_empty None) \<noteq> []"
  using assms
  by (auto simp: validating_tools_def validation_errors_def or_empty_def collectErrors_def
        List.map_filter_simps validateRequired_def get_issue_errors_def create_issue_errors_def
        update_issue_errors_def add_comment_errors_def search_issues_errors_def
        assign_issue_errors_def update_status_errors_def get_project_errors_def
        create_project_errors_def)

lemma only_validating_tools_reject:
  assumes "validation_errors toolName a \<noteq> []"
  shows "toolName \<in> set validating_tools"
  using assms by (auto simp: validating_tools_def validation_errors_def split: if_splits)

subsection \<open>The outcome of a handler\<close>

lemma sublist_join: "x \<in> set xs \<Longrightarrow> sublist x (join sep xs)"
proof (induction sep xs rule: join.induct)
  case (1 sep)
  then show ?case by simp
next
  case (2 sep y)
  then show ?case by simp
next
  case (3 sep y z zs)
  show ?case
  proof (cases "x = y")
    case True
    then show ?thesis by (simp add: sublist_append_rightI)
  next
    case False
    with 3 have "sublist x (join sep (z # zs))" by simp
    then show ?thesis by (simp add: sublist_append)
  qed
qed

lemma validation_response_lists_field:
  assumes "e \<in> set errs"
  shows "\<exists>txt. content (handleValidationErrors errs) = [txt] \<and> sublist (field e) txt"
proof -
  let ?line = "\<lambda>e. ''- '' @ field e @ '': '' @ message e"
  have "sublist (?line e) (join [CHR 0x0A] (map ?line errs))"
    using assms by (intro sublist_join) auto
  moreover have "sublist (field e) (?line e)"
    by (metis sublist_appendI)
  ultimately have "sublist (field e) (join [CHR 0x0A] (map ?line errs))"
    by (rule sublist_order.order_trans[rotated])
  then have "sublist (field e) ((''Validation errors:'' @ [CHR 0x0A]) @ join [CHR 0x0A] (map ?line errs))"
    unfolding sublist_append by (rule disjI2 [OF disjI1])
  then show ?thesis
    by (simp add: handleValidationErrors_def)
qed

lemmas call_defs = try_catch_def bind_def ret_def lift_def throw_def catch_log_def template_def

lemmas outcome_defs = tool_outcome_def caught_def thrown_def handle_def call_defs Let_def
  formatIssue_def formatProject_def undefined_read_def cannot_convert_def toString_def

lemma formatEach_Error:
  assumes "formatEach f xs = Inl e" and "\<And>x e. f x = Inl e \<Longrightarrow> \<exists>m. e = Error m"
  shows "\<exists>m. e = Error m"
  using assms by (induction xs) (auto split: sum.splits)

lemma formatIssue_Error: "formatIssue i = Inl e \<Longrightarrow> \<exists>m. e = Error m"
  by (auto simp: formatIssue_def undefined_read_def split: option.splits)

lemma formatProject_Error: "formatProject p = Inl e \<Longrightarrow> \<exists>m. e = Error m"
  by (auto simp: formatProject_def undefined_read_def split: option.splits)

lemma outcome_list_issues:
  "tool_outcome ''list_issues'' a
     (thrown_by (client c)
        (ReqIssues (filterObj (teamId c) (Some (list_issues_filter a)) (default_limit (a ''limit'') 50))) s)
     (fst (createListIssuesHandler c a s))"
  by (auto simp: outcome_defs createListIssuesHandler_def listIssues_def list_issues_filter_def
        split: prod.splits sum.splits dest: formatEach_Error [OF _ formatIssue_Error])

lemma outcome_get_issue:
  assumes "get_issue_errors a = []"
  shows "tool_outcome ''get_issue'' a (thrown_by (client c) (ReqIssue (a ''issueId'')) s)
           (fst (createGetIssueHandler rt c a s))"
  using assms
  by (auto simp: outcome_defs createGetIssueHandler_def getIssue_def
        split: prod.splits sum.splits option.splits)

lemma outcome_create_issue:
  assumes "create_issue_errors a = []"
  shows "tool_outcome ''create_issue'' a
           (thrown_by (client c) (ReqCreateIssue \<lparr>sc_teamId = teamId c, sc_input = create_issue_input a\<rparr>) s)
           (fst (createCreateIssueHandler c a s))"
  using assms
  by (auto simp: outcome_defs createCreateIssueHandler_def createIssue_def
        split: prod.splits sum.splits option.splits)

lemma outcome_update_issue:
  assumes "update_issue_errors a = []"
  shows "tool_outcome ''update_issue'' a
           (thrown_by (client c) (ReqUpdateIssue (a ''issueId'') (update_issue_input a)) s)
           (fst (createUpdateIssueHandler c a s))"
  using assms
  by (auto simp: outcome_defs createUpdateIssueHandler_def updateIssue_def
        split: prod.splits sum.splits option.splits)

lemma outcome_add_comment:
  assumes "add_comment_errors a = []"
  shows "tool_outcome ''add_comment'' a
           (thrown_by (client c) (ReqCreateComment (a ''issueId'') (a ''body'')) s)
           (fst (createAddCommentHandler rt c a s))"
  using assms
  by (auto simp: outcome_defs createAddCommentHandler_def addComment_def
        split: prod.splits sum.splits option.splits)

lemma outcome_search_issues:
  assumes "search_issues_errors a = []"
  shows "tool_outcome ''search_issues'' a
           (thrown_by (client c) (ReqIssueSearch (a ''query'') (default_limit (a ''limit'') 20) (teamId c)) s)
           (fst (createSearchIssuesHandler rt c a s))"
  using assms
  by (auto simp: outcome_defs createSearchIssuesHandler_def searchIssues_def
        split: prod.splits sum.splits dest: formatEach_Error [OF _ formatIssue_Error])

lemma outcome_assign_issue:
  assumes "assign_issue_errors a = []"
  shows "tool_outcome ''assign_issue'' a
           (thrown_by (client c)
              (ReqUpdateIssue (a ''issueId'') (no_update\<lparr>u_assigneeId := assign_issue_assigneeId a\<rparr>)) s)
           (fst (createAssignIssueHandler c a s))"
  using assms
  by (auto simp: outcome_defs createAssignIssueHandler_def updateIssue_def
        split: prod.splits sum.splits option.splits)

lemma outcome_update_status:
  assumes "update_status_errors a = []"
  shows "tool_outcome ''update_status'' a
           (thrown_by (client c) (ReqUpdateIssue (a ''issueId'') (no_update\<lparr>u_stateId := a ''stateId''\<rparr>)) s)
           (fst (createUpdateStatusHandler c a s))"
  using assms
  by (auto simp: outcome_defs createUpdateStatusHandler_def updateIssue_def
        split: prod.splits sum.splits option.splits)

lemma outcome_list_projects:
  "tool_outcome ''list_projects'' a
     (thrown_by (client c) (ReqProjects (teamId c) (default_limit (a ''limit'') 50)) s)
     (fst (createListProjectsHandler rt c a s))"
  by (auto simp: outcome_defs createListProjectsHandler_def listProjects_def
        split: prod.splits sum.splits dest: formatEach_Error [OF _ formatProject_Error])

lemma outcome_get_project:
  assumes "get_project_errors a = []"
  shows "tool_outcome ''get_project'' a (thrown_by (client c) (ReqProject (a ''projectId'')) s)
           (fst (createGetProjectHandler rt c a s))"
  using assms
  by (auto simp: outcome_defs createGetProjectHandler_def getProject_def
        split: prod.splits sum.splits option.splits)

lemma outcome_create_project:
  assumes "create_project_errors a = []"
  shows "tool_outcome ''create_project'' a
           (thrown_by (client c) (ReqCreateProject [teamId c] (a ''name'') (a ''description'')) s)
           (fst (createCreateProjectHandler c a s))"
  using assms
  by (auto simp: outcome_defs createCreateProjectHandler_def createProject_def
        split: prod.splits sum.splits option.splits)

lemma outcome_list_teams:
  "tool_outcome ''list_teams'' a (thrown_by (client c) ReqTeams s) (fst (createListTeamsHandler c a s))"
  by (auto simp: outcome_defs createListTeamsHandler_def listTeams_def split: prod.splits sum.splits)

subsection \<open>Unfolding sets for concrete runs\<close>

lemmas tracker_defs = fixture_client_def tracker_sdk_def tracker_updateIssue_def
  tracker_createIssue_def tracker_issues_def tracker_issue_def
  served_def names_issue_def apply_update_def and_then_def set_title_def
  set_description_def set_priority_def set_assignee_def set_project_def set_state_def
  create_as_update_def new_issue_def first_n_def matches_def opt_match_def

lemmas fixture_defs = fixture_def fixture_issue_def lifecycle_state_def map_team_def
  team_ref_def kurt_def epoch_def

lemma assign_issue_valid_iff:
  "assign_issue_errors a = [] \<longleftrightarrow> a ''issueId'' \<noteq> JUndefined \<and> a ''issueId'' \<noteq> JNull \<and> a ''issueId'' \<noteq> JStr []"
  by (simp add: assign_issue_errors_def collectErrors_def List.map_filter_simps validateRequired_def)

lemma digits:
  "digit 0 = CHR ''0''" "digit 1 = CHR ''1''" "digit 2 = CHR ''2''" "digit 3 = CHR ''3''"
  "digit 4 = CHR ''4''" "digit 5 = CHR ''5''" "digit 6 = CHR ''6''" "digit 7 = CHR ''7''"
  "digit 8 = CHR ''8''" "digit 9 = CHR ''9''" "digit (Suc 0) = CHR ''1''"
  by code_simp+

lemma show_nat_digit: "n < 10 \<Longrightarrow> show_nat n = [digit n]"
  by (simp add: show_nat.simps)

subsection \<open>Each tool call is at most one SDK request\<close>

lemmas state_defs = call_defs Let_def

lemma state_list_issues:
  "snd (createListIssuesHandler c a s)
     = serve (client c) (ReqIssues (filterObj (teamId c) (Some (list_issues_filter a)) (default_limit (a ''limit'') 50))) s"
  by (simp add: createListIssuesHandler_def listIssues_def list_issues_filter_def state_defs
        split: prod.splits sum.splits)

lemma state_get_issue:
  "get_issue_errors a = [] \<Longrightarrow>
   snd (createGetIssueHandler rt c a s) = serve (client c) (ReqIssue (a ''issueId'')) s"
  by (simp add: createGetIssueHandler_def getIssue_def state_defs split: prod.splits sum.splits)

lemma state_create_issue:
  "create_issue_errors a = [] \<Longrightarrow>
   snd (createCreateIssueHandler c a s)
     = serve (client c) (ReqCreateIssue \<lparr>sc_teamId = teamId c, sc_input = create_issue_input a\<rparr>) s"
  by (simp add: createCreateIssueHandler_def createIssue_def state_defs
        split: prod.splits sum.splits option.splits)

lemma state_update_issue:
  "update_issue_errors a = [] \<Longrightarrow>
   snd (createUpdateIssueHandler c a s)
     = serve (client c) (ReqUpdateIssue (a ''issueId'') (update_issue_input a)) s"
  by (simp add: createUpdateIssueHandler_def updateIssue_def state_defs
        split: prod.splits sum.splits option.splits)

lemma state_add_comment:
  "add_comment_errors a = [] \<Longrightarrow>
   snd (createAddCommentHandler rt c a s)
     = serve (client c) (ReqCreateComment (a ''issueId'') (a ''body'')) s"
  by (simp add: createAddCommentHandler_def addComment_def state_defs
        split: prod.splits sum.splits option.splits)

lemma state_search_issues:
  "search_issues_errors a = [] \<Longrightarrow>
   snd (createSearchIssuesHandler rt c a s)
     = serve (client c) (ReqIssueSearch (a ''query'') (default_limit (a ''limit'') 20) (teamId c)) s"
  by (simp add: createSearchIssuesHandler_def searchIssues_def state_defs
        split: prod.splits sum.splits)

lemma state_assign_issue:
  "assign_issue_errors a = [] \<Longrightarrow>
   snd (createAssignIssueHandler c a s)
     = serve (client c) (ReqUpdateIssue (a ''issueId'') (no_update\<lparr>u_assigneeId := assign_issue_assigneeId a\<rparr>)) s"
  by (simp add: createAssignIssueHandler_def updateIssue_def state_defs
        split: prod.splits sum.splits option.splits)

lemma state_update_status:
  "update_status_errors a = [] \<Longrightarrow>
   snd (createUpdateStatusHandler c a s)
     = serve (client c) (ReqUpdateIssue (a ''issueId'') (no_update\<lparr>u_stateId := a ''stateId''\<rparr>)) s"
  by (simp add: createUpdateStatusHandler_def updateIssue_def state_defs
        split: prod.splits sum.splits option.splits)

lemma state_list_projects:
  "snd (createListProjectsHandler rt c a s)
     = serve (client c) (ReqProjects (teamId c) (default_limit (a ''limit'') 50)) s"
  by (simp add: createListProjectsHandler_def listProjects_def state_defs
        split: prod.splits sum.splits)

lemma state_get_project:
  "get_project_errors a = [] \<Longrightarrow>
   snd (createGetProjectHandler rt c a s) = serve (client c) (ReqProject (a ''projectId'')) s"
  by (simp add: createGetProjectHandler_def getProject_def state_defs split: prod.splits sum.splits)

lemma state_create_project:
  "create_project_errors a = [] \<Longrightarrow>
   snd (createCreateProjectHandler c a s)
     = serve (client c) (ReqCreateProject [teamId c] (a ''name'') (a ''description'')) s"
  by (simp add: createCreateProjectHandler_def createProject_def state_defs
        split: prod.splits sum.splits option.splits)

lemma state_list_teams:
  "snd (createListTeamsHandler c a s) = serve (client c) ReqTeams s"
  by (simp add: createListTeamsHandler_def listTeams_def state_defs split: prod.splits sum.splits)

lemmas state_of_handler = state_list_issues state_get_issue state_create_issue state_update_issue
  state_add_comment state_search_issues state_assign_issue state_update_status
  state_list_projects state_get_project state_create_project state_list_teams

lemma or_empty_Some [simp]: "or_empty (Some a) = a"
  by (simp add: or_empty_def)

lemma callTool_or_empty:
  "callTool srv toolName arguments s = callTool srv toolName (Some (or_empty arguments)) s"
  unfolding callTool_def or_empty_Some ..

lemma tool_call_state_invalid:
  assumes "validation_errors toolName (or_empty arguments) \<noteq> []"
  shows "snd (callTool (setupHandlers rt c) toolName arguments s) = s"
  using invalid_call_state [OF assms, of rt c s]
  by (simp add: callTool_or_empty [of _ _ arguments])

lemma tool_call_state_valid:
  assumes "validation_errors toolName a = []"
  shows "snd (case map_of (handlers (setupHandlers rt c)) toolName of
               None \<Rightarrow> (Inl (Error (''Unknown tool: '' @ toolName)), s)
             | Some handler \<Rightarrow> handler a s)
           = (case tool_request toolName (teamId c) a of
                None \<Rightarrow> s
              | Some r \<Rightarrow> serve (client c) r s)"
proof -
  consider "toolName = ''list_issues''" | "toolName = ''get_issue''" | "toolName = ''create_issue''"
    | "toolName = ''update_issue''" | "toolName = ''add_comment''" | "toolName = ''search_issues''"
    | "toolName = ''assign_issue''" | "toolName = ''update_status''" | "toolName = ''list_projects''"
    | "toolName = ''get_project''" | "toolName = ''create_project''" | "toolName = ''list_teams''"
    | "toolName \<notin> set [''list_issues'', ''get_issue'', ''create_issue'', ''update_issue'',
         ''add_comment'', ''search_issues'', ''assign_issue'', ''update_status'', ''list_projects'',
         ''get_project'', ''create_project'', ''list_teams'']"
    by auto
  then show ?thesis
  proof cases
    case 1
    then show ?thesis
      by (simp add: handlers_setupHandlers tool_request_def validation_errors_def state_list_issues)
  next
    case 2
    then show ?thesis using assms
      by (simp add: handlers_setupHandlers tool_request_def validation_errors_def state_get_issue)
  next
    case 3
    then show ?thesis using assms
      by (simp add: handlers_setupHandlers tool_request_def validation_errors_def state_create_issue)
  next
    case 4
    then show ?thesis using assms
      by (simp add: handlers_setupHandlers tool_request_def validation_errors_def state_update_issue)
  next
    case 5
    then show ?thesis using assms
      by (simp add: handlers_setupHandlers tool_request_def validation_errors_def state_add_comment)
  next
    case 6
    then show ?thesis using assms
      by (simp add: handlers_setupHandlers tool_request_def validation_errors_def state_search_issues)
  next
    case 7
    then show ?thesis using assms
      by (simp add: handlers_setupHandlers tool_request_def validation_errors_def state_assign_issue)
  next
    case 8
    then show ?thesis using assms
      by (simp add: handlers_setupHandlers tool_request_def validation_errors_def state_update_status)
  next
    case 9
    then show ?thesis
      by (simp add: handlers_setupHandlers tool_request_def validation_errors_def state_list_projects)
  next
    case 10
    then show ?thesis using assms
      by (simp add: handlers_setupHandlers tool_request_def validation_errors_def state_get_project)
  next
    case 11
    then show ?thesis using assms
      by (simp add: handlers_setupHandlers tool_request_def validation_errors_def state_create_project)
  next
    case 12
    then show ?thesis
      by (simp add: handlers_setupHandlers tool_request_def validation_errors_def state_list_teams)
  next
    case 13
    then show ?thesis
      by (simp add: handlers_setupHandlers tool_request_def validation_errors_def)
  qed
qed

lemma tool_call_state:
  "snd (callTool (setupHandlers rt c) toolName arguments s)
     = (case tool_request toolName (teamId c) (or_empty arguments) of
          None \<Rightarrow> s
        | Some r \<Rightarrow> serve (client c) r s)"
proof (cases "validation_errors toolName (or_empty arguments) = []")
  case False
  then show ?thesis
    by (simp add: tool_call_state_invalid tool_request_def)
next
  case True
  then show ?thesis
    unfolding callTool_def by (rule tool_call_state_valid)
qed

section \<open>Validation before any client call\<close>

text \<open>
  Claim C10. Validation is atomic with respect to the tracker: when the handler registered
  under a tool name collects at least one validation error from its arguments (for
  \<open>create_issue\<close>: a title that is missing, not a string, empty or longer than 255
  characters, see \<open>create_issue_errors_iff\<close>; for each of the nine validating tools: no
  arguments at all, see \<open>validating_tools_reject_missing_arguments\<close>), a call of that
  tool returns the validation-error response for exactly those errors and hands back the
  tracker state it was given. The equation holds for every client and every state, so no call to the
  client is made: nothing is read and nothing is changed.
\<close>

theorem validation_failure_makes_no_client_call:
  assumes "validation_errors toolName a \<noteq> []"
  shows "callTool (setupHandlers rt c) toolName (Some a) s
           = (Inr (handleValidationErrors (validation_errors toolName a)), s)"
  using assms
  by (auto simp: validation_errors_def callTool_def or_empty_def handlers_setupHandlers invalid_args
        split: if_splits)

theorem validation_failure_makes_no_client_call_witness:
  "validation_errors ''create_issue'' (obj [(''title'', JStr (replicate 256 CHR ''x''))]) \<noteq> []
   \<and> tr_requests (snd (callTool (setupHandlers fixture_rt fixture_client) ''create_issue''
                          (Some (obj [(''title'', JStr (replicate 256 CHR ''x''))])) fixture)) = []
   \<and> snd (callTool (setupHandlers fixture_rt fixture_client) ''create_issue''
             (Some (obj [(''title'', JStr (replicate 256 CHR ''x''))])) fixture) = fixture"
proof -
  have invalid: "validation_errors ''create_issue'' (obj [(''title'', JStr (replicate 256 CHR ''x''))]) \<noteq> []"
    by (simp add: validation_errors_def create_issue_errors_iff obj_def)
  show ?thesis
    using invalid validation_failure_makes_no_client_call [OF invalid, of fixture_rt fixture_client fixture]
    by (simp add: fixture_def)
qed

section \<open>A tool call never raises\<close>

lemma registered_tool_names:
  "toolName \<in> fst ` set (handlers (setupHandlers rt c)) \<longleftrightarrow>
     toolName \<in> set [''list_issues'', ''get_issue'', ''create_issue'', ''update_issue'',
       ''add_comment'', ''search_issues'', ''assign_issue'', ''update_status'', ''list_projects'',
       ''get_project'', ''create_project'', ''list_teams'']"
  by (auto simp: handlers_setupHandlers)

lemma registered_tool_outcome:
  assumes "toolName \<in> fst ` set (handlers (setupHandlers rt c))"
    and "validation_errors toolName a = []"
  shows "\<exists>req. tool_request toolName (teamId c) a = Some req
           \<and> tool_outcome toolName a (thrown_by (client c) req s)
                 (fst (callTool (setupHandlers rt c) toolName (Some a) s))"
proof -
  from assms(1) have "toolName = ''list_issues'' \<or> toolName = ''get_issue'' \<or> toolName = ''create_issue'' \<or> toolName = ''update_issue'' \<or> toolName = ''add_comment'' \<or> toolName = ''search_issues'' \<or> toolName = ''assign_issue'' \<or> toolName = ''update_status'' \<or> toolName = ''list_projects'' \<or> toolName = ''get_project'' \<or> toolName = ''create_project'' \<or> toolName = ''list_teams''"
    by (simp add: registered_tool_names)
  then show ?thesis
  proof (elim disjE)
    assume "toolName = ''list_issues''"
    then show ?thesis using outcome_list_issues
      by (simp add: callTool_def handlers_setupHandlers tool_request_def validation_errors_def)
  next
    assume "toolName = ''get_issue''"
    then show ?thesis using assms(2) outcome_get_issue
      by (simp add: callTool_def handlers_setupHandlers tool_request_def validation_errors_def)
  next
    assume "toolName = ''create_issue''"
    then show ?thesis using assms(2) outcome_create_issue
      by (simp add: callTool_def handlers_setupHandlers tool_request_def validation_errors_def)
  next
    assume "toolName = ''update_issue''"
    then show ?thesis using assms(2) outcome_update_issue
      by (simp add: callTool_def handlers_setupHandlers tool_request_def validation_errors_def)
  next
    assume "toolName = ''add_comment''"
    then show ?thesis using assms(2) outcome_add_comment
      by (simp add: callTool_def handlers_setupHandlers tool_request_def validation_errors_def)
  next
    assume "toolName = ''search_issues''"
    then show ?thesis using assms(2) outcome_search_issues
      by (simp add: callTool_def handlers_setupHandlers tool_request_def validation_errors_def)
  next
    assume "toolName = ''assign_issue''"
    then show ?thesis using assms(2) outcome_assign_issue
      by (simp add: callTool_def handlers_setupHandlers tool_request_def validation_errors_def)
  next
    assume "toolName = ''update_status''"
    then show ?thesis using assms(2) outcome_update_status
      by (simp add: callTool_def handlers_setupHandlers tool_request_def validation_errors_def)
  next
    assume "toolName = ''list_projects''"
    then show ?thesis using outcome_list_projects
      by (simp add: callTool_def handlers_setupHandlers tool_request_def validation_errors_def)
  next
    assume "toolName = ''get_project''"
    then show ?thesis using assms(2) outcome_get_project
      by (simp add: callTool_def handlers_setupHandlers tool_request_def validation_errors_def)
  next
    assume "toolName = ''create_project''"
    then show ?thesis using assms(2) outcome_create_project
      by (simp add: callTool_def handlers_setupHandlers tool_request_def validation_errors_def)
  next
    assume "toolName = ''list_teams''"
    then show ?thesis using outcome_list_teams
      by (simp add: callTool_def handlers_setupHandlers tool_request_def validation_errors_def)
  qed
qed

lemma renderable_message: "renderable e \<Longrightarrow> \<exists>m. errorMessage e = Inr m"
  by (cases e rule: renderable.cases) simp_all

lemma unrenderable_message: "\<not> renderable e \<Longrightarrow> \<exists>t. errorMessage e = Inl (Error t)"
  by (cases e rule: renderable.cases) simp_all

lemma renderable_caught: "renderable e \<Longrightarrow> renderable (caught toolName a e)"
  by (simp add: caught_def cannot_convert_def)

lemma set_Error:
  "set_title v i = Inl e \<Longrightarrow> \<exists>m. e = Error m"
  "set_description v i = Inl e \<Longrightarrow> \<exists>m. e = Error m"
  "set_priority v i = Inl e \<Longrightarrow> \<exists>m. e = Error m"
  "set_assignee us v i = Inl e \<Longrightarrow> \<exists>m. e = Error m"
  "set_project ps v i = Inl e \<Longrightarrow> \<exists>m. e = Error m"
  "set_state sts v i = Inl e \<Longrightarrow> \<exists>m. e = Error m"
  by (cases v; auto simp: set_title_def set_description_def set_priority_def
        set_assignee_def set_project_def set_state_def bad_input_def not_found_def
        split: option.splits)+

lemma and_then_Inl:
  "and_then r f = Inl e \<Longrightarrow> r = Inl e \<or> (\<exists>x. r = Inr x \<and> f x = Inl e)"
  by (cases r) (simp_all add: and_then_def)

lemma apply_update_Error:
  assumes "apply_update t input i = Inl e"
  shows "\<exists>m. e = Error m"
  using assms unfolding apply_update_def
  by (auto dest!: and_then_Inl dest: set_Error simp: bad_input_def split: if_splits)

lemma tracker_throws_errors:
  assumes "thrown_by tracker_sdk req t = Some e"
  shows "\<exists>m. e = Error m"
proof (cases req)
  case (ReqUpdateIssue v input)
  then show ?thesis using assms
    by (auto simp: thrown_def tracker_sdk_def tracker_updateIssue_def Let_def not_found_def
          split: option.splits sum.splits dest: apply_update_Error)
next
  case (ReqCreateIssue p)
  then show ?thesis using assms
    by (auto simp: thrown_def tracker_sdk_def tracker_createIssue_def Let_def not_found_def
          bad_input_def split: option.splits sum.splits jsval.splits dest: apply_update_Error)
next
  case (ReqCreateComment v b)
  then show ?thesis using assms
    by (auto simp: thrown_def tracker_sdk_def tracker_createComment_def Let_def not_found_def
          bad_input_def split: option.splits jsval.splits)
next
  case (ReqIssueSearch q n team)
  then show ?thesis using assms
    by (auto simp: thrown_def tracker_sdk_def tracker_issueSearch_def Let_def bad_input_def
          split: jsval.splits)
next
  case (ReqCreateProject teams nm d)
  then show ?thesis using assms
    by (auto simp: thrown_def tracker_sdk_def tracker_createProject_def Let_def bad_input_def
          split: jsval.splits)
qed (use assms in \<open>auto simp: thrown_def tracker_sdk_def tracker_issues_def tracker_issue_def
       tracker_projects_def tracker_project_def tracker_teams_def tracker_deleteIssue_def
       tracker_archiveIssue_def Let_def not_found_def split: option.splits\<close>)

text \<open>
  What \<open>ErrorHandler.handle\<close> cannot render escapes the handler: when the SDK throws a
  value, neither an \<open>Error\<close> nor a string, whose \<open>message\<close> cannot be converted to a
  text, the \<open>catch\<close> of the handler throws the \<open>TypeError\<close> of the conversion and the call
  of the tool rejects with it.
\<close>

lemma tool_call_rejects_what_handle_cannot_render:
  "callTool (setupHandlers rt \<lparr>client = rejecting_sdk (ThrownOther (MessageThrows t)), teamId = team\<rparr>)
     ''list_teams'' None s
     = (Inl (Error t), s)"
  by (simp add: callTool_def handlers_setupHandlers createListTeamsHandler_def listTeams_def
        rejecting_sdk_def call_defs handle_def)

text \<open>
  An id that cannot be converted to a text replaces the error of the SDK by the
  \<open>TypeError\<close> of the client's log line: \<open>get_issue\<close> with the id
  \<open>{"toString": 1}\<close> answers with that error, not with the tracker's.
\<close>

lemma get_issue_with_unconvertible_id:
  "fst (callTool (setupHandlers fixture_rt fixture_client) ''get_issue''
          (Some (obj [(''issueId'', JObj [(''toString'', JNum 1)])])) fixture)
     = Inr \<lparr>content = [''Error: Cannot convert object to primitive value''], isError = Some True\<rparr>"
  by (simp add: callTool_def handlers_setupHandlers createGetIssueHandler_def getIssue_def
        get_issue_errors_def collectErrors_def List.map_filter_simps validateRequired_def
        obj_def call_defs handle_def cannot_convert_def Let_def tracker_defs fixture_defs
        not_found_def split: prod.splits)

text \<open>
  Claim C7. Malformed or missing input never escapes a tool handler as a thrown error.
  Take any registered tool name, any arguments object (or none at all), any tracker
  state, and any client whose SDK throws only values that \<open>ErrorHandler.handle\<close> can
  render, as the Linear SDK does, which rejects with \<open>Error\<close> instances (what happens
  otherwise is \<open>tool_call_rejects_what_handle_cannot_render\<close>). Then the call returns a
  response value and does not raise. When the handler's validation finds errors, the
  response is the validation-error response for them, flagged \<open>isError\<close>, whose text
  names the field of every error, and the state is untouched. Otherwise the handler has
  sent the one request of the tool; when the SDK threw on it, the thrown value was caught
  and the response is flagged \<open>isError\<close> with the text \<open>Error:\<close> and the message of the
  value that reached the \<open>catch\<close>; when the SDK answered, the response is a success
  response or, if processing the answer threw, again an \<open>isError\<close> response.
\<close>

theorem every_tool_call_returns_a_response:
  assumes registered: "toolName \<in> fst ` set (handlers (setupHandlers rt c))"
    and errors: "\<forall>req s e. thrown_by (client c) req s = Some e \<longrightarrow> renderable e"
  shows "\<exists>r s'. callTool (setupHandlers rt c) toolName arguments s = (Inr r, s')
           \<and> (validation_errors toolName (or_empty arguments) \<noteq> []
                \<longrightarrow> r = handleValidationErrors (validation_errors toolName (or_empty arguments))
                    \<and> s' = s
                    \<and> isError r = Some True
                    \<and> list_all (\<lambda>e. \<exists>txt. content r = [txt] \<and> sublist (field e) txt)
                         (validation_errors toolName (or_empty arguments)))
           \<and> (validation_errors toolName (or_empty arguments) = []
                \<longrightarrow> (\<exists>req. tool_request toolName (teamId c) (or_empty arguments) = Some req
                       \<and> s' = serve (client c) req s
                       \<and> (\<forall>e. thrown_by (client c) req s = Some e
                              \<longrightarrow> (\<exists>m. errorMessage (caught toolName (or_empty arguments) e) = Inr m
                                      \<and> r = \<lparr>content = [''Error: '' @ m], isError = Some True\<rparr>))
                       \<and> (thrown_by (client c) req s = None
                              \<longrightarrow> (\<exists>msg. r = success msg)
                                  \<or> (\<exists>m. r = \<lparr>content = [''Error: '' @ m], isError = Some True\<rparr>))))"
proof (cases "validation_errors toolName (or_empty arguments) = []")
  case False
  let ?errs = "validation_errors toolName (or_empty arguments)"
  let ?r = "handleValidationErrors ?errs"
  have call: "callTool (setupHandlers rt c) toolName arguments s = (Inr ?r, s)"
    using False
    by (auto simp: validation_errors_def callTool_def handlers_setupHandlers invalid_args
          split: if_splits)
  have "list_all (\<lambda>e. \<exists>txt. content ?r = [txt] \<and> sublist (field e) txt) ?errs"
    unfolding list_all_iff using validation_response_lists_field by blast
  moreover have "isError ?r = Some True"
    by (simp add: handleValidationErrors_def Let_def)
  ultimately show ?thesis
    using call False by simp
next
  case True
  let ?a = "or_empty arguments"
  obtain out s' where res: "callTool (setupHandlers rt c) toolName arguments s = (out, s')"
    by (cases "callTool (setupHandlers rt c) toolName arguments s")
  from registered_tool_outcome [OF registered True, of s] obtain req where
    req: "tool_request toolName (teamId c) ?a = Some req"
    and shape: "tool_outcome toolName ?a (thrown_by (client c) req s) out"
    using res by (auto simp: callTool_or_empty [of _ _ arguments])
  have state: "s' = serve (client c) req s"
    using tool_call_state [of rt c toolName arguments s] res req by simp
  show ?thesis
  proof (cases "thrown_by (client c) req s")
    case None
    with shape have "(\<exists>msg. out = Inr (success msg))
        \<or> (\<exists>m. out = Inr \<lparr>content = [''Error: '' @ m], isError = Some True\<rparr>)"
      by (simp add: tool_outcome_def)
    then show ?thesis
      using res True req state None by auto
  next
    case (Some e)
    with errors have "renderable (caught toolName ?a e)"
      by (blast intro: renderable_caught)
    then obtain m where m: "errorMessage (caught toolName ?a e) = Inr m"
      by (blast dest: renderable_message)
    from shape Some have "out = handle (caught toolName ?a e) toolName"
      by (simp add: tool_outcome_def)
    with m have "out = Inr \<lparr>content = [''Error: '' @ m], isError = Some True\<rparr>"
      by (simp add: handle_def)
    then show ?thesis
      using res True req state Some m by auto
  qed
qed

theorem every_tool_call_returns_a_response_witness:
  "''update_status'' \<in> fst ` set (handlers (setupHandlers fixture_rt fixture_client))
   \<and> validation_errors ''update_status''
         (obj [(''issueId'', JStr ''MAP-9''), (''stateId'', JStr ''st-ready'')]) = []
   \<and> thrown_by tracker_sdk
         (ReqUpdateIssue (JStr ''MAP-9'') (no_update\<lparr>u_stateId := JStr ''st-ready''\<rparr>)) fixture
       = Some (Error ''Entity not found: Issue'')
   \<and> fst (callTool (setupHandlers fixture_rt fixture_client) ''update_status''
             (Some (obj [(''issueId'', JStr ''MAP-9''), (''stateId'', JStr ''st-ready'')])) fixture)
       = Inr \<lparr>content = [''Error: Entity not found: Issue''], isError = Some True\<rparr>"
proof -
  let ?a = "obj [(''issueId'', JStr ''MAP-9''), (''stateId'', JStr ''st-ready'')]"
  let ?req = "ReqUpdateIssue (JStr ''MAP-9'') (no_update\<lparr>u_stateId := JStr ''st-ready''\<rparr>)"
  have reg: "''update_status'' \<in> fst ` set (handlers (setupHandlers fixture_rt fixture_client))"
    by (simp add: handlers_setupHandlers)
  have errors: "\<forall>req s e. thrown_by (client fixture_client) req s = Some e \<longrightarrow> renderable e"
    using tracker_throws_errors by (fastforce simp: fixture_client_def)
  have valid: "validation_errors ''update_status'' ?a = []"
    by (simp add: validation_errors_def update_status_errors_def collectErrors_def
          List.map_filter_simps validateRequired_def obj_def)
  have req: "tool_request ''update_status'' (teamId fixture_client) ?a = Some ?req"
    by (simp add: tool_request_def valid obj_def)
  have thrown: "thrown_by tracker_sdk ?req fixture = Some (Error ''Entity not found: Issue'')"
    by (simp add: thrown_def tracker_defs fixture_defs not_found_def no_update_def Let_def)
  have caught: "caught ''update_status'' ?a (Error ''Entity not found: Issue'')
                  = Error ''Entity not found: Issue''"
    by (simp add: caught_def obj_def)
  from every_tool_call_returns_a_response [OF reg errors, of "Some ?a" fixture]
  obtain r s' where
    call: "callTool (setupHandlers fixture_rt fixture_client) ''update_status'' (Some ?a) fixture = (Inr r, s')"
    and r: "\<exists>m. errorMessage (caught ''update_status'' ?a (Error ''Entity not found: Issue'')) = Inr m
              \<and> r = \<lparr>content = [''Error: '' @ m], isError = Some True\<rparr>"
    using valid req thrown by (auto simp: fixture_client_def)
  from r have "r = \<lparr>content = [''Error: Entity not found: Issue''], isError = Some True\<rparr>"
    by (simp add: caught)
  with call have "fst (callTool (setupHandlers fixture_rt fixture_client) ''update_status'' (Some ?a) fixture)
       = Inr \<lparr>content = [''Error: Entity not found: Issue''], isError = Some True\<rparr>"
    by simp
  with reg valid thrown show ?thesis
    by (intro conjI)
qed

section \<open>Assigning and unassigning\<close>

lemma assign_issue_falsy_value:
  assumes "\<not> truthy (a ''assigneeId'')"
  shows "assign_issue_message a issue = check_mark @ '' Unassigned issue '' @ li_identifier issue"
  using assms by (simp add: assign_issue_message_def assign_issue_assigneeId_def)

text \<open>
  Claim C9. For \<open>assign_issue\<close> with a valid issue id and a string \<open>assigneeId\<close>: the
  handler's effect on the tracker is that of one \<open>updateIssue\<close> whose input sets only
  the assignee, to \<open>null\<close> when \<open>assigneeId\<close> is the empty string and to the given
  string unchanged otherwise; and when that update succeeds, the response is a success
  whose message reports an unassignment in the first case and an assignment, with the
  assignee's name, in the second. (The schema of the tool declares \<open>assigneeId\<close> a
  string. A value that is not a string is forwarded unchanged as well; the message then
  follows its truthiness, see \<open>assign_issue_falsy_value\<close>.)
\<close>

theorem assign_issue_empty_string_unassigns:
  assumes valid: "assign_issue_errors a = []"
    and str: "a ''assigneeId'' = JStr u"
  shows "snd (createAssignIssueHandler c a s)
           = snd (sdk_updateIssue (client c) (a ''issueId'')
                    (no_update\<lparr>u_assigneeId := (if u = [] then JNull else JStr u)\<rparr>) s)
         \<and> (\<forall>issue tm s'.
               sdk_updateIssue (client c) (a ''issueId'')
                 (no_update\<lparr>u_assigneeId := (if u = [] then JNull else JStr u)\<rparr>) s
                 = (Inr (Some issue), s')
               \<and> issue_team issue = Some tm
               \<longrightarrow> createAssignIssueHandler c a s
                     = (Inr (success ((if u = []
                                  then check_mark @ '' Unassigned issue '' @ issue_identifier issue
                                  else check_mark @ '' Assigned issue '' @ issue_identifier issue @ '' to ''
                                       @ (case issue_assignee issue of
                                            Some x \<Rightarrow> user_name x
                                          | None \<Rightarrow> ''undefined''))
                                 @ nl @ nl @ ''URL: '' @ issue_url issue)),
                        s'))"
  using valid str
  by (auto simp: createAssignIssueHandler_def call_defs updateIssue_def formatIssue_def
        assign_issue_assigneeId_def assign_issue_message_def Let_def
        split: prod.splits sum.splits option.splits)

theorem assign_issue_empty_string_unassigns_witness:
  "assign_issue_errors (obj [(''issueId'', JStr ''MAP-2''), (''assigneeId'', JStr [])]) = []
   \<and> tr_requests (snd (createAssignIssueHandler fixture_client
                          (obj [(''issueId'', JStr ''MAP-2''), (''assigneeId'', JStr [])]) fixture))
       = [ReqUpdateIssue (JStr ''MAP-2'') (no_update\<lparr>u_assigneeId := JNull\<rparr>)]
   \<and> fst (createAssignIssueHandler fixture_client
             (obj [(''issueId'', JStr ''MAP-2''), (''assigneeId'', JStr [])]) fixture)
       = Inr (success (check_mark @ '' Unassigned issue MAP-2'' @ nl @ nl @ ''URL: https://linear.app/issue/MAP-2''))
   \<and> assign_issue_errors (obj [(''issueId'', JStr ''MAP-2''), (''assigneeId'', JStr ''user-1'')]) = []
   \<and> tr_requests (snd (createAssignIssueHandler fixture_client
                          (obj [(''issueId'', JStr ''MAP-2''), (''assigneeId'', JStr ''user-1'')]) fixture))
       = [ReqUpdateIssue (JStr ''MAP-2'') (no_update\<lparr>u_assigneeId := JStr ''user-1''\<rparr>)]
   \<and> fst (createAssignIssueHandler fixture_client
             (obj [(''issueId'', JStr ''MAP-2''), (''assigneeId'', JStr ''user-1'')]) fixture)
       = Inr (success (check_mark @ '' Assigned issue MAP-2 to Kurt'' @ nl @ nl @ ''URL: https://linear.app/issue/MAP-2''))"
proof -
  let ?un = "obj [(''issueId'', JStr ''MAP-2''), (''assigneeId'', JStr [])]"
  let ?as = "obj [(''issueId'', JStr ''MAP-2''), (''assigneeId'', JStr ''user-1'')]"
  have v1: "assign_issue_errors ?un = []" and v2: "assign_issue_errors ?as = []"
    by (simp_all add: assign_issue_valid_iff obj_def)
  have s1: "?un ''assigneeId'' = JStr []" and s2: "?as ''assigneeId'' = JStr ''user-1''"
    by (simp_all add: obj_def)
  note t1 = assign_issue_empty_string_unassigns [OF v1 s1, of fixture_client fixture]
  note t2 = assign_issue_empty_string_unassigns [OF v2 s2, of fixture_client fixture]
  have r1: "tr_requests (snd (createAssignIssueHandler fixture_client ?un fixture))
              = [ReqUpdateIssue (JStr ''MAP-2'') (no_update\<lparr>u_assigneeId := JNull\<rparr>)]"
    unfolding t1 [THEN conjunct1]
    by (simp add: obj_def tracker_defs fixture_defs no_update_def Let_def)
  have r2: "tr_requests (snd (createAssignIssueHandler fixture_client ?as fixture))
              = [ReqUpdateIssue (JStr ''MAP-2'') (no_update\<lparr>u_assigneeId := JStr ''user-1''\<rparr>)]"
    unfolding t2 [THEN conjunct1]
    by (simp add: obj_def tracker_defs fixture_defs no_update_def Let_def)
  obtain i1 s1' where u1: "sdk_updateIssue (client fixture_client) (?un ''issueId'')
       (no_update\<lparr>u_assigneeId := (if [] = ([]::string) then JNull else JStr [])\<rparr>) fixture = (Inr (Some i1), s1')"
    and i1: "issue_team i1 = Some (team_ref map_team)" "issue_identifier i1 = ''MAP-2''"
        "issue_url i1 = ''https://linear.app/issue/MAP-2''"
    by (simp add: obj_def tracker_defs fixture_defs no_update_def Let_def)
  obtain i2 s2' where u2: "sdk_updateIssue (client fixture_client) (?as ''issueId'')
       (no_update\<lparr>u_assigneeId := (if ''user-1'' = [] then JNull else JStr ''user-1'')\<rparr>) fixture = (Inr (Some i2), s2')"
    and i2: "issue_team i2 = Some (team_ref map_team)" "issue_identifier i2 = ''MAP-2''"
        "issue_url i2 = ''https://linear.app/issue/MAP-2''" "issue_assignee i2 = Some kurt"
    by (simp add: obj_def tracker_defs fixture_defs no_update_def Let_def)
  have m1: "fst (createAssignIssueHandler fixture_client ?un fixture)
       = Inr (success (check_mark @ '' Unassigned issue MAP-2'' @ nl @ nl @ ''URL: https://linear.app/issue/MAP-2''))"
    using t1 [THEN conjunct2, rule_format, OF conjI, OF u1 i1(1)] i1 by simp
  have m2: "fst (createAssignIssueHandler fixture_client ?as fixture)
       = Inr (success (check_mark @ '' Assigned issue MAP-2 to Kurt'' @ nl @ nl @ ''URL: https://linear.app/issue/MAP-2''))"
    using t2 [THEN conjunct2, rule_format, OF conjI, OF u2 i2(1)] i2 by (simp add: kurt_def)
  show ?thesis
    using v1 v2 r1 r2 m1 m2 by simp
qed

section \<open>Status changes\<close>

lemma update_status_valid_iff:
  "update_status_errors a = [] \<longleftrightarrow>
     a ''issueId'' \<notin> {JUndefined, JNull, JStr []} \<and> a ''stateId'' \<notin> {JUndefined, JNull, JStr []}"
  by (simp add: update_status_errors_def collectErrors_def List.map_filter_simps validateRequired_def)

text \<open>
  Claim C1 says that no status update performed by the engine, \<open>update_status\<close>
  included, moves a ticket backward. On the fixture, \<open>MAP-1\<close> is parked; one call of
  \<open>update_status\<close> with the id of the state \<open>shaped\<close> leaves it shaped, which is a
  backward move.
\<close>

theorem update_status_moves_parked_to_shaped:
  "status_of fixture ''MAP-1'' = Some ''parked''
   \<and> status_of (snd (callTool (setupHandlers fixture_rt fixture_client) ''update_status''
                       (Some (obj [(''issueId'', JStr ''MAP-1''), (''stateId'', JStr ''st-shaped'')]))
                       fixture)) ''MAP-1''
       = Some ''shaped''
   \<and> backward_move ''parked'' ''shaped''"
proof -
  let ?a = "obj [(''issueId'', JStr ''MAP-1''), (''stateId'', JStr ''st-shaped'')]"
  have before: "status_of fixture ''MAP-1'' = Some ''parked''"
    by (simp add: status_of_def fixture_defs)
  have req: "tool_request ''update_status'' (teamId fixture_client) ?a
               = Some (ReqUpdateIssue (JStr ''MAP-1'') (no_update\<lparr>u_stateId := JStr ''st-shaped''\<rparr>))"
    by (simp add: tool_request_def validation_errors_def update_status_valid_iff obj_def)
  have after: "status_of (snd (callTool (setupHandlers fixture_rt fixture_client) ''update_status''
                   (Some ?a) fixture)) ''MAP-1'' = Some ''shaped''"
    unfolding tool_call_state or_empty_Some req
    by (simp add: status_of_def tracker_defs fixture_defs no_update_def Let_def)
  show ?thesis
    using before after by (simp add: backward_move_def)
qed

text \<open>
  Claim C1, as amended. The tool layer has no lifecycle state machine. The state a tool
  call leaves behind is the state it was given, or that state after the SDK has served the
  one request of the tool, a request computed from the tool name, the team id and the
  arguments alone. A request asks the tracker to set a workflow state only when the tool
  is \<open>update_status\<close> or \<open>update_issue\<close>, and the state it asks for is the caller's
  \<open>stateId\<close>. For \<open>update_status\<close> with a non-empty \<open>issueId\<close> and \<open>stateId\<close> the
  request is the update that sets exactly that state, whatever status the ticket has.
\<close>

theorem status_is_set_only_on_request:
  "snd (callTool (setupHandlers rt c) toolName arguments s)
     = (case tool_request toolName (teamId c) (or_empty arguments) of
          None \<Rightarrow> s
        | Some r \<Rightarrow> serve (client c) r s)
   \<and> (\<forall>r. tool_request toolName (teamId c) (or_empty arguments) = Some r
            \<and> requested_state r \<noteq> JUndefined
          \<longrightarrow> toolName \<in> {''update_status'', ''update_issue''}
              \<and> requested_state r = or_empty arguments ''stateId'')
   \<and> (update_status_errors a = []
        \<longrightarrow> tool_request ''update_status'' (teamId c) a
            = Some (ReqUpdateIssue (a ''issueId'') (no_update\<lparr>u_stateId := a ''stateId''\<rparr>)))"
proof (intro conjI allI impI)
  show "snd (callTool (setupHandlers rt c) toolName arguments s)
     = (case tool_request toolName (teamId c) (or_empty arguments) of
          None \<Rightarrow> s
        | Some r \<Rightarrow> serve (client c) r s)"
    by (rule tool_call_state)
next
  fix r
  assume r: "tool_request toolName (teamId c) (or_empty arguments) = Some r
             \<and> requested_state r \<noteq> JUndefined"
  then show "toolName \<in> {''update_status'', ''update_issue''}"
    by (auto simp: tool_request_def create_issue_input_def no_update_def split: if_splits)
  from r show "requested_state r = or_empty arguments ''stateId''"
    by (auto simp: tool_request_def create_issue_input_def update_issue_input_def no_update_def
          split: if_splits)
next
  assume "update_status_errors a = []"
  then show "tool_request ''update_status'' (teamId c) a
            = Some (ReqUpdateIssue (a ''issueId'') (no_update\<lparr>u_stateId := a ''stateId''\<rparr>))"
    by (simp add: tool_request_def validation_errors_def)
qed

theorem status_is_set_only_on_request_witness:
  "update_status_errors (obj [(''issueId'', JStr ''MAP-1''), (''stateId'', JStr ''st-shaped'')]) = []
   \<and> tool_request ''update_status'' ''team-1''
         (obj [(''issueId'', JStr ''MAP-1''), (''stateId'', JStr ''st-shaped'')])
       = Some (ReqUpdateIssue (JStr ''MAP-1'') (no_update\<lparr>u_stateId := JStr ''st-shaped''\<rparr>))
   \<and> requested_state (ReqUpdateIssue (JStr ''MAP-1'') (no_update\<lparr>u_stateId := JStr ''st-shaped''\<rparr>))
       = JStr ''st-shaped''
   \<and> snd (callTool (setupHandlers fixture_rt fixture_client) ''update_status''
             (Some (obj [(''issueId'', JStr ''MAP-1''), (''stateId'', JStr ''st-shaped'')])) fixture)
       = serve tracker_sdk
           (ReqUpdateIssue (JStr ''MAP-1'') (no_update\<lparr>u_stateId := JStr ''st-shaped''\<rparr>)) fixture"
proof -
  let ?a = "obj [(''issueId'', JStr ''MAP-1''), (''stateId'', JStr ''st-shaped'')]"
  have valid: "update_status_errors ?a = []"
    by (simp add: update_status_valid_iff obj_def)
  have a: "?a ''issueId'' = JStr ''MAP-1''" "?a ''stateId'' = JStr ''st-shaped''"
    by (simp_all add: obj_def)
  note t = status_is_set_only_on_request [of fixture_rt fixture_client "''update_status''" "Some ?a" fixture ?a]
  have req: "tool_request ''update_status'' ''team-1'' ?a
       = Some (ReqUpdateIssue (JStr ''MAP-1'') (no_update\<lparr>u_stateId := JStr ''st-shaped''\<rparr>))"
    using t [THEN conjunct2, THEN conjunct2, rule_format, OF valid] a
    by (simp add: fixture_client_def)
  have st: "snd (callTool (setupHandlers fixture_rt fixture_client) ''update_status'' (Some ?a) fixture)
       = serve tracker_sdk
           (ReqUpdateIssue (JStr ''MAP-1'') (no_update\<lparr>u_stateId := JStr ''st-shaped''\<rparr>)) fixture"
    using t [THEN conjunct1] req by (simp add: fixture_client_def)
  show ?thesis
    using valid req st by (simp add: no_update_def)
qed

section \<open>Priorities in the tool layer\<close>

lemma priority_labels_iff: "LINEAR_PRIORITY_MAP p \<noteq> None \<longleftrightarrow> p \<in> {0, 1, 2, 3, 4}"
  by (auto simp: LINEAR_PRIORITY_MAP_def)

text \<open>
  The tools are the tracker binding below the engine, and they pass a priority through:
  a request writes a priority onto a ticket only when the tool is \<open>create_issue\<close> or
  \<open>update_issue\<close>, and the priority it carries is the caller's \<open>priority\<close> argument
  unchanged. Neither handler checks it against a range; a score has to be in range when
  it is handed to them.
\<close>

lemma tool_layer_forwards_priority:
  "(\<forall>r. tool_request toolName team a = Some r \<and> written_priority r \<noteq> JUndefined
          \<longrightarrow> toolName \<in> {''create_issue'', ''update_issue''}
              \<and> written_priority r = a ''priority'')
   \<and> (create_issue_errors a = []
        \<longrightarrow> (\<exists>r. tool_request ''create_issue'' team a = Some r
                 \<and> written_priority r = a ''priority''))
   \<and> (update_issue_errors a = []
        \<longrightarrow> (\<exists>r. tool_request ''update_issue'' team a = Some r
                 \<and> written_priority r = a ''priority''))"
proof (intro conjI allI impI)
  fix r
  assume r: "tool_request toolName team a = Some r \<and> written_priority r \<noteq> JUndefined"
  then show "toolName \<in> {''create_issue'', ''update_issue''}"
    by (auto simp: tool_request_def no_update_def split: if_splits)
  from r show "written_priority r = a ''priority''"
    by (auto simp: tool_request_def create_issue_input_def update_issue_input_def no_update_def
          split: if_splits)
next
  assume "create_issue_errors a = []"
  then show "\<exists>r. tool_request ''create_issue'' team a = Some r \<and> written_priority r = a ''priority''"
    by (simp add: tool_request_def validation_errors_def create_issue_input_def)
next
  assume "update_issue_errors a = []"
  then show "\<exists>r. tool_request ''update_issue'' team a = Some r \<and> written_priority r = a ''priority''"
    by (simp add: tool_request_def validation_errors_def update_issue_input_def)
qed

section \<open>Listing issues in the tool layer\<close>

lemma formatIssue_keeps:
  assumes "formatIssue i = Inr l"
  shows "li_id l = issue_id i" "li_priority l = issue_priority i"
    "li_createdAt l = issue_createdAt i"
    "state_name (li_state l) = (case issue_state i of Some st \<Rightarrow> state_name st | None \<Rightarrow> ''Unknown'')"
  using assms by (auto simp: formatIssue_def split: option.splits)

lemma formatEach_keeps:
  assumes "formatEach formatIssue nodes = Inr issues"
  shows "map li_id issues = map issue_id nodes
         \<and> map li_priority issues = map issue_priority nodes
         \<and> map li_createdAt issues = map issue_createdAt nodes
         \<and> map (\<lambda>l. state_name (li_state l)) issues
             = map (\<lambda>i. case issue_state i of Some st \<Rightarrow> state_name st | None \<Rightarrow> ''Unknown'') nodes"
  using assms
proof (induction nodes arbitrary: issues)
  case Nil
  then show ?case by simp
next
  case (Cons i nodes)
  from Cons.prems obtain l ls where l: "formatIssue i = Inr l"
    and ls: "formatEach formatIssue nodes = Inr ls" and issues: "issues = l # ls"
    by (auto split: sum.splits)
  show ?case
    using Cons.IH [OF ls] formatIssue_keeps [OF l] by (simp add: issues)
qed

lemma formatEach_total:
  assumes "list_all (\<lambda>i. issue_team i \<noteq> None) nodes"
  shows "\<exists>issues. formatEach formatIssue nodes = Inr issues"
  using assms
  by (induction nodes) (auto simp: formatIssue_def split: option.splits)

text \<open>
  \<open>listIssues\<close> asks the tracker for the team's issues ordered by \<open>updatedAt\<close>, at most
  \<open>limit\<close> of them (50 when no limit is given), restricted to a state type only when the
  filter names one, and returns the tracker's answer formatted one by one, in the
  tracker's order. It is a plain listing of the tracker binding, not the \<open>next\<close> of the
  Orchestrator.
\<close>

lemma list_issues_returns_tracker_order:
  assumes "sdk_issues (client c) (filterObj (teamId c) flt (default_limit limit 50)) s = (Inr nodes, s')"
  shows "q_orderBy (filterObj (teamId c) flt (default_limit limit 50)) = ''updatedAt''
         \<and> q_first (filterObj (teamId c) flt (default_limit limit 50))
             = (if limit = JUndefined then JNum 50 else limit)
         \<and> listIssues c flt limit s = (formatEach formatIssue nodes, s')
         \<and> (\<forall>issues. formatEach formatIssue nodes = Inr issues
               \<longrightarrow> map li_id issues = map issue_id nodes
                   \<and> map li_priority issues = map issue_priority nodes
                   \<and> map li_createdAt issues = map issue_createdAt nodes)"
  using assms formatEach_keeps
  by (auto simp: filterObj_def default_limit_def listIssues_def call_defs split: option.splits)

section \<open>The next ready tickets\<close>

lemma rank_le_iff:
  "rank u \<le> rank t \<longleftrightarrow>
     t_priority u > t_priority t \<or> (t_priority u = t_priority t \<and> t_created u \<le> t_created t)"
  by (auto simp: rank_def)

lemma sample_next:
  "map t_id (next_tickets 2 sample_backlog) = [''T-5'', ''T-3'']"
  by (simp add: next_tickets_def sample_backlog_def sample_ticket_def rank_def)

text \<open>
  Claim C4. For every count \<open>n\<close> and every backlog, \<open>next\<close> returns the top \<open>n\<close> ready
  tickets in order: it returns \<open>n\<close> tickets, or all the ready ones when there are fewer;
  every ticket returned is a ticket of the backlog whose status is \<open>ready\<close>; the result
  is ordered by priority score descending and, among equal scores, by creation timestamp
  ascending; and the tickets returned, together with the ready tickets left out, are
  exactly the ready tickets of the backlog, each ticket returned ranking at least as high
  as each ticket left out.
\<close>

theorem next_returns_the_top_ready_tickets:
  "length (next_tickets n backlog) = min n (length (filter (\<lambda>t. t_status t = Ready) backlog))
   \<and> (\<forall>t \<in> set (next_tickets n backlog). t \<in> set backlog \<and> t_status t = Ready)
   \<and> sorted_wrt (\<lambda>u t. t_priority u > t_priority t
                          \<or> (t_priority u = t_priority t \<and> t_created u \<le> t_created t))
         (next_tickets n backlog)
   \<and> (\<exists>rest. mset (next_tickets n backlog @ rest) = mset (filter (\<lambda>t. t_status t = Ready) backlog)
          \<and> (\<forall>u \<in> set (next_tickets n backlog). \<forall>t \<in> set rest.
                 t_priority u > t_priority t
                 \<or> (t_priority u = t_priority t \<and> t_created u \<le> t_created t)))"
proof -
  let ?ready = "filter (\<lambda>t. t_status t = Ready) backlog"
  let ?sorted = "sort_key rank ?ready"
  have result: "next_tickets n backlog = take n ?sorted"
    by (simp add: next_tickets_def)
  have len: "length (take n ?sorted) = min n (length ?ready)"
    by simp
  have members: "\<forall>t \<in> set (take n ?sorted). t \<in> set backlog \<and> t_status t = Ready"
  proof
    fix t
    assume "t \<in> set (take n ?sorted)"
    then have "t \<in> set ?sorted"
      by (rule in_set_takeD)
    then show "t \<in> set backlog \<and> t_status t = Ready"
      by simp
  qed
  have whole: "sorted (map rank (take n ?sorted @ drop n ?sorted))"
    by simp
  then have "sorted (map rank (take n ?sorted))"
    by (simp only: map_append sorted_append)
  then have ordered: "sorted_wrt (\<lambda>u t. t_priority u > t_priority t
                          \<or> (t_priority u = t_priority t \<and> t_created u \<le> t_created t))
                        (take n ?sorted)"
    by (simp only: sorted_map rank_le_iff)
  have parts: "mset (take n ?sorted @ drop n ?sorted) = mset ?ready"
    by simp
  have top: "\<forall>u \<in> set (take n ?sorted). \<forall>t \<in> set (drop n ?sorted).
               t_priority u > t_priority t
               \<or> (t_priority u = t_priority t \<and> t_created u \<le> t_created t)"
    using whole unfolding map_append sorted_append by (auto simp: rank_le_iff)
  from parts top have "\<exists>rest. mset (take n ?sorted @ rest) = mset ?ready
          \<and> (\<forall>u \<in> set (take n ?sorted). \<forall>t \<in> set rest.
                 t_priority u > t_priority t
                 \<or> (t_priority u = t_priority t \<and> t_created u \<le> t_created t))"
    by blast
  with len members ordered show ?thesis
    unfolding result by (intro conjI)
qed

theorem next_returns_the_top_ready_tickets_witness:
  "map t_id (filter (\<lambda>t. t_status t = Ready) sample_backlog) = [''T-1'', ''T-3'', ''T-5'']
   \<and> map t_id (next_tickets 2 sample_backlog) = [''T-5'', ''T-3'']
   \<and> length (next_tickets 2 sample_backlog) = 2
   \<and> map t_id (next_tickets 7 sample_backlog) = [''T-5'', ''T-3'', ''T-1'']"
proof -
  have ready: "map t_id (filter (\<lambda>t. t_status t = Ready) sample_backlog) = [''T-1'', ''T-3'', ''T-5'']"
    by (simp add: sample_backlog_def sample_ticket_def)
  have all: "map t_id (next_tickets 7 sample_backlog) = [''T-5'', ''T-3'', ''T-1'']"
    by (simp add: next_tickets_def sample_backlog_def sample_ticket_def rank_def)
  have "length (filter (\<lambda>t. t_status t = Ready) sample_backlog) = 3"
    using arg_cong [OF ready, of length] by simp
  with next_returns_the_top_ready_tickets [of 2 sample_backlog, THEN conjunct1]
  have "length (next_tickets 2 sample_backlog) = 2"
    by simp
  with ready sample_next all show ?thesis
    by (intro conjI)
qed

section \<open>No ticket is ever deleted\<close>

lemma after_call_serve:
  "after_call c m s = serve (client c) (method_request (teamId c) m) s"
  by (cases m)
     (simp_all add: listIssues_def getIssue_def createIssue_def updateIssue_def addComment_def
        searchIssues_def listProjects_def getProject_def createProject_def listTeams_def
        call_defs split: prod.splits sum.splits option.splits)

lemma method_request_not_destructive: "\<not> destructive (method_request team m)"
  by (cases m) simp_all

lemma tool_request_not_destructive:
  "tool_request toolName team a = Some r \<Longrightarrow> \<not> destructive r"
  by (auto simp: tool_request_def split: if_splits)

lemma setters_keep_id:
  "set_title v i = Inr i' \<Longrightarrow> issue_id i' = issue_id i"
  "set_description v i = Inr i' \<Longrightarrow> issue_id i' = issue_id i"
  "set_priority v i = Inr i' \<Longrightarrow> issue_id i' = issue_id i"
  "set_assignee us v i = Inr i' \<Longrightarrow> issue_id i' = issue_id i"
  "set_project ps v i = Inr i' \<Longrightarrow> issue_id i' = issue_id i"
  "set_state sts v i = Inr i' \<Longrightarrow> issue_id i' = issue_id i"
  by (cases v; auto simp: set_title_def set_description_def set_priority_def
        set_assignee_def set_project_def set_state_def split: option.splits)+

lemma and_then_Inr:
  "and_then r f = Inr y \<Longrightarrow> \<exists>x. r = Inr x \<and> f x = Inr y"
  by (cases r) (simp_all add: and_then_def)

lemma apply_update_keeps_id:
  assumes "apply_update t input i = Inr i'"
  shows "issue_id i' = issue_id i"
proof -
  from assms obtain i1 i2 i3 i4 i5 i6 where
    "set_title (u_title input) i = Inr i1"
    "set_description (u_description input) i1 = Inr i2"
    "set_priority (u_priority input) i2 = Inr i3"
    "set_assignee (tr_users t) (u_assigneeId input) i3 = Inr i4"
    "set_project (tr_projects t) (u_projectId input) i4 = Inr i5"
    "set_state (tr_states t) (u_stateId input) i5 = Inr i6"
    "(if u_labelIds input = JUndefined then Inr i6 else Inl (bad_input ''labelIds'')) = Inr i'"
    unfolding apply_update_def by (blast dest: and_then_Inr)
  then show ?thesis
    by (metis setters_keep_id Inl_Inr_False sum.inject(2))
qed

lemma issue_ids_served [simp]: "issue_ids (served r t) = issue_ids t"
  by (simp add: issue_ids_def served_def)

lemma tracker_keeps_issues:
  "\<not> destructive r \<Longrightarrow> issue_ids t \<subseteq> issue_ids (serve tracker_sdk r t)"
proof (cases r)
  case (ReqUpdateIssue v input)
  show ?thesis
  proof (cases "find (names_issue v) (tr_issues t)")
    case None
    then show ?thesis
      by (simp add: ReqUpdateIssue tracker_sdk_def tracker_updateIssue_def Let_def)
  next
    case (Some i)
    show ?thesis
    proof (cases "apply_update t input i")
      case (Inl e)
      then show ?thesis
        by (simp add: ReqUpdateIssue Some tracker_sdk_def tracker_updateIssue_def Let_def)
    next
      case (Inr i')
      have "map issue_id (map (\<lambda>j. if issue_id j = issue_id i then i' else j) xs)
              = map issue_id xs" for xs
        using apply_update_keeps_id [OF Inr] by (induction xs) auto
      then have "issue_id ` set (map (\<lambda>j. if issue_id j = issue_id i then i' else j) (tr_issues t))
              = issue_id ` set (tr_issues t)"
        by (metis set_map)
      then show ?thesis
        by (simp add: ReqUpdateIssue Some Inr tracker_sdk_def tracker_updateIssue_def Let_def
              issue_ids_def served_def)
    qed
  qed
next
  case (ReqCreateIssue p)
  then show ?thesis
    by (auto simp: tracker_sdk_def tracker_createIssue_def Let_def issue_ids_def served_def
          split: option.splits jsval.splits sum.splits)
next
  case (ReqCreateComment v b)
  then show ?thesis
    by (auto simp: tracker_sdk_def tracker_createComment_def Let_def issue_ids_def served_def
          split: option.splits jsval.splits)
next
  case (ReqIssueSearch q n team)
  then show ?thesis
    by (auto simp: tracker_sdk_def tracker_issueSearch_def Let_def split: jsval.splits)
next
  case (ReqCreateProject teams nm d)
  then show ?thesis
    by (auto simp: tracker_sdk_def tracker_createProject_def Let_def issue_ids_def served_def
          split: jsval.splits)
qed (auto simp: tracker_sdk_def tracker_issues_def tracker_issue_def tracker_projects_def
       tracker_project_def tracker_teams_def split: option.splits)

text \<open>
  Claim C5. The SDK can delete and archive issues, but no tool and no method of the
  client wrapper ever asks it to: the request behind a tool call or a method call is
  never a destructive one. So, given any SDK whose other requests (queries, partial
  updates, creations and added comments) keep every ticket in existence, a ticket that
  exists before a sequence of tool calls, or before a call of a client method, exists
  afterwards. \<open>ids\<close> reads the set of existing tickets off the tracker state.
\<close>

theorem tools_never_delete_a_ticket:
  assumes keeps: "\<forall>r s. \<not> destructive r \<longrightarrow> ids s \<subseteq> ids (serve (client c) r s)"
  shows "ids s \<subseteq> ids (callTools (setupHandlers rt c) calls s)
         \<and> ids s \<subseteq> ids (after_call c m s)
         \<and> (\<forall>toolName a r. tool_request toolName (teamId c) a = Some r \<longrightarrow> \<not> destructive r)
         \<and> \<not> destructive (method_request (teamId c) m)"
proof (intro conjI allI impI)
  have step: "ids s \<subseteq> ids (snd (callTool (setupHandlers rt c) toolName arguments s))"
    for toolName arguments s
    using keeps tool_request_not_destructive [of toolName "teamId c" "or_empty arguments"]
    by (auto simp: tool_call_state split: option.splits)
  show "ids s \<subseteq> ids (callTools (setupHandlers rt c) calls s)"
  proof (induction calls arbitrary: s)
    case Nil
    show ?case by simp
  next
    case (Cons call calls)
    obtain toolName arguments where call: "call = (toolName, arguments)"
      by (cases call)
    have "ids s \<subseteq> ids (snd (callTool (setupHandlers rt c) toolName arguments s))"
      by (rule step)
    also have "\<dots> \<subseteq> ids (callTools (setupHandlers rt c) calls
                          (snd (callTool (setupHandlers rt c) toolName arguments s)))"
      by (rule Cons.IH)
    finally show ?case
      by (simp add: call)
  qed
  show "ids s \<subseteq> ids (after_call c m s)"
    using keeps method_request_not_destructive by (simp add: after_call_serve)
  show "\<not> destructive (method_request (teamId c) m)"
    by (rule method_request_not_destructive)
next
  fix toolName a r
  assume "tool_request toolName (teamId c) a = Some r"
  then show "\<not> destructive r"
    by (rule tool_request_not_destructive)
qed

theorem tools_never_delete_a_ticket_witness:
  "issue_ids fixture
     \<subseteq> issue_ids (callTools (setupHandlers fixture_rt fixture_client)
                      [(''update_status'', Some (obj [(''issueId'', JStr ''MAP-1''), (''stateId'', JStr ''st-discarded'')])),
                       (''create_issue'', Some (obj [(''title'', JStr ''Add export'')])),
                       (''add_comment'', Some (obj [(''issueId'', JStr ''MAP-2''), (''body'', JStr ''Done'')])),
                       (''delete_issue'', Some (obj [(''issueId'', JStr ''MAP-1'')]))]
                      fixture)
   \<and> issue_ids fixture = {''issue-1'', ''issue-2''}
   \<and> issue_ids (serve tracker_sdk (ReqDeleteIssue (JStr ''MAP-1'')) fixture) = {''issue-2''}"
proof -
  have keeps: "\<forall>r s. \<not> destructive r \<longrightarrow> issue_ids s \<subseteq> issue_ids (serve (client fixture_client) r s)"
    using tracker_keeps_issues by (simp add: fixture_client_def)
  have before: "issue_ids fixture = {''issue-1'', ''issue-2''}"
    by (simp add: issue_ids_def fixture_defs)
  have deleted: "issue_ids (serve tracker_sdk (ReqDeleteIssue (JStr ''MAP-1'')) fixture) = {''issue-2''}"
    by (simp add: issue_ids_def tracker_sdk_def tracker_deleteIssue_def served_def names_issue_def
          fixture_defs Let_def)
  show ?thesis
    by (intro conjI tools_never_delete_a_ticket [OF keeps, THEN conjunct1] before deleted)
qed

section \<open>Start-up\<close>

lemma error_is_always_logged: "shouldLog lg ''error''"
  by (simp add: shouldLog_def indexOf_def Let_def)

lemma logger_error_line:
  "logger_error lg clock msg err con
     = con @ [\<lparr>line_method = ''error'',
                line_text = ''[ERROR] '' @ clock (length con) @ '' - '' @ msg,
                line_value = Some err\<rparr>]"
  by (simp add: logger_error_def error_is_always_logged)

lemma failed_construction_is_fatal:
  assumes "truthy_env (env ''LINEAR_API_KEY'') = Some key"
    and "truthy_env (env ''LINEAR_TEAM_ID'') = Some team"
  shows "exitCode (main env clock rt mkSDK (Some err) connect) = Some 1"
    and "server (main env clock rt mkSDK (Some err) connect) = None"
    and "\<not> connected (main env clock rt mkSDK (Some err) connect)"
  using assms by (simp_all add: main_def fail_start_def Let_def)

lemma start_with_configuration:
  assumes "truthy_env (env ''LINEAR_API_KEY'') = Some key"
    and "truthy_env (env ''LINEAR_TEAM_ID'') = Some team"
  shows "exitCode (main env clock rt mkSDK None None) = None"
    and "linearClient (main env clock rt mkSDK None None) = Some \<lparr>client = mkSDK key, teamId = team\<rparr>"
    and "connected (main env clock rt mkSDK None None)"
  using assms by (simp_all add: main_def Let_def)

text \<open>
  Claim C6. When \<open>LINEAR_API_KEY\<close> or \<open>LINEAR_TEAM_ID\<close> is unset or empty at start-up,
  \<open>main\<close> ends the process with exit code 1, having constructed neither the client nor
  the server and having connected nothing; the one line on the console is the error line
  of the logger, written at every log level, and the error it carries names the missing
  variable (the API key when both are missing).
\<close>

theorem missing_configuration_is_fatal:
  assumes "truthy_env (env ''LINEAR_API_KEY'') = None \<or> truthy_env (env ''LINEAR_TEAM_ID'') = None"
  shows "exitCode (main env clock rt mkSDK construction connect) = Some 1
         \<and> linearClient (main env clock rt mkSDK construction connect) = None
         \<and> server (main env clock rt mkSDK construction connect) = None
         \<and> \<not> connected (main env clock rt mkSDK construction connect)
         \<and> console (main env clock rt mkSDK construction connect)
             = [\<lparr>line_method = ''error'',
                 line_text = ''[ERROR] '' @ clock 0 @ '' - Failed to start Linear MCP Agent:'',
                 line_value =
                   Some (Error ((if truthy_env (env ''LINEAR_API_KEY'') = None
                                 then ''LINEAR_API_KEY'' else ''LINEAR_TEAM_ID'')
                                @ '' environment variable is required''))\<rparr>]"
  using assms
  by (auto simp: main_def fail_start_def logger_error_line Let_def split: option.splits)

theorem missing_configuration_is_fatal_witness:
  "truthy_env ([''LINEAR_API_KEY'' \<mapsto> ''lin_api_1'', ''LINEAR_TEAM_ID'' \<mapsto> []] ''LINEAR_TEAM_ID'') = None
   \<and> exitCode (main [''LINEAR_API_KEY'' \<mapsto> ''lin_api_1'', ''LINEAR_TEAM_ID'' \<mapsto> []]
                   (\<lambda>n. epoch) fixture_rt (\<lambda>key. tracker_sdk) None None) = Some 1
   \<and> linearClient (main [''LINEAR_API_KEY'' \<mapsto> ''lin_api_1'', ''LINEAR_TEAM_ID'' \<mapsto> []]
                   (\<lambda>n. epoch) fixture_rt (\<lambda>key. tracker_sdk) None None) = None
   \<and> console (main [''LINEAR_API_KEY'' \<mapsto> ''lin_api_1'', ''LINEAR_TEAM_ID'' \<mapsto> []]
                   (\<lambda>n. epoch) fixture_rt (\<lambda>key. tracker_sdk) None None)
       = [\<lparr>line_method = ''error'',
           line_text = ''[ERROR] 1970-01-01T00:00:00.000Z - Failed to start Linear MCP Agent:'',
           line_value = Some (Error ''LINEAR_TEAM_ID environment variable is required'')\<rparr>]"
proof -
  let ?env = "[''LINEAR_API_KEY'' \<mapsto> ''lin_api_1'', ''LINEAR_TEAM_ID'' \<mapsto> []]"
  have team: "truthy_env (?env ''LINEAR_TEAM_ID'') = None"
    by (simp add: truthy_env_def)
  have key: "truthy_env (?env ''LINEAR_API_KEY'') \<noteq> None"
    by (simp add: truthy_env_def)
  have missing: "truthy_env (?env ''LINEAR_API_KEY'') = None \<or> truthy_env (?env ''LINEAR_TEAM_ID'') = None"
    using team by (rule disjI2)
  note t = missing_configuration_is_fatal [of ?env, OF missing,
             of "\<lambda>n. epoch" fixture_rt "\<lambda>key. tracker_sdk" None None]
  have line: "console (main ?env (\<lambda>n. epoch) fixture_rt (\<lambda>key. tracker_sdk) None None)
       = [\<lparr>line_method = ''error'',
           line_text = ''[ERROR] 1970-01-01T00:00:00.000Z - Failed to start Linear MCP Agent:'',
           line_value = Some (Error ''LINEAR_TEAM_ID environment variable is required'')\<rparr>]"
    unfolding t [THEN conjunct2, THEN conjunct2, THEN conjunct2, THEN conjunct2]
    using key by (simp add: epoch_def)
  show ?thesis
    by (intro conjI team line t [THEN conjunct1] t [THEN conjunct2, THEN conjunct1])
qed

section \<open>The audit log\<close>

lemma audit_record_stage:
  "audit (record_stage now ticket stage input output st)
     = audit st @ [\<lparr>ae_timestamp = now, ae_ticket = ticket, ae_stage = stage,
                    ae_input = input, ae_output = output, ae_outcome = ''ok''\<rparr>]"
  by (simp add: record_stage_def)

lemma snapshots_record_stage:
  "snapshots (record_stage now ticket stage input output st) = snapshots st"
  by (simp add: record_stage_def)

lemma prefix_record_stage: "prefix (audit st) (audit (record_stage now ticket stage input output st))"
  by (simp add: audit_record_stage)

lemma prefix_record_failure:
  "prefix (audit st) (audit (snd (record_failure rc now ticket stage input error severity st)))"
  by (simp add: record_failure_def Let_def)

lemma audit_run_pipeline:
  "\<exists>new. audit (snd (run_pipeline comps rules now ticket body st)) = audit st @ new \<and> length new = 4"
  by (simp add: run_pipeline_def Let_def audit_record_stage split: prod.splits)

lemma prefix_engine_step: "prefix (audit st) (audit (engine_step comps rules rc x st))"
proof (cases x)
  case (Record now ticket stage entry_in entry_out)
  then show ?thesis by (simp add: prefix_record_stage)
next
  case (RecordFailure now ticket stage entry_in err severity)
  then show ?thesis by (simp add: prefix_record_failure)
next
  case (Analyze window)
  then show ?thesis by simp
next
  case (Pipeline now ticket body)
  then show ?thesis
    using audit_run_pipeline [of comps rules now ticket body st] by (auto simp: prefix_def)
qed

lemma sample_log:
  "map ae_stage (audit (engine_run sample_components sample_rules sample_recorder
       [Pipeline 1 ''MAP-7'' sample_content,
        RecordFailure 2 ''MAP-7'' ''route'' Nothing ''timeout'' 3] empty_state))
     = [''classify'', ''leanify'', ''prioritize'', ''route'', ''route'']"
  by (simp add: run_pipeline_def record_stage_def record_failure_def empty_state_def Let_def
        split: prod.splits)

text \<open>
  Claim C8. The audit log is append-only: whatever sequence of recorder and pipeline
  operations the engine runs (\<open>record\<close>, \<open>record_failure\<close>, \<open>analyze\<close>, a pipeline run),
  the audit log before the sequence is a prefix of the audit log after it, so no entry
  once written is changed or removed.
\<close>

theorem audit_log_is_append_only:
  "prefix (audit st) (audit (engine_run comps rules rc ops st))"
proof (induction ops arbitrary: st)
  case Nil
  show ?case by simp
next
  case (Cons x xs)
  have "prefix (audit st) (audit (engine_step comps rules rc x st))"
    by (rule prefix_engine_step)
  also have "prefix \<dots> (audit (engine_run comps rules rc xs (engine_step comps rules rc x st)))"
    by (rule Cons.IH)
  finally show ?case by simp
qed

theorem audit_log_is_append_only_witness:
  "prefix (audit (engine_run sample_components sample_rules sample_recorder
                    [Pipeline 1 ''MAP-7'' sample_content] empty_state))
          (audit (engine_run sample_components sample_rules sample_recorder
                    [RecordFailure 2 ''MAP-7'' ''route'' Nothing ''timeout'' 3, Analyze 10,
                     Pipeline 3 ''MAP-7'' sample_content]
                    (engine_run sample_components sample_rules sample_recorder
                       [Pipeline 1 ''MAP-7'' sample_content] empty_state)))
   \<and> length (audit (engine_run sample_components sample_rules sample_recorder
                       [Pipeline 1 ''MAP-7'' sample_content] empty_state)) = 4"
proof -
  have "length (audit (engine_run sample_components sample_rules sample_recorder
                       [Pipeline 1 ''MAP-7'' sample_content] empty_state)) = 4"
    using audit_run_pipeline [of sample_components sample_rules 1 "''MAP-7''" sample_content empty_state]
    by (auto simp: empty_state_def)
  then show ?thesis
    using audit_log_is_append_only by blast
qed

section \<open>Idempotence of the pipeline\<close>

lemma lookup_after_run:
  "lookup_snapshot (snd (run_pipeline comps rules now ticket body st)) ticket (content_hash comps body)
     = Some (fst (fst (run_pipeline comps rules now ticket body st)))"
  by (simp add: run_pipeline_def Let_def lookup_snapshot_def update_conv' split: prod.splits)

lemma outputs_from_classification:
  "fst (run_pipeline comps rules now ticket body st)
     = (let c = (case lookup_snapshot st ticket (content_hash comps body) of
                   Some c \<Rightarrow> c
                 | None \<Rightarrow> classify comps body);
            p = prioritize rules c;
            r = route rules c p
        in (c, p, \<lparr>rd_route = fst r, rd_rationale = snd r,
                   rd_artifact = build_artifact (fst r) (leanify comps body c) (tc_repos body)\<rparr>))"
  by (simp add: run_pipeline_def Let_def split: prod.splits)

lemma sample_priority:
  "prioritize sample_rules sample_classification
     = \<lparr>ps_score = 3, ps_rationale = ''bridge +2; speculative -1''\<rparr>"
  by (simp add: prioritize_def funnel_table_def sample_rules_def sample_classification_def
        clamp_def show_delta_def show_nat_digit digits)

lemma sample_route:
  "route sample_rules sample_classification p = (Agent, ''large or multi-repository scope'')"
  by (simp add: route_def route_table_def sample_rules_def sample_classification_def)

lemma sample_first_run:
  "fst (run_pipeline sample_components sample_rules 1 ''MAP-7'' sample_content empty_state)
     = (sample_classification,
        \<lparr>ps_score = 3, ps_rationale = ''bridge +2; speculative -1''\<rparr>,
        \<lparr>rd_route = Agent, rd_rationale = ''large or multi-repository scope'',
         rd_artifact = Brief (sample_lean sample_content) [''solutions-app'', ''os'']\<rparr>)"
  by (simp add: outputs_from_classification lookup_snapshot_def empty_state_def
        sample_components_def sample_priority sample_route build_artifact_def Let_def
        sample_content_def)

text \<open>
  Claim C2. For a ticket with unchanged content and a fixed configuration, running the
  pipeline twice in succession gives the same outputs both times: the second run, which
  starts from the state the first one left (a longer audit log and an updated snapshot),
  returns the same classification, the same priority score with the same rationale
  string, and the same routing decision as the first, whatever the state before the first
  run and whatever the times of the two runs.
\<close>

theorem pipeline_is_idempotent:
  "fst (run_pipeline comps rules later ticket body
          (snd (run_pipeline comps rules now ticket body st)))
     = fst (run_pipeline comps rules now ticket body st)"
proof -
  let ?first = "run_pipeline comps rules now ticket body st"
  have "fst (run_pipeline comps rules later ticket body (snd ?first))
          = (let c = fst (fst ?first); p = prioritize rules c; r = route rules c p
             in (c, p, \<lparr>rd_route = fst r, rd_rationale = snd r,
                        rd_artifact = build_artifact (fst r) (leanify comps body c) (tc_repos body)\<rparr>))"
    by (simp add: outputs_from_classification [of _ _ later] lookup_after_run)
  also have "\<dots> = fst ?first"
    by (simp add: outputs_from_classification [of _ _ now] Let_def)
  finally show ?thesis .
qed

theorem pipeline_is_idempotent_witness:
  "fst (run_pipeline sample_components sample_rules 2 ''MAP-7'' sample_content
          (snd (run_pipeline sample_components sample_rules 1 ''MAP-7'' sample_content empty_state)))
     = (sample_classification,
        \<lparr>ps_score = 3, ps_rationale = ''bridge +2; speculative -1''\<rparr>,
        \<lparr>rd_route = Agent, rd_rationale = ''large or multi-repository scope'',
         rd_artifact = Brief (sample_lean sample_content) [''solutions-app'', ''os'']\<rparr>)"
  using pipeline_is_idempotent [of sample_components sample_rules 2 "''MAP-7''" sample_content 1 empty_state]
  by (simp only: sample_first_run)

section \<open>The range of a priority score\<close>

lemma clamp_in_range:
  assumes "lo \<le> hi"
  shows "lo \<le> clamp lo hi x" and "clamp lo hi x \<le> hi"
  using assms by (simp_all add: clamp_def)

lemma clamp_cases:
  assumes "lo \<le> hi"
  shows "clamp lo hi x = (if x < lo then lo else if x > hi then hi else x)"
  using assms by (simp add: clamp_def)

lemma sum_of_applied_deltas:
  "sum_list (map (\<lambda>(label, cond, delta). delta) (filter (\<lambda>(label, cond, delta). cond c) table))
     = sum_list (map (\<lambda>(label, cond, delta). if cond c then delta else 0) table)"
  by (induction table) auto

lemma score_of_pipeline:
  "fst (snd (fst (run_pipeline comps rules now ticket body st)))
     = prioritize rules (fst (fst (run_pipeline comps rules now ticket body st)))"
  by (simp add: outputs_from_classification Let_def)

lemma priority_of_shaped_ticket:
  "t_priority (fst (shape_ticket comps rules now t st))
     = ps_score (fst (snd (fst (run_pipeline comps rules now (t_id t) (t_content t) st))))"
  by (simp add: shape_ticket_def attach_def split: prod.splits)

text \<open>
  Claim C3. Every priority score the engine produces or writes onto a ticket lies within
  the configured range. For every classification and every configuration of baseline and
  boost and demotion deltas whose bounds are in order, the score of the Prioritizer is the
  baseline plus the deltas of the rules that apply, cut to the lower bound when it falls
  below and to the upper bound when it rises above, and so lies between the bounds; the
  score that a pipeline run returns and the priority that its write-back puts onto the
  ticket are such scores. With the bounds 0 and 4 of the code, every score has a label in
  \<open>LINEAR_PRIORITY_MAP\<close>. Handed to \<open>create_issue\<close> or \<open>update_issue\<close> as the
  \<open>priority\<close> argument, such a score reaches the tracker as it is, within the bounds.
  (The tools do no range check of their own: they pass on whatever priority they are
  handed, see \<open>tool_layer_forwards_priority\<close>.)
\<close>

theorem priority_score_is_clamped:
  assumes bounds: "priority_min rules \<le> priority_max rules"
  shows "priority_min rules \<le> ps_score (prioritize rules cl)
         \<and> ps_score (prioritize rules cl) \<le> priority_max rules
         \<and> ps_score (prioritize rules cl)
             = (let raw = baseline rules
                          + sum_list (map (\<lambda>(label, cond, delta). if cond cl then delta else 0)
                                        (funnel_table rules))
                in if raw < priority_min rules then priority_min rules
                   else if raw > priority_max rules then priority_max rules
                   else raw)
         \<and> priority_min rules \<le> ps_score (fst (snd (fst (run_pipeline comps rules now ticket body st))))
         \<and> ps_score (fst (snd (fst (run_pipeline comps rules now ticket body st)))) \<le> priority_max rules
         \<and> priority_min rules \<le> t_priority (fst (shape_ticket comps rules now t st))
         \<and> t_priority (fst (shape_ticket comps rules now t st)) \<le> priority_max rules
         \<and> (priority_min rules = 0 \<and> priority_max rules = 4
              \<longrightarrow> LINEAR_PRIORITY_MAP (of_int (ps_score (prioritize rules cl))) \<noteq> None)
         \<and> (toolName \<in> {''create_issue'', ''update_issue''}
              \<and> validation_errors toolName a = []
              \<and> a ''priority'' = JNum (of_int (ps_score (prioritize rules cl)))
              \<longrightarrow> (\<exists>r x. tool_request toolName team a = Some r
                       \<and> written_priority r = JNum x
                       \<and> of_int (priority_min rules) \<le> x \<and> x \<le> of_int (priority_max rules)))"
proof -
  have range: "priority_min rules \<le> ps_score (prioritize rules c)
               \<and> ps_score (prioritize rules c) \<le> priority_max rules" for c
    using clamp_in_range [OF bounds] by (simp add: prioritize_def Let_def)
  have raw: "ps_score (prioritize rules cl)
             = (let raw = baseline rules
                          + sum_list (map (\<lambda>(label, cond, delta). if cond cl then delta else 0)
                                        (funnel_table rules))
                in if raw < priority_min rules then priority_min rules
                   else if raw > priority_max rules then priority_max rules
                   else raw)"
    unfolding prioritize_def Let_def sum_of_applied_deltas
    by (simp add: clamp_cases [OF bounds])
  have run: "priority_min rules \<le> ps_score (fst (snd (fst (run_pipeline comps rules now ticket body st))))
             \<and> ps_score (fst (snd (fst (run_pipeline comps rules now ticket body st)))) \<le> priority_max rules"
    for ticket body
    unfolding score_of_pipeline [of comps rules now ticket body st] by (rule range)
  have written: "priority_min rules \<le> t_priority (fst (shape_ticket comps rules now t st))
                 \<and> t_priority (fst (shape_ticket comps rules now t st)) \<le> priority_max rules"
    unfolding priority_of_shaped_ticket by (rule run)
  have label: "priority_min rules = 0 \<and> priority_max rules = 4
               \<longrightarrow> LINEAR_PRIORITY_MAP (of_int (ps_score (prioritize rules cl))) \<noteq> None"
  proof
    assume "priority_min rules = 0 \<and> priority_max rules = 4"
    with range [of cl] have "ps_score (prioritize rules cl) \<in> {0, 1, 2, 3, 4}"
      by auto
    then have "(of_int (ps_score (prioritize rules cl)) :: real) \<in> {0, 1, 2, 3, 4}"
      by auto
    then show "LINEAR_PRIORITY_MAP (of_int (ps_score (prioritize rules cl))) \<noteq> None"
      by (simp only: priority_labels_iff)
  qed
  have forwarded: "toolName \<in> {''create_issue'', ''update_issue''}
              \<and> validation_errors toolName a = []
              \<and> a ''priority'' = JNum (of_int (ps_score (prioritize rules cl)))
              \<longrightarrow> (\<exists>r x. tool_request toolName team a = Some r
                       \<and> written_priority r = JNum x
                       \<and> of_int (priority_min rules) \<le> x \<and> x \<le> of_int (priority_max rules))"
  proof
    assume a: "toolName \<in> {''create_issue'', ''update_issue''}
              \<and> validation_errors toolName a = []
              \<and> a ''priority'' = JNum (of_int (ps_score (prioritize rules cl)))"
    then have "\<exists>r. tool_request toolName team a = Some r \<and> written_priority r = a ''priority''"
      using tool_layer_forwards_priority [of toolName team a, THEN conjunct2]
      by (auto simp: validation_errors_def)
    then obtain r where "tool_request toolName team a = Some r"
      and "written_priority r = JNum (of_int (ps_score (prioritize rules cl)))"
      using a by auto
    moreover have "(of_int (priority_min rules) :: real) \<le> of_int (ps_score (prioritize rules cl))"
      and "(of_int (ps_score (prioritize rules cl)) :: real) \<le> of_int (priority_max rules)"
      using range [of cl] by simp_all
    ultimately show "\<exists>r x. tool_request toolName team a = Some r
                       \<and> written_priority r = JNum x
                       \<and> of_int (priority_min rules) \<le> x \<and> x \<le> of_int (priority_max rules)"
      by blast
  qed
  show ?thesis
    by (intro conjI range [of cl, THEN conjunct1] range [of cl, THEN conjunct2] raw
          run [THEN conjunct1] run [THEN conjunct2]
          written [THEN conjunct1] written [THEN conjunct2] label forwarded)
qed

theorem priority_score_is_clamped_witness:
  "priority_min sample_rules \<le> priority_max sample_rules
   \<and> ps_score (prioritize (sample_rules\<lparr>bridge_boost := 9\<rparr>) sample_classification) = 4
   \<and> ps_score (prioritize (sample_rules\<lparr>speculative_demotion := 9, bridge_boost := 0\<rparr>)
                 sample_classification) = 0
   \<and> ps_score (prioritize sample_rules sample_classification) = 3
   \<and> LINEAR_PRIORITY_MAP 3 = Some ''Medium''"
proof -
  have bounds: "priority_min r \<le> priority_max r"
    if "priority_min r = 0" "priority_max r = 4" for r :: FunnelRules
    using that by simp
  have b0: "priority_min sample_rules \<le> priority_max sample_rules"
    by (simp add: sample_rules_def)
  have b1: "priority_min (sample_rules\<lparr>bridge_boost := 9\<rparr>) \<le> priority_max (sample_rules\<lparr>bridge_boost := 9\<rparr>)"
    by (simp add: sample_rules_def)
  have b2: "priority_min (sample_rules\<lparr>speculative_demotion := 9, bridge_boost := 0\<rparr>)
              \<le> priority_max (sample_rules\<lparr>speculative_demotion := 9, bridge_boost := 0\<rparr>)"
    by (simp add: sample_rules_def)
  note t0 = priority_score_is_clamped [OF b0, of sample_classification,
              THEN conjunct2, THEN conjunct2, THEN conjunct1]
  note t1 = priority_score_is_clamped [OF b1, of sample_classification,
              THEN conjunct2, THEN conjunct2, THEN conjunct1]
  note t2 = priority_score_is_clamped [OF b2, of sample_classification,
              THEN conjunct2, THEN conjunct2, THEN conjunct1]
  have s1: "ps_score (prioritize (sample_rules\<lparr>bridge_boost := 9\<rparr>) sample_classification) = 4"
    unfolding t1 by (simp add: funnel_table_def sample_rules_def sample_classification_def Let_def)
  have s2: "ps_score (prioritize (sample_rules\<lparr>speculative_demotion := 9, bridge_boost := 0\<rparr>)
                        sample_classification) = 0"
    unfolding t2 by (simp add: funnel_table_def sample_rules_def sample_classification_def Let_def)
  have s0: "ps_score (prioritize sample_rules sample_classification) = 3"
    unfolding t0 by (simp add: funnel_table_def sample_rules_def sample_classification_def Let_def)
  have l: "LINEAR_PRIORITY_MAP 3 = Some ''Medium''"
    by (simp add: LINEAR_PRIORITY_MAP_def)
  show ?thesis
    by (intro conjI b0 s1 s2 s0 l)
qed

end
